theory Spec2Isabelle
  imports Main "HOL-Library.Word"
begin

unbundle bit_operations_syntax

section \<open>Machine types\<close>

type_synonym UINT64 = "64 word"
type_synonym UINT32 = "32 word"
type_synonym UINT16 = "16 word"
type_synonym UINT8 = "8 word"

text \<open>The C type \<open>int\<close> of the Windows x64 ABI: 32 bits, two's complement. A value of
  this type is kept as its bit pattern; \<open>sint\<close> reads it as a signed number.\<close>

type_synonym INT32 = "32 word"

text \<open>The conversion of an \<open>int\<close> to \<open>UINT64\<close> (an assignment such as
  \<open>GuestContext->VpRegs->Rax = registers[0]\<close>): the signed value modulo \<open>2^64\<close>.\<close>

definition int_to_UINT64 :: "INT32 \<Rightarrow> UINT64" where
  "int_to_UINT64 x = word_of_int (sint x)"

text \<open>\<open>static_cast<int>\<close> of a \<open>UINT64\<close>: the low 32 bits.\<close>

definition static_cast_int :: "UINT64 \<Rightarrow> INT32" where
  "static_cast_int x = ucast x"

text \<open>A multi-character constant such as \<open>'NmvS'\<close>: the compiler of the driver (MSVC)
  gives it the \<open>int\<close> whose bytes are the characters, the first one most significant.\<close>

definition multichar :: "string \<Rightarrow> INT32" where
  "multichar s = foldl (\<lambda>acc c. push_bit 8 acc + of_char c) 0 s"

text \<open>The four bytes of an \<open>int\<close> in memory (x64 is little-endian), as
  \<open>RtlCopyMemory(dst, &registers[i], sizeof(registers[i]))\<close> copies them.\<close>

definition int_bytes :: "INT32 \<Rightarrow> UINT8 list" where
  "int_bytes x = [ucast x, ucast (drop_bit 8 x), ucast (drop_bit 16 x), ucast (drop_bit 24 x)]"

text \<open>A string literal as the bytes of its array, the terminating NUL included.\<close>

definition c_string :: "string \<Rightarrow> UINT8 list" where
  "c_string s = map of_char s @ [0]"

text \<open>\<open>strcmp\<close> on two byte buffers: bytes are compared as unsigned values up to the first
  difference or the terminating NUL. A buffer that ends before its NUL is read out of
  bounds: \<open>None\<close>.\<close>

fun strcmp :: "UINT8 list \<Rightarrow> UINT8 list \<Rightarrow> int option" where
  "strcmp (a # as) (b # bs) =
     (if a \<noteq> b then Some (if a < b then - 1 else 1)
      else if a = 0 then Some 0
      else strcmp as bs)"
| "strcmp _ _ = None"

section \<open>Constants and layouts declared in headers\<close>

text \<open>The headers \<open>SvmStruct.h\<close>, \<open>SvmTraps.h\<close>, \<open>SvmUtil.h\<close> and \<open>BaseUtil.h\<close> declare the
  constants and the bit-field layouts the functions below use. Their values are parameters
  of the model, collected in one record.\<close>

record SVM_DEFS =
  CPUID_PROCESSOR_AND_PROCESSOR_FEATURE_IDENTIFIERS :: INT32
  CPUID_HV_VENDOR_AND_MAX_FUNCTIONS :: INT32
  CPUID_HV_INTERFACE :: INT32
  CPUID_UNLOAD_SIMPLE_SVM :: INT32
  CPUID_HV_MAX :: INT32
  CPUID_FN0000_0001_ECX_HYPERVISOR_PRESENT :: INT32
  DPL_SYSTEM :: UINT16
  SEGMENT_ATTRIBUTE_Dpl :: "UINT16 \<Rightarrow> UINT16"
  VMEXIT_CPUID :: UINT64
  VMEXIT_MSR :: UINT64
  VMEXIT_VMRUN :: UINT64
  VMEXIT_VMMCALL :: UINT64
  VMEXIT_NPF :: UINT64
  VMEXIT_EXCEPTION_BP :: UINT64
  IA32_MSR_EFER :: UINT64
  IA32_MSR_LSTR :: UINT64
  IA32_MSR_VM_HSAVE :: UINT64
  NOT_EFER_SVME :: UINT64
  kIa32svmHsave :: UINT32
  SVM_MSR_PERMISSIONS_MAP_SIZE :: UINT32
  PML4_PageFrameNumber_bits :: nat
  PDP_PageFrameNumber_bits :: nat
  PDE_PageFrameNumber_bits :: nat
  EFER_SVME :: UINT64
  CPUID_MAX_STANDARD_FN_NUMBER_AND_VENDOR_STRING :: INT32
  CPUID_PROCESSOR_AND_PROCESSOR_FEATURE_IDENTIFIERS_EX :: INT32
  CPUID_SVM_FEATURES :: INT32
  CPUID_FN8000_0001_ECX_SVM :: INT32
  CPUID_FN8000_000A_EDX_NP :: INT32
  SVM_MSR_VM_CR :: UINT64
  SVM_VM_CR_SVMDIS :: UINT64
  EVENTINJ_AsUInt64 :: "UINT64 \<Rightarrow> UINT64 \<Rightarrow> UINT64 \<Rightarrow> UINT64 \<Rightarrow> UINT64"

text \<open>The labels of one \<open>switch\<close> are pairwise different (the compiler rejects a duplicate
  label), so the order in which the model tests them does not matter.\<close>

definition cpuid_labels_distinct :: "SVM_DEFS \<Rightarrow> bool" where
  "cpuid_labels_distinct D \<longleftrightarrow>
     distinct [CPUID_PROCESSOR_AND_PROCESSOR_FEATURE_IDENTIFIERS D,
               CPUID_HV_VENDOR_AND_MAX_FUNCTIONS D,
               CPUID_HV_INTERFACE D,
               CPUID_UNLOAD_SIMPLE_SVM D]"

definition vmexit_labels_distinct :: "SVM_DEFS \<Rightarrow> bool" where
  "vmexit_labels_distinct D \<longleftrightarrow>
     distinct [VMEXIT_CPUID D, VMEXIT_MSR D, VMEXIT_VMRUN D, VMEXIT_VMMCALL D, VMEXIT_NPF D]
     \<and> distinct [VMEXIT_CPUID D, VMEXIT_MSR D, VMEXIT_VMRUN D, VMEXIT_VMMCALL D,
                 VMEXIT_EXCEPTION_BP D]"

definition msr_labels_distinct :: "SVM_DEFS \<Rightarrow> bool" where
  "msr_labels_distinct D \<longleftrightarrow> distinct [IA32_MSR_EFER D, IA32_MSR_LSTR D, IA32_MSR_VM_HSAVE D]"

text \<open>The values the AMD64 architecture and the hypervisor interface give these names; the
  segment attribute has its DPL in bits 5 and 6, an event injection has the vector in bits
  0 to 7, the type in bits 8 to 10, EV in bit 11 and V in bit 31. \<open>NOT_EFER_SVME\<close> is the value
  of the expression \<open>~EFER_SVME\<close> as \<open>__readmsr(IA32_MSR_EFER) & ~EFER_SVME\<close> uses it. The
  \<open>PageFrameNumber\<close> bit-field of a PML4 or PDP entry has 40 bits, that of a page
  directory entry for a 2 MB page has 31.\<close>

definition amd64_defs :: SVM_DEFS where
  "amd64_defs = \<lparr>
     CPUID_PROCESSOR_AND_PROCESSOR_FEATURE_IDENTIFIERS = 0x00000001,
     CPUID_HV_VENDOR_AND_MAX_FUNCTIONS = 0x40000000,
     CPUID_HV_INTERFACE = 0x40000001,
     CPUID_UNLOAD_SIMPLE_SVM = 0x41414141,
     CPUID_HV_MAX = 0x40000001,
     CPUID_FN0000_0001_ECX_HYPERVISOR_PRESENT = 0x80000000,
     DPL_SYSTEM = 0,
     SEGMENT_ATTRIBUTE_Dpl = (\<lambda>a. drop_bit 5 a AND 3),
     VMEXIT_CPUID = 0x72,
     VMEXIT_MSR = 0x7C,
     VMEXIT_VMRUN = 0x80,
     VMEXIT_VMMCALL = 0x81,
     VMEXIT_NPF = 0x400,
     VMEXIT_EXCEPTION_BP = 0x43,
     IA32_MSR_EFER = 0xC0000080,
     IA32_MSR_LSTR = 0xC0000082,
     IA32_MSR_VM_HSAVE = 0xC0010117,
     NOT_EFER_SVME = NOT 0x1000,
     kIa32svmHsave = 0xC0010117,
     SVM_MSR_PERMISSIONS_MAP_SIZE = 0x2000,
     PML4_PageFrameNumber_bits = 40,
     PDP_PageFrameNumber_bits = 40,
     PDE_PageFrameNumber_bits = 31,
     EFER_SVME = 0x1000,
     CPUID_MAX_STANDARD_FN_NUMBER_AND_VENDOR_STRING = 0x00000000,
     CPUID_PROCESSOR_AND_PROCESSOR_FEATURE_IDENTIFIERS_EX = 0x80000001,
     CPUID_SVM_FEATURES = 0x8000000A,
     CPUID_FN8000_0001_ECX_SVM = 0x4,
     CPUID_FN8000_000A_EDX_NP = 0x1,
     SVM_MSR_VM_CR = 0xC0010114,
     SVM_VM_CR_SVMDIS = 0x10,
     EVENTINJ_AsUInt64 = (\<lambda>vector type ev v.
        (vector AND 0xFF) OR push_bit 8 (type AND 7) OR push_bit 11 (ev AND 1)
          OR push_bit 31 (v AND 1)) \<rparr>"

section \<open>Data model of the VM-exit path\<close>

text \<open>\<open>EXIT_REASON\<close> and \<open>CPU_MODE\<close> are enumerations of \<open>SvmStruct.h\<close>; the functions below
  name two enumerators of each. The last constructor stands for any further enumerator.\<close>

datatype EXIT_REASON = EXIT_NOTHING | EXIT_EXIT | EXIT_OTHER nat

datatype CPU_MODE = ProtectedMode | VmxMode | OTHER_MODE nat

text \<open>The general purpose registers the exit path reads or writes.\<close>

record GUEST_REGISTERS =
  Rax :: UINT64
  Rbx :: UINT64
  Rcx :: UINT64
  Rdx :: UINT64

text \<open>The fields of a VMCB that the exit path reads or writes, named by their path in the
  structure (\<open>ControlArea.ExitCode\<close>, \<open>StateSaveArea.Rax\<close>).\<close>

record VMCB =
  ControlArea_ExitCode :: UINT64
  ControlArea_ExitInfo1 :: UINT64
  ControlArea_ExitInfo2 :: UINT64
  ControlArea_ExitIntInfo :: UINT64
  ControlArea_NRip :: UINT64
  ControlArea_EventInj :: UINT64
  StateSaveArea_Rax :: UINT64
  StateSaveArea_Rsp :: UINT64
  StateSaveArea_Rip :: UINT64
  StateSaveArea_Rflags :: UINT64
  StateSaveArea_Cpl :: UINT8
  StateSaveArea_LStar :: UINT64
  StateSaveArea_SsAttrib :: UINT16

text \<open>A VMCB in zeroed memory.\<close>

definition zero_VMCB :: VMCB where
  "zero_VMCB = \<lparr>ControlArea_ExitCode = 0, ControlArea_ExitInfo1 = 0, ControlArea_ExitInfo2 = 0,
     ControlArea_ExitIntInfo = 0, ControlArea_NRip = 0, ControlArea_EventInj = 0,
     StateSaveArea_Rax = 0, StateSaveArea_Rsp = 0, StateSaveArea_Rip = 0,
     StateSaveArea_Rflags = 0, StateSaveArea_Cpl = 0, StateSaveArea_LStar = 0,
     StateSaveArea_SsAttrib = 0\<rparr>"

record VCPUVMX =
  vmcb_host_02_pa :: UINT64
  vmcb_guest_02_pa :: UINT64
  vmcb_guest_12_pa :: UINT64

text \<open>A \<open>PVMCB\<close> points to the guest VMCB embedded in the per-processor data or to a VMCB
  elsewhere in memory; \<open>None\<close> is the null pointer. Two physical addresses may translate
  to the same VMCB.\<close>

datatype vmcb_ref = VpData_GuestVmcb | Vmcb_at UINT64

text \<open>What the host does to the processor, in order (the first element is the latest).\<close>

datatype host_op =
    svm_vmload UINT64
  | svm_stgi
  | disable_interrupts
  | writemsr UINT64 UINT64
  | writeeflags UINT64
  | debug_break

text \<open>Everything \<open>SvHandleVmExit\<close> and its handlers reach through \<open>VpData\<close> and
  \<open>GuestRegisters\<close>, and the local \<open>guestContext\<close>: the address \<open>VpData\<close> of the
  per-processor data, its host stack layout, the block \<open>pProcessNestData\<close> points to (its
  mode and its inner vCPU), the VMCBs, the register snapshot, and the MSRs and the
  operations of the processor the host code runs on.\<close>

record VMEXIT_STATE =
  VpData :: UINT64
  HostStackLayout_HostVmcbPa :: UINT64
  HostStackLayout_GuestVmcbPa :: UINT64
  HostStackLayout_Self :: UINT64
  HostStackLayout_SharedVpData :: UINT64
  HostStackLayout_pProcessNestData :: UINT64
  HostStackLayout_Reserved1 :: UINT64
  pProcessNestData_CpuMode :: CPU_MODE
  pProcessNestData_vcpu_vmx :: "VCPUVMX option"
  Vmcbs :: "vmcb_ref \<Rightarrow> VMCB"
  VpRegs :: GUEST_REGISTERS
  ExitVm :: EXIT_REASON
  Msr :: "UINT64 \<Rightarrow> UINT64"
  Trace :: "host_op list"

text \<open>The kernel and the processor as the host code sees them: the \<open>CPUID\<close> instruction
  executed by the host, \<open>MmGetVirtualForPhysical\<close>, \<open>MmGetPhysicalAddress\<close> of the embedded
  guest VMCB, and whether a kernel debugger is attached (\<open>SV_DEBUG_BREAK\<close> breaks into it
  and does nothing without one).\<close>

record HOST_ENV =
  cpuidex :: "INT32 \<Rightarrow> INT32 \<Rightarrow> INT32 \<times> INT32 \<times> INT32 \<times> INT32"
  MmGetVirtualForPhysical :: "UINT64 \<Rightarrow> vmcb_ref option"
  MmGetPhysicalAddress_GuestVmcb :: UINT64

definition UtilVaFromPa :: "HOST_ENV \<Rightarrow> UINT64 \<Rightarrow> vmcb_ref option" where
  "UtilVaFromPa E pa = MmGetVirtualForPhysical E pa"

definition GuestVmcb :: "VMEXIT_STATE \<Rightarrow> VMCB" where
  "GuestVmcb s = Vmcbs s VpData_GuestVmcb"

definition update_vmcb :: "vmcb_ref \<Rightarrow> (VMCB \<Rightarrow> VMCB) \<Rightarrow> VMEXIT_STATE \<Rightarrow> VMEXIT_STATE" where
  "update_vmcb p f s = s\<lparr>Vmcbs := (Vmcbs s)(p := f (Vmcbs s p))\<rparr>"

section \<open>SvHandleCpuid\<close>

text \<open>The \<open>registers\<close> array and \<open>GuestContext->ExitVm\<close> after the \<open>switch (leaf)\<close>. The case
  \<open>CPUID_UNLOAD_SIMPLE_SVM\<close> falls through to \<open>default\<close> when the sub-leaf differs.\<close>

definition SvHandleCpuid_switch ::
  "SVM_DEFS \<Rightarrow> HOST_ENV \<Rightarrow> VMEXIT_STATE \<Rightarrow> (INT32 \<times> INT32 \<times> INT32 \<times> INT32) \<times> EXIT_REASON" where
  "SvHandleCpuid_switch D E s =
     (let leaf = static_cast_int (Rax (VpRegs s));
          subLeaf = static_cast_int (Rcx (VpRegs s));
          (r0, r1, r2, r3) = cpuidex E leaf subLeaf
      in if leaf = CPUID_PROCESSOR_AND_PROCESSOR_FEATURE_IDENTIFIERS D then
           ((r0, r1, r2, r3 OR CPUID_FN0000_0001_ECX_HYPERVISOR_PRESENT D), ExitVm s)
         else if leaf = CPUID_HV_VENDOR_AND_MAX_FUNCTIONS D then
           ((CPUID_HV_MAX D, multichar ''NmvS'', multichar '' tse'', multichar ''    ''),
            ExitVm s)
         else if leaf = CPUID_HV_INTERFACE D then
           ((multichar ''0#vH'', 0, 0, 0), ExitVm s)
         else if leaf = CPUID_UNLOAD_SIMPLE_SVM D then
           (if subLeaf = CPUID_UNLOAD_SIMPLE_SVM D then
              (if SEGMENT_ATTRIBUTE_Dpl D (StateSaveArea_SsAttrib (GuestVmcb s)) = DPL_SYSTEM D
               then ((r0, r1, r2, r3), EXIT_EXIT)
               else ((r0, r1, r2, r3), ExitVm s))
            else ((r0, r1, r2, r3), ExitVm s))
         else ((r0, r1, r2, r3), ExitVm s))"

text \<open>The debug print of the results changes nothing of the state and is left out.\<close>

definition SvHandleCpuid :: "SVM_DEFS \<Rightarrow> HOST_ENV \<Rightarrow> VMEXIT_STATE \<Rightarrow> VMEXIT_STATE" where
  "SvHandleCpuid D E s =
     (let ((r0, r1, r2, r3), exitVm) = SvHandleCpuid_switch D E s;
          s1 = s\<lparr>ExitVm := exitVm,
                 VpRegs := (VpRegs s)\<lparr>Rax := int_to_UINT64 r0, Rbx := int_to_UINT64 r1,
                                       Rcx := int_to_UINT64 r2, Rdx := int_to_UINT64 r3\<rparr>\<rparr>
      in update_vmcb VpData_GuestVmcb
           (\<lambda>v. v\<lparr>StateSaveArea_Rip := ControlArea_NRip v\<rparr>) s1)"

section \<open>SvIsSimpleSvmHypervisorInstalled\<close>

text \<open>The test, on the four registers that \<open>__cpuid(registers,
  CPUID_HV_VENDOR_AND_MAX_FUNCTIONS)\<close> has filled.\<close>

definition vendorId_of :: "INT32 \<times> INT32 \<times> INT32 \<times> INT32 \<Rightarrow> UINT8 list" where
  "vendorId_of registers =
     (case registers of (r0, r1, r2, r3) \<Rightarrow> int_bytes r1 @ int_bytes r2 @ int_bytes r3 @ [0])"

definition IsInstalled_on :: "INT32 \<times> INT32 \<times> INT32 \<times> INT32 \<Rightarrow> bool" where
  "IsInstalled_on registers \<longleftrightarrow>
     strcmp (vendorId_of registers) (c_string ''SvmNest     '') = Some 0"

text \<open>\<open>cpuid\<close> is the instruction as the caller sees it: executed by the hardware, or
  intercepted and answered by the hypervisor.\<close>

definition SvIsSimpleSvmHypervisorInstalled ::
  "SVM_DEFS \<Rightarrow> (INT32 \<Rightarrow> INT32 \<Rightarrow> INT32 \<times> INT32 \<times> INT32 \<times> INT32) \<Rightarrow> bool" where
  "SvIsSimpleSvmHypervisorInstalled D cpuid \<longleftrightarrow>
     IsInstalled_on (cpuid (CPUID_HV_VENDOR_AND_MAX_FUNCTIONS D) 0)"

text \<open>What a guest reads after its \<open>CPUID\<close> was intercepted and handled: the low halves
  of the four registers the handler left in the register snapshot.\<close>

definition guest_cpuid_result :: "VMEXIT_STATE \<Rightarrow> INT32 \<times> INT32 \<times> INT32 \<times> INT32" where
  "guest_cpuid_result s =
     (ucast (Rax (VpRegs s)), ucast (Rbx (VpRegs s)), ucast (Rcx (VpRegs s)),
      ucast (Rdx (VpRegs s)))"

text \<open>A \<open>CPUID\<close> of the guest that is intercepted and handled by \<open>SvHandleCpuid\<close>: the
  guest has the leaf in EAX and the sub-leaf in ECX (\<open>__cpuid\<close> and \<open>__cpuidex\<close> load the
  32-bit registers, which clears the upper halves), and reads the answer from the
  registers behind the handler.\<close>

definition answered_by_SvHandleCpuid ::
  "SVM_DEFS \<Rightarrow> HOST_ENV \<Rightarrow> VMEXIT_STATE \<Rightarrow> INT32 \<Rightarrow> INT32 \<Rightarrow> INT32 \<times> INT32 \<times> INT32 \<times> INT32" where
  "answered_by_SvHandleCpuid D E s leaf subLeaf =
     guest_cpuid_result
       (SvHandleCpuid D E (s\<lparr>VpRegs := (VpRegs s)\<lparr>Rax := ucast leaf, Rcx := ucast subLeaf\<rparr>\<rparr>))"

section \<open>SvHandleVmExit\<close>

text \<open>The ways in which the code stops without a return: \<open>KeBugCheck\<close> halts the system, a
  read or write through a null pointer faults, the pool stops the system when memory is
  freed that it has not allocated, a bitmap routine writes outside its buffer, and a loop
  may run forever.\<close>

datatype host_fault =
    KeBugCheck_MANUALLY_INITIATED_CRASH
  | Null_pointer_access
  | Invalid_free
  | Write_outside_buffer
  | Never_returns

text \<open>The handlers defined in \<open>SvmTraps\<close> and \<open>HookSyscall\<close> are parameters: each one takes
  and returns the state reachable through its arguments \<open>VpData\<close> and \<open>GuestContext\<close>, or
  stops the host.\<close>

record HANDLERS =
  SvHandleEffer :: "VMEXIT_STATE \<Rightarrow> host_fault + VMEXIT_STATE"
  SvHandleLstrRead :: "VMEXIT_STATE \<Rightarrow> host_fault + VMEXIT_STATE"
  SvHandleSvmHsave :: "VMEXIT_STATE \<Rightarrow> host_fault + VMEXIT_STATE"
  SvHandleVmrunEx :: "VMEXIT_STATE \<Rightarrow> host_fault + VMEXIT_STATE"
  SvHandleVmmcall :: "VMEXIT_STATE \<Rightarrow> host_fault + VMEXIT_STATE"
  SvHandleCpuidForL2ToL1 :: "VMEXIT_STATE \<Rightarrow> host_fault + VMEXIT_STATE"
  SvHandleMsrAccessNest :: "VMEXIT_STATE \<Rightarrow> host_fault + VMEXIT_STATE"
  SvHandleVmrunExForL1ToL2 :: "VMEXIT_STATE \<Rightarrow> host_fault + VMEXIT_STATE"
  SvHandleVmmcallNest :: "VMEXIT_STATE \<Rightarrow> host_fault + VMEXIT_STATE"
  SvHandleBreakPointExceptionNest :: "VMEXIT_STATE \<Rightarrow> host_fault + VMEXIT_STATE"

definition host_does :: "host_op \<Rightarrow> VMEXIT_STATE \<Rightarrow> VMEXIT_STATE" where
  "host_does op s = s\<lparr>Trace := op # Trace s\<rparr>"

text \<open>\<open>SV_DEBUG_BREAK()\<close> breaks into the kernel debugger when one is attached; execution
  continues behind it.\<close>

definition SV_DEBUG_BREAK :: "VMEXIT_STATE \<Rightarrow> VMEXIT_STATE" where
  "SV_DEBUG_BREAK s = host_does debug_break s"

definition SvInjectGeneralProtectionException :: "SVM_DEFS \<Rightarrow> VMEXIT_STATE \<Rightarrow> VMEXIT_STATE" where
  "SvInjectGeneralProtectionException D s =
     update_vmcb VpData_GuestVmcb
       (\<lambda>v. v\<lparr>ControlArea_EventInj := EVENTINJ_AsUInt64 D 13 3 1 1\<rparr>) s"

definition SvHandleMsrAccess ::
  "SVM_DEFS \<Rightarrow> HANDLERS \<Rightarrow> VMEXIT_STATE \<Rightarrow> host_fault + VMEXIT_STATE" where
  "SvHandleMsrAccess D H s =
     (let MsrNum = Rcx (VpRegs s)
      in if MsrNum = IA32_MSR_EFER D then SvHandleEffer H s
         else if MsrNum = IA32_MSR_LSTR D then SvHandleLstrRead H s
         else if MsrNum = IA32_MSR_VM_HSAVE D then SvHandleSvmHsave H s
         else Inr (SvInjectGeneralProtectionException D s))"

text \<open>The first statement: the host state that \<open>#VMEXIT\<close> has not loaded is loaded with
  \<open>VMLOAD\<close>. The \<open>else\<close> branch dereferences \<open>vcpu_vmx\<close>.\<close>

definition load_host_state :: "VMEXIT_STATE \<Rightarrow> host_fault + VMEXIT_STATE" where
  "load_host_state s =
     (if pProcessNestData_CpuMode s \<noteq> VmxMode \<and> pProcessNestData_vcpu_vmx s = None
      then Inr (host_does (svm_vmload (HostStackLayout_HostVmcbPa s)) s)
      else case pProcessNestData_vcpu_vmx s of
             None \<Rightarrow> Inl Null_pointer_access
           | Some vmx \<Rightarrow> Inr (host_does (svm_vmload (vmcb_host_02_pa vmx)) s))"

text \<open>The two \<open>switch\<close> statements on the exit code, each behind the reflection of the
  guest's RAX from the VMCB into the register snapshot.\<close>

definition handle_exit_flat ::
  "SVM_DEFS \<Rightarrow> HOST_ENV \<Rightarrow> HANDLERS \<Rightarrow> VMEXIT_STATE \<Rightarrow> host_fault + VMEXIT_STATE" where
  "handle_exit_flat D E H s =
     (let s1 = s\<lparr>VpRegs := (VpRegs s)\<lparr>Rax := StateSaveArea_Rax (GuestVmcb s)\<rparr>,
                 ExitVm := EXIT_NOTHING\<rparr>;
          ExitCode = ControlArea_ExitCode (GuestVmcb s1)
      in if ExitCode = VMEXIT_CPUID D then Inr (SvHandleCpuid D E s1)
         else if ExitCode = VMEXIT_MSR D then SvHandleMsrAccess D H s1
         else if ExitCode = VMEXIT_VMRUN D then SvHandleVmrunEx H s1
         else if ExitCode = VMEXIT_VMMCALL D then SvHandleVmmcall H s1
         else if ExitCode = VMEXIT_NPF D then Inr (SV_DEBUG_BREAK s1)
         else Inl KeBugCheck_MANUALLY_INITIATED_CRASH)"

definition handle_exit_nested ::
  "SVM_DEFS \<Rightarrow> HOST_ENV \<Rightarrow> HANDLERS \<Rightarrow> VMEXIT_STATE \<Rightarrow> host_fault + VMEXIT_STATE" where
  "handle_exit_nested D E H s =
     (case pProcessNestData_vcpu_vmx s of
        None \<Rightarrow> Inl Null_pointer_access
      | Some vmx \<Rightarrow>
         (case UtilVaFromPa E (vmcb_guest_02_pa vmx) of
            None \<Rightarrow> Inl Null_pointer_access
          | Some pVmcbGuest02va \<Rightarrow>
             (let ullExitCode = ControlArea_ExitCode (Vmcbs s pVmcbGuest02va);
                  s1 = s\<lparr>VpRegs := (VpRegs s)\<lparr>Rax := StateSaveArea_Rax (Vmcbs s pVmcbGuest02va)\<rparr>,
                         ExitVm := EXIT_NOTHING\<rparr>;
                  s2 = SV_DEBUG_BREAK s1
              in if ullExitCode = VMEXIT_CPUID D then SvHandleCpuidForL2ToL1 H s2
                 else if ullExitCode = VMEXIT_MSR D then SvHandleMsrAccessNest H s2
                 else if ullExitCode = VMEXIT_VMRUN D then SvHandleVmrunExForL1ToL2 H s2
                 else if ullExitCode = VMEXIT_VMMCALL D then SvHandleVmmcallNest H s2
                 else if ullExitCode = VMEXIT_EXCEPTION_BP D
                   then SvHandleBreakPointExceptionNest H s2
                 else Inl KeBugCheck_MANUALLY_INITIATED_CRASH)))"

text \<open>The termination of the hypervisor, entered when \<open>guestContext.ExitVm\<close> is
  \<open>EXIT_EXIT\<close>.\<close>

definition unload_path :: "SVM_DEFS \<Rightarrow> HOST_ENV \<Rightarrow> VMEXIT_STATE \<Rightarrow> VMEXIT_STATE" where
  "unload_path D E s =
     (let s1 = s\<lparr>VpRegs := (VpRegs s)\<lparr>
                   Rax := VpData s AND 0xFFFFFFFF,
                   Rbx := ControlArea_NRip (GuestVmcb s),
                   Rcx := StateSaveArea_Rsp (GuestVmcb s),
                   Rdx := drop_bit 32 (VpData s)\<rparr>\<rparr>;
          s2 = host_does (svm_vmload (MmGetPhysicalAddress_GuestVmcb E)) s1;
          s3 = host_does disable_interrupts s2;
          s4 = host_does svm_stgi s3;
          efer = Msr s4 (IA32_MSR_EFER D) AND NOT_EFER_SVME D;
          s5 = host_does (writemsr (IA32_MSR_EFER D) efer)
                 (s4\<lparr>Msr := (Msr s4)(IA32_MSR_EFER D := efer)\<rparr>)
      in host_does (writeeflags (StateSaveArea_Rflags (GuestVmcb s5))) s5)"

text \<open>The reflection of the guest's RAX from the register snapshot to the VMCB that
  \<open>VMRUN\<close> loads it from. The mode is read again here, behind the handler.\<close>

definition reflect_rax :: "HOST_ENV \<Rightarrow> VMEXIT_STATE \<Rightarrow> host_fault + VMEXIT_STATE" where
  "reflect_rax E s =
     (if pProcessNestData_CpuMode s \<noteq> VmxMode
      then Inr (update_vmcb VpData_GuestVmcb
                  (\<lambda>v. v\<lparr>StateSaveArea_Rax := Rax (VpRegs s)\<rparr>) s)
      else case pProcessNestData_vcpu_vmx s of
             None \<Rightarrow> Inl Null_pointer_access
           | Some vmx \<Rightarrow>
              (case UtilVaFromPa E (vmcb_guest_02_pa vmx) of
                 None \<Rightarrow> Inl Null_pointer_access
               | Some pVmcbGuest02va \<Rightarrow>
                  Inr (update_vmcb pVmcbGuest02va
                         (\<lambda>v. v\<lparr>StateSaveArea_Rax := Rax (VpRegs s)\<rparr>) s)))"

text \<open>\<open>NT_ASSERT\<close> compiles to nothing in a free build and is left out. The result is the
  returned \<open>guestContext.ExitVm\<close> with the state.\<close>

definition SvHandleVmExit ::
  "SVM_DEFS \<Rightarrow> HOST_ENV \<Rightarrow> HANDLERS \<Rightarrow> VMEXIT_STATE \<Rightarrow>
     host_fault + (EXIT_REASON \<times> VMEXIT_STATE)" where
  "SvHandleVmExit D E H s =
     (case load_host_state s of
        Inl f \<Rightarrow> Inl f
      | Inr s1 \<Rightarrow>
         (case (if pProcessNestData_CpuMode s1 \<noteq> VmxMode
                then handle_exit_flat D E H s1
                else handle_exit_nested D E H s1) of
            Inl f \<Rightarrow> Inl f
          | Inr s2 \<Rightarrow>
             if ExitVm s2 = EXIT_EXIT then Inr (ExitVm s2, unload_path D E s2)
             else (case reflect_rax E s2 of
                     Inl f \<Rightarrow> Inl f
                   | Inr s3 \<Rightarrow> Inr (ExitVm s3, s3))))"

section \<open>SaveGuestVmcb12FromGuestVmcb02\<close>

text \<open>One assignment \<open>dst->field = rhs\<close>: the right-hand side is read in the state the
  assignments before it have left.\<close>

definition store_field ::
  "vmcb_ref \<Rightarrow> (VMEXIT_STATE \<Rightarrow> 'a) \<Rightarrow> ('a \<Rightarrow> VMCB \<Rightarrow> VMCB) \<Rightarrow> VMEXIT_STATE \<Rightarrow> VMEXIT_STATE" where
  "store_field dst rhs set_field s = update_vmcb dst (set_field (rhs s)) s"

text \<open>The assignments of the function in the order of the source, for the two pointers
  \<open>pVmcbGuest02va\<close> and \<open>pVmcbGuest12va\<close>. The debug prints are left out.\<close>

definition SaveGuestVmcb12FromGuestVmcb02_assignments ::
  "VCPUVMX \<Rightarrow> vmcb_ref \<Rightarrow> vmcb_ref \<Rightarrow> (VMEXIT_STATE \<Rightarrow> VMEXIT_STATE) list" where
  "SaveGuestVmcb12FromGuestVmcb02_assignments vmx p02 p12 =
     [store_field p12 (\<lambda>s. Rax (VpRegs s)) (\<lambda>x v. v\<lparr>StateSaveArea_Rax := x\<rparr>),
      store_field p12 (\<lambda>s. StateSaveArea_Rsp (Vmcbs s p02)) (\<lambda>x v. v\<lparr>StateSaveArea_Rsp := x\<rparr>),
      store_field p12 (\<lambda>s. StateSaveArea_Rflags (Vmcbs s p02))
        (\<lambda>x v. v\<lparr>StateSaveArea_Rflags := x\<rparr>),
      store_field p12 (\<lambda>s. StateSaveArea_Rip (Vmcbs s p02)) (\<lambda>x v. v\<lparr>StateSaveArea_Rip := x\<rparr>),
      store_field p12 (\<lambda>s. ControlArea_NRip (Vmcbs s p02)) (\<lambda>x v. v\<lparr>ControlArea_NRip := x\<rparr>),
      store_field p12 (\<lambda>s. ControlArea_ExitCode (Vmcbs s p02))
        (\<lambda>x v. v\<lparr>ControlArea_ExitCode := x\<rparr>),
      store_field p12 (\<lambda>s. ControlArea_ExitInfo1 (Vmcbs s p02))
        (\<lambda>x v. v\<lparr>ControlArea_ExitInfo1 := x\<rparr>),
      store_field p12 (\<lambda>s. ControlArea_ExitInfo2 (Vmcbs s p02))
        (\<lambda>x v. v\<lparr>ControlArea_ExitInfo2 := x\<rparr>),
      store_field p12 (\<lambda>s. ControlArea_ExitIntInfo (Vmcbs s p02))
        (\<lambda>x v. v\<lparr>ControlArea_ExitIntInfo := x\<rparr>),
      store_field p12 (\<lambda>s. ControlArea_EventInj (Vmcbs s p02))
        (\<lambda>x v. v\<lparr>ControlArea_EventInj := x\<rparr>),
      store_field p12 (\<lambda>s. StateSaveArea_Cpl (Vmcbs s p02)) (\<lambda>x v. v\<lparr>StateSaveArea_Cpl := x\<rparr>),
      store_field p12 (\<lambda>s. StateSaveArea_LStar (Vmcbs s p02))
        (\<lambda>x v. v\<lparr>StateSaveArea_LStar := x\<rparr>),
      (\<lambda>s. s\<lparr>VpRegs := (VpRegs s)\<lparr>Rax := vmcb_guest_12_pa vmx\<rparr>\<rparr>),
      store_field p02 (\<lambda>s. StateSaveArea_Rsp (GuestVmcb s)) (\<lambda>x v. v\<lparr>StateSaveArea_Rsp := x\<rparr>),
      store_field p02 (\<lambda>s. ControlArea_NRip (GuestVmcb s)) (\<lambda>x v. v\<lparr>StateSaveArea_Rip := x\<rparr>),
      store_field p02 (\<lambda>s. StateSaveArea_Rflags (GuestVmcb s))
        (\<lambda>x v. v\<lparr>StateSaveArea_Rflags := x\<rparr>)]"

text \<open>The function: the two pointers come from \<open>UtilVaFromPa\<close>; with \<open>vcpu_vmx\<close> or one of
  them null the first access through it faults. Otherwise the assignments run one after
  the other.\<close>

definition SaveGuestVmcb12FromGuestVmcb02 ::
  "HOST_ENV \<Rightarrow> VMEXIT_STATE \<Rightarrow> host_fault + VMEXIT_STATE" where
  "SaveGuestVmcb12FromGuestVmcb02 E s =
     (case pProcessNestData_vcpu_vmx s of
        None \<Rightarrow> Inl Null_pointer_access
      | Some vmx \<Rightarrow>
         (case (UtilVaFromPa E (vmcb_guest_02_pa vmx), UtilVaFromPa E (vmcb_guest_12_pa vmx)) of
            (Some p02, Some p12) \<Rightarrow>
              Inr (fold (\<lambda>assignment s. assignment s)
                     (SaveGuestVmcb12FromGuestVmcb02_assignments vmx p02 p12) s)
          | _ \<Rightarrow> Inl Null_pointer_access))"

section \<open>SvBuildMsrPermissionsMap\<close>

text \<open>The bitmap routines of the kernel, on a buffer of \<open>ULONG\<close>s: bit \<open>n\<close> of the bitmap
  is bit \<open>n mod 32\<close> of the element \<open>n div 32\<close> (on x64, bit \<open>n mod 8\<close> of the byte
  \<open>n div 8\<close>). A routine that would write outside the buffer or outside the bitmap
  yields \<open>None\<close>.\<close>

record RTL_BITMAP =
  SizeOfBitMap :: nat
  Buffer :: "UINT32 list"

definition RtlInitializeBitMap :: "UINT32 list \<Rightarrow> nat \<Rightarrow> RTL_BITMAP" where
  "RtlInitializeBitMap BitMapBuffer SizeOfBitMap' =
     \<lparr>SizeOfBitMap = SizeOfBitMap', Buffer = BitMapBuffer\<rparr>"

definition RtlClearAllBits :: "RTL_BITMAP \<Rightarrow> RTL_BITMAP option" where
  "RtlClearAllBits bm =
     (let n = (SizeOfBitMap bm + 31) div 32
      in if n \<le> length (Buffer bm)
         then Some (bm\<lparr>Buffer := replicate n 0 @ drop n (Buffer bm)\<rparr>)
         else None)"

definition set_one_bit :: "nat \<Rightarrow> UINT32 list \<Rightarrow> UINT32 list" where
  "set_one_bit k buf = buf[k div 32 := set_bit (k mod 32) (buf ! (k div 32))]"

definition RtlSetBits :: "RTL_BITMAP \<Rightarrow> nat \<Rightarrow> nat \<Rightarrow> RTL_BITMAP option" where
  "RtlSetBits bm StartingIndex NumberToSet =
     (if StartingIndex + NumberToSet \<le> SizeOfBitMap bm
         \<and> (SizeOfBitMap bm + 31) div 32 \<le> length (Buffer bm)
      then Some (bm\<lparr>Buffer := fold set_one_bit [StartingIndex ..< StartingIndex + NumberToSet]
                                  (Buffer bm)\<rparr>)
      else None)"

text \<open>Bit \<open>n\<close> of the permissions map in memory.\<close>

definition msrpm_bit :: "UINT32 list \<Rightarrow> nat \<Rightarrow> bool" where
  "msrpm_bit buf n \<longleftrightarrow> bit (buf ! (n div 32)) (n mod 32)"

text \<open>The number of bits that are set among the first \<open>n\<close>.\<close>

definition msrpm_bits_set :: "UINT32 list \<Rightarrow> nat \<Rightarrow> nat" where
  "msrpm_bits_set buf n = length (filter (msrpm_bit buf) [0 ..< n])"

text \<open>The offsets are computed in \<open>UINT32\<close> and \<open>ULONG\<close>, both 32 bits wide; \<open>CHAR_BIT\<close> is
  8. The bit at \<open>offset\<close> intercepts reads of the MSR, the bit at \<open>offset + 1\<close> writes.\<close>

definition SECOND_MSR_RANGE_BASE :: UINT32 where "SECOND_MSR_RANGE_BASE = 0xc0000000"
definition THIRD_MSR_RANGE_BASE :: UINT32 where "THIRD_MSR_RANGE_BASE = 0xC0010000"
definition BITS_PER_MSR :: UINT32 where "BITS_PER_MSR = 2"
definition CHAR_BIT :: UINT32 where "CHAR_BIT = 8"
definition SECOND_MSRPM_OFFSET :: UINT32 where "SECOND_MSRPM_OFFSET = 0x800 * CHAR_BIT"
definition THIRD_MSRPM_OFFSET :: UINT32 where "THIRD_MSRPM_OFFSET = 0x1000 * CHAR_BIT"

definition efer_offset :: "SVM_DEFS \<Rightarrow> UINT32" where
  "efer_offset D =
     SECOND_MSRPM_OFFSET + (ucast (IA32_MSR_EFER D) - SECOND_MSR_RANGE_BASE) * BITS_PER_MSR"

definition lstar_offset :: "SVM_DEFS \<Rightarrow> UINT32" where
  "lstar_offset D =
     SECOND_MSRPM_OFFSET + (ucast (IA32_MSR_LSTR D) - SECOND_MSR_RANGE_BASE) * BITS_PER_MSR"

definition hsave_offset :: "SVM_DEFS \<Rightarrow> UINT32" where
  "hsave_offset D =
     THIRD_MSRPM_OFFSET + (kIa32svmHsave D - THIRD_MSR_RANGE_BASE) * BITS_PER_MSR"

text \<open>The function, on the memory \<open>MsrPermissionsMap\<close> points to; the result is that
  memory behind the call.\<close>

definition SvBuildMsrPermissionsMap :: "SVM_DEFS \<Rightarrow> UINT32 list \<Rightarrow> UINT32 list option" where
  "SvBuildMsrPermissionsMap D MsrPermissionsMap =
     (let bitmapHeader = RtlInitializeBitMap MsrPermissionsMap
                           (unat (SVM_MSR_PERMISSIONS_MAP_SIZE D * CHAR_BIT))
      in Option.bind (RtlClearAllBits bitmapHeader) (\<lambda>b0.
         Option.bind (RtlSetBits b0 (unat (efer_offset D + 1)) 1) (\<lambda>b1.
         Option.bind (RtlSetBits b1 (unat (lstar_offset D)) 1) (\<lambda>b2.
         Option.bind (RtlSetBits b2 (unat (lstar_offset D + 1)) 1) (\<lambda>b3.
         Option.bind (RtlSetBits b3 (unat (hsave_offset D)) 1) (\<lambda>b4.
         Option.bind (RtlSetBits b4 (unat (hsave_offset D + 1)) 1) (\<lambda>b5.
         Some (Buffer b5))))))))"

text \<open>Where the two bits of an MSR are in the map, after the table in the comment of the
  function (byte offset \<open>000h\<close> for the MSRs \<open>0000_0000h\<close> to \<open>0000_1FFFh\<close>, \<open>800h\<close> for
  \<open>C000_0000h\<close> to \<open>C000_1FFFh\<close>, \<open>1000h\<close> for \<open>C001_0000h\<close> to \<open>C001_1FFFh\<close>) and its
  documentation: two bits for each MSR, the lower one for reads, the upper one for
  writes.\<close>

definition msrpm_read_bit :: "UINT32 \<Rightarrow> nat option" where
  "msrpm_read_bit msr =
     (if msr \<le> 0x1FFF then Some (0x000 * 8 + 2 * unat msr)
      else if 0xC0000000 \<le> msr \<and> msr \<le> 0xC0001FFF
        then Some (0x800 * 8 + 2 * (unat msr - 0xC0000000))
      else if 0xC0010000 \<le> msr \<and> msr \<le> 0xC0011FFF
        then Some (0x1000 * 8 + 2 * (unat msr - 0xC0010000))
      else None)"

definition msrpm_write_bit :: "UINT32 \<Rightarrow> nat option" where
  "msrpm_write_bit msr = map_option Suc (msrpm_read_bit msr)"

text \<open>The MSRs of the function lie in the ranges whose bases it subtracts, and the map is
  large enough for the three ranges.\<close>

definition msrpm_defs_ok :: "SVM_DEFS \<Rightarrow> bool" where
  "msrpm_defs_ok D \<longleftrightarrow>
     0xC0000000 \<le> (ucast (IA32_MSR_EFER D) :: UINT32)
     \<and> (ucast (IA32_MSR_EFER D) :: UINT32) \<le> 0xC0001FFF
     \<and> 0xC0000000 \<le> (ucast (IA32_MSR_LSTR D) :: UINT32)
     \<and> (ucast (IA32_MSR_LSTR D) :: UINT32) \<le> 0xC0001FFF
     \<and> (ucast (IA32_MSR_EFER D) :: UINT32) \<noteq> ucast (IA32_MSR_LSTR D)
     \<and> 0xC0010000 \<le> kIa32svmHsave D \<and> kIa32svmHsave D \<le> 0xC0011FFF
     \<and> 0x1800 \<le> SVM_MSR_PERMISSIONS_MAP_SIZE D
     \<and> SVM_MSR_PERMISSIONS_MAP_SIZE D \<le> 0x10000000"

section \<open>SvBuildNestedPageTables\<close>

text \<open>The bit-fields of a nested page table entry that the function assigns. A one-bit
  field is a \<open>bool\<close>; an assignment to \<open>PageFrameNumber\<close> keeps the low bits that fit the
  width of the field.\<close>

record NPT_ENTRY =
  Valid :: bool
  Write :: bool
  User :: bool
  LargePage :: bool
  PageFrameNumber :: UINT64

text \<open>\<open>SHARED_VIRTUAL_PROCESSOR_DATA\<close>: the pointer \<open>MsrPermissionsMap\<close> and the tables
  \<open>Pml4Entries\<close>, \<open>PdpEntries[512]\<close> and \<open>PdeEntries[512][512]\<close>.\<close>

record SHARED_VIRTUAL_PROCESSOR_DATA =
  MsrPermissionsMap :: UINT64
  Pml4Entries :: "NPT_ENTRY list"
  PdpEntries :: "NPT_ENTRY list"
  PdeEntries :: "NPT_ENTRY list list"

text \<open>\<open>MmGetPhysicalAddress\<close> of \<open>&SharedVpData->PdpEntries\<close> and of
  \<open>&SharedVpData->PdeEntries[i][0]\<close>.\<close>

record SHARED_ADDRESSES =
  MmGetPhysicalAddress_PdpEntries :: UINT64
  MmGetPhysicalAddress_PdeEntries :: "nat \<Rightarrow> UINT64"

definition PAGE_SHIFT :: nat where "PAGE_SHIFT = 12"

text \<open>The body of the inner loop, for the counters \<open>i\<close> and \<open>j\<close>: \<open>translationPa\<close> is
  computed in \<open>ULONG64\<close>.\<close>

definition build_pde :: "SVM_DEFS \<Rightarrow> nat \<Rightarrow> nat \<Rightarrow> NPT_ENTRY \<Rightarrow> NPT_ENTRY" where
  "build_pde D i j e =
     (let translationPa = (of_nat i * 512) + of_nat j :: UINT64
      in e\<lparr>PageFrameNumber := take_bit (PDE_PageFrameNumber_bits D) translationPa,
            Valid := True, Write := True, User := True, LargePage := True\<rparr>)"

definition inner_loop_body ::
  "SVM_DEFS \<Rightarrow> nat \<Rightarrow> nat \<Rightarrow> NPT_ENTRY list list \<Rightarrow> NPT_ENTRY list list" where
  "inner_loop_body D i j pde = pde[i := (pde ! i)[j := build_pde D i j (pde ! i ! j)]]"

text \<open>The body of the outer loop: the page directory pointer entry \<open>i\<close>, then the inner
  loop \<open>for (j = 0; j < 512; j++)\<close>.\<close>

definition build_pdp :: "SVM_DEFS \<Rightarrow> SHARED_ADDRESSES \<Rightarrow> nat \<Rightarrow> NPT_ENTRY \<Rightarrow> NPT_ENTRY" where
  "build_pdp D A i e =
     (let pdeBasePa = MmGetPhysicalAddress_PdeEntries A i
      in e\<lparr>PageFrameNumber :=
              take_bit (PDP_PageFrameNumber_bits D) (drop_bit PAGE_SHIFT pdeBasePa),
            Valid := True, Write := True, User := True\<rparr>)"

definition outer_loop_body ::
  "SVM_DEFS \<Rightarrow> SHARED_ADDRESSES \<Rightarrow> nat \<Rightarrow> SHARED_VIRTUAL_PROCESSOR_DATA \<Rightarrow>
     SHARED_VIRTUAL_PROCESSOR_DATA" where
  "outer_loop_body D A i s =
     (let s1 = s\<lparr>PdpEntries := (PdpEntries s)[i := build_pdp D A i (PdpEntries s ! i)]\<rparr>
      in s1\<lparr>PdeEntries := fold (inner_loop_body D i) [0 ..< 512] (PdeEntries s1)\<rparr>)"

definition SvBuildNestedPageTables ::
  "SVM_DEFS \<Rightarrow> SHARED_ADDRESSES \<Rightarrow> SHARED_VIRTUAL_PROCESSOR_DATA \<Rightarrow>
     SHARED_VIRTUAL_PROCESSOR_DATA" where
  "SvBuildNestedPageTables D A SharedVpData =
     (let pdpBasePa = MmGetPhysicalAddress_PdpEntries A;
          s1 = SharedVpData\<lparr>Pml4Entries := (Pml4Entries SharedVpData)[0 :=
                 (Pml4Entries SharedVpData ! 0)\<lparr>
                    PageFrameNumber :=
                      take_bit (PML4_PageFrameNumber_bits D) (drop_bit PAGE_SHIFT pdpBasePa),
                    Valid := True, Write := True, User := True\<rparr>]\<rparr>
      in fold (outer_loop_body D A) [0 ..< 512] s1)"

text \<open>The structure as \<open>SvAllocatePageAlingedPhysicalMemory\<close> returns it: every byte zero.\<close>

definition zero_NPT_ENTRY :: NPT_ENTRY where
  "zero_NPT_ENTRY =
     \<lparr>Valid = False, Write = False, User = False, LargePage = False, PageFrameNumber = 0\<rparr>"

definition zero_SHARED_VIRTUAL_PROCESSOR_DATA :: SHARED_VIRTUAL_PROCESSOR_DATA where
  "zero_SHARED_VIRTUAL_PROCESSOR_DATA =
     \<lparr>MsrPermissionsMap = 0,
      Pml4Entries = [zero_NPT_ENTRY],
      PdpEntries = replicate 512 zero_NPT_ENTRY,
      PdeEntries = replicate 512 (replicate 512 zero_NPT_ENTRY)\<rparr>"

definition example_addresses :: SHARED_ADDRESSES where
  "example_addresses =
     \<lparr>MmGetPhysicalAddress_PdpEntries = 0x100001000,
      MmGetPhysicalAddress_PdeEntries = (\<lambda>i. 0x100002000 + 0x1000 * of_nat i)\<rparr>"

section \<open>SvExecuteOnEachProcessor\<close>

text \<open>\<open>NTSTATUS\<close> is a signed 32-bit value; \<open>NT_SUCCESS\<close> is the macro
  \<open>((NTSTATUS)(Status)) >= 0\<close>. The status codes are those of \<open>ntstatus.h\<close>.\<close>

type_synonym NTSTATUS = INT32

definition NT_SUCCESS :: "NTSTATUS \<Rightarrow> bool" where
  "NT_SUCCESS Status \<longleftrightarrow> 0 \<le> sint Status"

definition STATUS_SUCCESS :: NTSTATUS where "STATUS_SUCCESS = 0x00000000"
definition STATUS_INVALID_PARAMETER_1 :: NTSTATUS where "STATUS_INVALID_PARAMETER_1 = 0xC00000EF"
definition STATUS_INSUFFICIENT_RESOURCES :: NTSTATUS where
  "STATUS_INSUFFICIENT_RESOURCES = 0xC000009A"
definition STATUS_HV_FEATURE_UNAVAILABLE :: NTSTATUS where
  "STATUS_HV_FEATURE_UNAVAILABLE = 0xC035001E"

record PROCESSOR_NUMBER =
  Group :: UINT16
  Number :: UINT8

text \<open>A \<open>GROUP_AFFINITY\<close> with its \<open>Reserved\<close> fields zero.\<close>

record GROUP_AFFINITY =
  affinity_Mask :: UINT64
  affinity_Group :: UINT16

text \<open>The kernel services of the function, on a system state \<open>'s\<close>:
  \<open>KeQueryActiveProcessorCountEx(ALL_PROCESSOR_GROUPS)\<close>, \<open>KeGetProcessorNumberFromIndex\<close>,
  \<open>KeSetSystemGroupAffinityThread\<close>, which returns the previous affinity, and
  \<open>KeRevertToUserGroupAffinityThread\<close>.\<close>

record 's KERNEL =
  KeQueryActiveProcessorCountEx :: nat
  KeGetProcessorNumberFromIndex :: "nat \<Rightarrow> NTSTATUS \<times> PROCESSOR_NUMBER"
  KeSetSystemGroupAffinityThread :: "GROUP_AFFINITY \<Rightarrow> 's \<Rightarrow> GROUP_AFFINITY \<times> 's"
  KeRevertToUserGroupAffinityThread :: "GROUP_AFFINITY \<Rightarrow> 's \<Rightarrow> 's"

text \<open>The statements of the loop body behind the conversion of the index: the thread is
  switched to the processor, the callback is executed, the thread is switched back. A
  callback returns a status and the state it leaves, or stops the host.\<close>

definition run_on_processor ::
  "'s KERNEL \<Rightarrow> ('c \<Rightarrow> 's \<Rightarrow> host_fault + NTSTATUS \<times> 's) \<Rightarrow> 'c \<Rightarrow> PROCESSOR_NUMBER \<Rightarrow> 's
     \<Rightarrow> host_fault + NTSTATUS \<times> 's" where
  "run_on_processor K Callback Context processorNumber s =
     (let affinity = \<lparr>affinity_Mask = push_bit (unat (Number processorNumber)) 1,
                       affinity_Group = Group processorNumber\<rparr>;
          (oldAffinity, s1) = KeSetSystemGroupAffinityThread K affinity s
      in case Callback Context s1 of
           Inl f \<Rightarrow> Inl f
         | Inr (status, s2) \<Rightarrow> Inr (status, KeRevertToUserGroupAffinityThread K oldAffinity s2))"

text \<open>The loop \<open>for (i = 0; i < numOfProcessors; i++)\<close> from the value \<open>i\<close> of its counter,
  with the current \<open>status\<close>. The result is the status, the counter at \<open>Exit\<close>, the indices
  at which the callback was executed (in order) and the state.\<close>

function SvExecuteOnEachProcessor_loop ::
  "'s KERNEL \<Rightarrow> ('c \<Rightarrow> 's \<Rightarrow> host_fault + NTSTATUS \<times> 's) \<Rightarrow> 'c \<Rightarrow> nat \<Rightarrow> nat \<Rightarrow> NTSTATUS
     \<Rightarrow> nat list \<Rightarrow> 's \<Rightarrow> host_fault + NTSTATUS \<times> nat \<times> nat list \<times> 's" where
  "SvExecuteOnEachProcessor_loop K Callback Context numOfProcessors i status executed s =
     (if i < numOfProcessors then
        (let (status1, processorNumber) = KeGetProcessorNumberFromIndex K i
         in if \<not> NT_SUCCESS status1 then Inr (status1, i, executed, s)
            else case run_on_processor K Callback Context processorNumber s of
                   Inl f \<Rightarrow> Inl f
                 | Inr (status2, s') \<Rightarrow>
                     if \<not> NT_SUCCESS status2 then Inr (status2, i, executed @ [i], s')
                     else SvExecuteOnEachProcessor_loop K Callback Context numOfProcessors
                            (i + 1) status2 (executed @ [i]) s')
      else Inr (status, i, executed, s))"
  by pat_completeness auto
termination
  by (relation "measure (\<lambda>(K, Callback, Context, numOfProcessors, i, status, executed, s).
                           numOfProcessors - i)") auto

text \<open>The function. \<open>NumOfProcessorCompleted\<close> is an optional out parameter: the result
  carries \<open>Some i\<close> when it is present.\<close>

definition SvExecuteOnEachProcessor ::
  "'s KERNEL \<Rightarrow> ('c \<Rightarrow> 's \<Rightarrow> host_fault + NTSTATUS \<times> 's) \<Rightarrow> 'c \<Rightarrow> bool \<Rightarrow> 's
     \<Rightarrow> host_fault + NTSTATUS \<times> nat option \<times> nat list \<times> 's" where
  "SvExecuteOnEachProcessor K Callback Context NumOfProcessorCompleted_present s =
     (let numOfProcessors = KeQueryActiveProcessorCountEx K
      in case SvExecuteOnEachProcessor_loop K Callback Context numOfProcessors 0 STATUS_SUCCESS
                [] s of
           Inl f \<Rightarrow> Inl f
         | Inr (status, i, executed, s') \<Rightarrow>
             Inr (status, (if NumOfProcessorCompleted_present then Some i else None),
                  executed, s'))"

text \<open>The callback on the processor of index \<open>i\<close>, and the state in which the processors
  \<open>0\<close> to \<open>j - 1\<close> have all executed the callback with success, one after the other.\<close>

definition callback_on_index ::
  "'s KERNEL \<Rightarrow> ('c \<Rightarrow> 's \<Rightarrow> host_fault + NTSTATUS \<times> 's) \<Rightarrow> 'c \<Rightarrow> nat \<Rightarrow> 's
     \<Rightarrow> host_fault + NTSTATUS \<times> 's" where
  "callback_on_index K Callback Context i s =
     run_on_processor K Callback Context (snd (KeGetProcessorNumberFromIndex K i)) s"

fun succeeded_through ::
  "'s KERNEL \<Rightarrow> ('c \<Rightarrow> 's \<Rightarrow> host_fault + NTSTATUS \<times> 's) \<Rightarrow> 'c \<Rightarrow> nat \<Rightarrow> 's \<Rightarrow> 's option" where
  "succeeded_through K Callback Context 0 s = Some s"
| "succeeded_through K Callback Context (Suc j) s =
     (case succeeded_through K Callback Context j s of
        None \<Rightarrow> None
      | Some t \<Rightarrow>
         (case callback_on_index K Callback Context j t of
            Inl f \<Rightarrow> None
          | Inr (status, t') \<Rightarrow> if NT_SUCCESS status then Some t' else None))"

text \<open>\<open>KeGetProcessorNumberFromIndex\<close> succeeds for the index of an active processor.\<close>

definition indices_convert :: "'s KERNEL \<Rightarrow> bool" where
  "indices_convert K \<longleftrightarrow>
     list_all (\<lambda>i. NT_SUCCESS (fst (KeGetProcessorNumberFromIndex K i)))
       [0 ..< KeQueryActiveProcessorCountEx K]"

section \<open>The processors, the pool and the life cycle of the hypervisor\<close>

text \<open>A logical processor is named by its group and its bit in the affinity mask of the
  group: the thread runs on the processor its affinity selects.\<close>

type_synonym processor = "UINT16 \<times> UINT64"

text \<open>The state of the machine as the life cycle functions see it: the affinity of the
  thread; for each processor the address of the per-processor data its hypervisor runs
  with (\<open>None\<close> when the processor is not virtualized) and its MSRs; the memory at the
  addresses of per-processor data, of shared data and of permission maps; the blocks the
  pool and the contiguous memory allocator have handed out and not got back; the
  addresses the two allocators return next, where \<open>0\<close> or an exhausted supply is a failed
  allocation; the number of pool allocations that succeeded; the processors on which
  \<open>SvLaunchVm\<close> entered the guest and those on which the hypervisor unloaded itself, in
  order; and the local variable \<open>sharedVpData\<close> of \<open>SvDevirtualizeAllProcessors\<close>, whose
  address is the context of \<open>SvDevirtualizeProcessor\<close>.\<close>

record SYSTEM =
  Thread :: GROUP_AFFINITY
  Virtualized :: "processor \<Rightarrow> UINT64 option"
  CpuMsr :: "processor \<Rightarrow> UINT64 \<Rightarrow> UINT64"
  VpBlocks :: "UINT64 \<Rightarrow> VMEXIT_STATE"
  SharedBlocks :: "UINT64 \<Rightarrow> SHARED_VIRTUAL_PROCESSOR_DATA"
  MsrpmBlocks :: "UINT64 \<Rightarrow> UINT32 list"
  Pool :: "UINT64 set"
  Contiguous :: "UINT64 set"
  PoolSupply :: "UINT64 list"
  ContiguousSupply :: "UINT64 list"
  PoolAllocations :: nat
  Launched :: "processor list"
  Unloaded :: "processor list"
  sharedVpData_local :: UINT64

definition current_processor :: "SYSTEM \<Rightarrow> processor" where
  "current_processor s = (affinity_Group (Thread s), affinity_Mask (Thread s))"

text \<open>What the hardware and the kernel give: the \<open>CPUID\<close> of each processor when it is not
  intercepted, the translations between physical and virtual addresses, the attributes of
  the stack segment of kernel mode, the context \<open>RtlCaptureContext\<close> captures in
  \<open>SvVirtualizeProcessor\<close>, the number of active processors and their processor numbers.\<close>

record SYS_ENV =
  hardware_cpuid :: "processor \<Rightarrow> INT32 \<Rightarrow> INT32 \<Rightarrow> INT32 \<times> INT32 \<times> INT32 \<times> INT32"
  VirtualForPhysical :: "UINT64 \<Rightarrow> vmcb_ref option"
  PhysicalAddress_GuestVmcb :: "UINT64 \<Rightarrow> UINT64"
  PhysicalAddress_HostVmcb :: "UINT64 \<Rightarrow> UINT64"
  PhysicalAddress_HostStateArea :: "UINT64 \<Rightarrow> UINT64"
  PhysicalAddresses_of_shared :: "UINT64 \<Rightarrow> SHARED_ADDRESSES"
  kernel_SsAttrib :: UINT16
  ContextRecord_EFlags :: UINT64
  ContextRecord_Rsp :: UINT64
  ContextRecord_Rip :: UINT64
  ActiveProcessorCount :: nat
  ProcessorNumberFromIndex :: "nat \<Rightarrow> NTSTATUS \<times> PROCESSOR_NUMBER"

definition host_env_of :: "SYS_ENV \<Rightarrow> processor \<Rightarrow> UINT64 \<Rightarrow> HOST_ENV" where
  "host_env_of V p vpData =
     \<lparr>cpuidex = hardware_cpuid V p,
      MmGetVirtualForPhysical = VirtualForPhysical V,
      MmGetPhysicalAddress_GuestVmcb = PhysicalAddress_GuestVmcb V vpData\<rparr>"

text \<open>The kernel services of \<open>SvExecuteOnEachProcessor\<close> on this state.\<close>

definition system_kernel :: "SYS_ENV \<Rightarrow> SYSTEM KERNEL" where
  "system_kernel V =
     \<lparr>KeQueryActiveProcessorCountEx = ActiveProcessorCount V,
      KeGetProcessorNumberFromIndex = ProcessorNumberFromIndex V,
      KeSetSystemGroupAffinityThread = (\<lambda>affinity s. (Thread s, s\<lparr>Thread := affinity\<rparr>)),
      KeRevertToUserGroupAffinityThread = (\<lambda>oldAffinity s. s\<lparr>Thread := oldAffinity\<rparr>)\<rparr>"

text \<open>The processor of an index: the one \<open>SvExecuteOnEachProcessor\<close> switches the thread
  to.\<close>

definition processor_of_index :: "SYS_ENV \<Rightarrow> nat \<Rightarrow> processor" where
  "processor_of_index V i =
     (let processorNumber = snd (ProcessorNumberFromIndex V i)
      in (Group processorNumber, push_bit (unat (Number processorNumber)) 1))"

subsection \<open>Allocation\<close>

text \<open>Memory that was just allocated is zero filled. The mode of a zeroed
  \<open>ProcessorNestData\<close> is the enumerator of value zero, which no function reads before
  \<open>SvPrepareForVirtualization\<close> has assigned the mode.\<close>

definition zero_VIRTUAL_PROCESSOR_DATA :: "UINT64 \<Rightarrow> VMEXIT_STATE" where
  "zero_VIRTUAL_PROCESSOR_DATA memory =
     \<lparr>VpData = memory, HostStackLayout_HostVmcbPa = 0, HostStackLayout_GuestVmcbPa = 0,
      HostStackLayout_Self = 0, HostStackLayout_SharedVpData = 0,
      HostStackLayout_pProcessNestData = 0, HostStackLayout_Reserved1 = 0,
      pProcessNestData_CpuMode = OTHER_MODE 0, pProcessNestData_vcpu_vmx = None,
      Vmcbs = (\<lambda>p. zero_VMCB), VpRegs = \<lparr>Rax = 0, Rbx = 0, Rcx = 0, Rdx = 0\<rparr>,
      ExitVm = EXIT_NOTHING, Msr = (\<lambda>m. 0), Trace = []\<rparr>"

text \<open>\<open>SvAllocatePageAlingedPhysicalMemory\<close>: the pool returns its next address, or null.
  The size of the block plays no role in the model and is left out.\<close>

definition SvAllocatePageAlingedPhysicalMemory :: "SYSTEM \<Rightarrow> UINT64 \<times> SYSTEM" where
  "SvAllocatePageAlingedPhysicalMemory s =
     (case PoolSupply s of
        [] \<Rightarrow> (0, s)
      | memory # rest \<Rightarrow>
          if memory = 0 then (0, s\<lparr>PoolSupply := rest\<rparr>)
          else (memory,
                s\<lparr>PoolSupply := rest, Pool := insert memory (Pool s),
                  PoolAllocations := Suc (PoolAllocations s),
                  VpBlocks := (VpBlocks s)(memory := zero_VIRTUAL_PROCESSOR_DATA memory),
                  SharedBlocks := (SharedBlocks s)(memory := zero_SHARED_VIRTUAL_PROCESSOR_DATA)\<rparr>))"

definition SvFreePageAlingedPhysicalMemory :: "UINT64 \<Rightarrow> SYSTEM \<Rightarrow> host_fault + SYSTEM" where
  "SvFreePageAlingedPhysicalMemory BaseAddress s =
     (if BaseAddress \<in> Pool s then Inr (s\<lparr>Pool := Pool s - {BaseAddress}\<rparr>)
      else Inl Invalid_free)"

text \<open>\<open>SvAllocateContiguousMemory\<close>, called with \<open>SVM_MSR_PERMISSIONS_MAP_SIZE\<close> only.\<close>

definition SvAllocateContiguousMemory :: "SVM_DEFS \<Rightarrow> SYSTEM \<Rightarrow> UINT64 \<times> SYSTEM" where
  "SvAllocateContiguousMemory D s =
     (case ContiguousSupply s of
        [] \<Rightarrow> (0, s)
      | memory # rest \<Rightarrow>
          if memory = 0 then (0, s\<lparr>ContiguousSupply := rest\<rparr>)
          else (memory,
                s\<lparr>ContiguousSupply := rest, Contiguous := insert memory (Contiguous s),
                  MsrpmBlocks := (MsrpmBlocks s)(memory :=
                    replicate (unat (SVM_MSR_PERMISSIONS_MAP_SIZE D) div 4) 0)\<rparr>))"

definition SvFreeContiguousMemory :: "UINT64 \<Rightarrow> SYSTEM \<Rightarrow> host_fault + SYSTEM" where
  "SvFreeContiguousMemory BaseAddress s =
     (if BaseAddress \<in> Contiguous s then Inr (s\<lparr>Contiguous := Contiguous s - {BaseAddress}\<rparr>)
      else Inl Invalid_free)"

subsection \<open>The CPUID instruction executed by the driver\<close>

text \<open>Modelled from the spec: the hardware transition into the host and the assembly
  routine \<open>SvLaunchVm\<close>, which calls \<open>SvHandleVmExit\<close> and acts on what it returns, are not
  among the sources. On a processor that is not virtualized the instruction is executed
  by the hardware. On a virtualized processor it is intercepted: the exit code of the
  guest VMCB is \<open>VMEXIT_CPUID\<close>, the guest's RAX (the leaf) and the attributes of its stack
  segment are in the state-save area, RCX (the sub-leaf) is in the register snapshot, and
  \<open>SvHandleVmExit\<close> runs on the per-processor data. When it returns without the request
  to exit, the guest is resumed with RAX from the VMCB and the other registers from the
  snapshot. When it returns \<open>EXIT_EXIT\<close> the hypervisor acknowledges the unload: the
  processor leaves the guest mode for good, the caller reads the registers of the
  snapshot, with the marker \<open>'JSVM'\<close> in ECX.\<close>

definition at_cpuid_exit ::
  "SVM_DEFS \<Rightarrow> SYS_ENV \<Rightarrow> INT32 \<Rightarrow> INT32 \<Rightarrow> (UINT64 \<Rightarrow> UINT64) \<Rightarrow> VMEXIT_STATE \<Rightarrow> VMEXIT_STATE" where
  "at_cpuid_exit D V leaf subLeaf msr b =
     b\<lparr>Vmcbs := (Vmcbs b)(VpData_GuestVmcb := (Vmcbs b VpData_GuestVmcb)
                    \<lparr>ControlArea_ExitCode := VMEXIT_CPUID D,
                     StateSaveArea_Rax := ucast leaf,
                     StateSaveArea_SsAttrib := kernel_SsAttrib V\<rparr>),
       VpRegs := (VpRegs b)\<lparr>Rcx := ucast subLeaf\<rparr>,
       Msr := msr\<rparr>"

definition execute_cpuid ::
  "SVM_DEFS \<Rightarrow> SYS_ENV \<Rightarrow> HANDLERS \<Rightarrow> INT32 \<Rightarrow> INT32 \<Rightarrow> SYSTEM
     \<Rightarrow> host_fault + (INT32 \<times> INT32 \<times> INT32 \<times> INT32) \<times> SYSTEM" where
  "execute_cpuid D V H leaf subLeaf s =
     (let p = current_processor s
      in case Virtualized s p of
           None \<Rightarrow> Inr (hardware_cpuid V p leaf subLeaf, s)
         | Some vpData \<Rightarrow>
            (case SvHandleVmExit D (host_env_of V p vpData) H
                    (at_cpuid_exit D V leaf subLeaf (CpuMsr s p) (VpBlocks s vpData)) of
               Inl f \<Rightarrow> Inl f
             | Inr (exitVm, b2) \<Rightarrow>
                (let s1 = s\<lparr>VpBlocks := (VpBlocks s)(vpData := b2),
                            CpuMsr := (CpuMsr s)(p := Msr b2)\<rparr>
                 in if exitVm = EXIT_EXIT
                    then Inr ((ucast (Rax (VpRegs b2)), ucast (Rbx (VpRegs b2)),
                               multichar ''JSVM'', ucast (Rdx (VpRegs b2))),
                              s1\<lparr>Virtualized := (Virtualized s1)(p := None),
                                 Unloaded := Unloaded s1 @ [p]\<rparr>)
                    else Inr ((ucast (StateSaveArea_Rax (GuestVmcb b2)),
                               ucast (Rbx (VpRegs b2)), ucast (Rcx (VpRegs b2)),
                               ucast (Rdx (VpRegs b2))), s1))))"

subsection \<open>SvIsSvmSupported\<close>

definition SvIsSvmSupported ::
  "SVM_DEFS \<Rightarrow> SYS_ENV \<Rightarrow> HANDLERS \<Rightarrow> SYSTEM \<Rightarrow> host_fault + bool \<times> SYSTEM" where
  "SvIsSvmSupported D V H s =
     (case execute_cpuid D V H (CPUID_MAX_STANDARD_FN_NUMBER_AND_VENDOR_STRING D) 0 s of
        Inl f \<Rightarrow> Inl f
      | Inr ((a0, a1, a2, a3), s1) \<Rightarrow>
         if a1 \<noteq> multichar ''htuA'' \<or> a3 \<noteq> multichar ''itne'' \<or> a2 \<noteq> multichar ''DMAc''
         then Inr (False, s1)
         else
          (case execute_cpuid D V H (CPUID_PROCESSOR_AND_PROCESSOR_FEATURE_IDENTIFIERS_EX D) 0 s1 of
             Inl f \<Rightarrow> Inl f
           | Inr ((b0, b1, b2, b3), s2) \<Rightarrow>
              if b2 AND CPUID_FN8000_0001_ECX_SVM D = 0 then Inr (False, s2)
              else
               (case execute_cpuid D V H (CPUID_SVM_FEATURES D) 0 s2 of
                  Inl f \<Rightarrow> Inl f
                | Inr ((c0, c1, c2, c3), s3) \<Rightarrow>
                   if c3 AND CPUID_FN8000_000A_EDX_NP D = 0 then Inr (False, s3)
                   else
                    (let vmcr = CpuMsr s3 (current_processor s3) (SVM_MSR_VM_CR D)
                     in if vmcr AND SVM_VM_CR_SVMDIS D \<noteq> 0 then Inr (False, s3)
                        else Inr (True, s3)))))"

subsection \<open>SvVirtualizeProcessor\<close>

text \<open>\<open>SvPrepareForVirtualization\<close>, on the fields of the model: the nested context, the
  guest state taken from the captured context, the host stack layout, and the MSR
  \<open>VM_HSAVE_PA\<close>. The intercepts, the other registers of the guest and the two \<open>VMSAVE\<close>
  are outside the model.\<close>

definition SvPrepareForVirtualization ::
  "SVM_DEFS \<Rightarrow> SYS_ENV \<Rightarrow> UINT64 \<Rightarrow> UINT64 \<Rightarrow> SYSTEM \<Rightarrow> SYSTEM" where
  "SvPrepareForVirtualization D V vpData SharedVpData s =
     (let p = current_processor s;
          b = VpBlocks s vpData;
          b1 = b\<lparr>pProcessNestData_vcpu_vmx := None,
                 pProcessNestData_CpuMode := ProtectedMode,
                 Vmcbs := (Vmcbs b)(VpData_GuestVmcb := (Vmcbs b VpData_GuestVmcb)
                            \<lparr>StateSaveArea_SsAttrib := kernel_SsAttrib V,
                             StateSaveArea_Rflags := ContextRecord_EFlags V,
                             StateSaveArea_Rsp := ContextRecord_Rsp V,
                             StateSaveArea_Rip := ContextRecord_Rip V\<rparr>),
                 HostStackLayout_Reserved1 := 0xFFFFFFFFFFFFFFFF,
                 HostStackLayout_SharedVpData := SharedVpData,
                 HostStackLayout_Self := vpData,
                 HostStackLayout_HostVmcbPa := PhysicalAddress_HostVmcb V vpData,
                 HostStackLayout_GuestVmcbPa := PhysicalAddress_GuestVmcb V vpData\<rparr>
      in s\<lparr>VpBlocks := (VpBlocks s)(vpData := b1),
            CpuMsr := (CpuMsr s)(p := (CpuMsr s p)
                        (IA32_MSR_VM_HSAVE D := PhysicalAddress_HostStateArea V vpData))\<rparr>)"

text \<open>Modelled from the spec: \<open>SvLaunchVm\<close> is an assembly routine that is not among the
  sources. It enters the guest mode on the processor of the thread; the guest resumes at
  the captured context, that is behind \<open>RtlCaptureContext\<close> in \<open>SvVirtualizeProcessor\<close>,
  and the call does not return.\<close>

definition SvLaunchVm :: "UINT64 \<Rightarrow> SYSTEM \<Rightarrow> SYSTEM" where
  "SvLaunchVm vpData s =
     s\<lparr>Virtualized := (Virtualized s)(current_processor s := Some vpData),
       Launched := Launched s @ [current_processor s]\<rparr>"

text \<open>\<open>SvIsSimpleSvmHypervisorInstalled\<close> with the \<open>CPUID\<close> executed on the processor of the
  thread.\<close>

definition installed_on_thread ::
  "SVM_DEFS \<Rightarrow> SYS_ENV \<Rightarrow> HANDLERS \<Rightarrow> SYSTEM \<Rightarrow> host_fault + bool \<times> SYSTEM" where
  "installed_on_thread D V H s =
     (case execute_cpuid D V H (CPUID_HV_VENDOR_AND_MAX_FUNCTIONS D) 0 s of
        Inl f \<Rightarrow> Inl f
      | Inr (registers, s1) \<Rightarrow>
          Inr (SvIsSimpleSvmHypervisorInstalled D (\<lambda>leaf subLeaf. registers), s1))"

text \<open>The function from the captured context on. Execution comes here behind
  \<open>RtlCaptureContext\<close> and again each time \<open>SvLaunchVm\<close> has entered the guest, until the
  test finds the hypervisor installed; \<open>None\<close> when that never happens.\<close>

partial_function (option) from_captured_context ::
  "SVM_DEFS \<Rightarrow> SYS_ENV \<Rightarrow> HANDLERS \<Rightarrow> UINT64 \<Rightarrow> UINT64 \<Rightarrow> SYSTEM
     \<Rightarrow> (host_fault + NTSTATUS \<times> SYSTEM) option" where
  "from_captured_context D V H vpData sharedVpData s =
     (case installed_on_thread D V H s of
        Inl f \<Rightarrow> Some (Inl f)
      | Inr (installed, s1) \<Rightarrow>
          if installed then Some (Inr (STATUS_SUCCESS, s1))
          else
           (let p = current_processor s1;
                efer = CpuMsr s1 p (IA32_MSR_EFER D) OR EFER_SVME D;
                s2 = s1\<lparr>CpuMsr := (CpuMsr s1)(p := (CpuMsr s1 p)(IA32_MSR_EFER D := efer))\<rparr>;
                s3 = SvPrepareForVirtualization D V vpData sharedVpData s2;
                s4 = SvLaunchVm vpData s3
            in from_captured_context D V H vpData sharedVpData s4))"

text \<open>The function: \<open>Context\<close> is the address of the shared data, \<open>0\<close> for null. At \<open>Exit\<close>
  the per-processor data is freed when the status is not a success.\<close>

definition SvVirtualizeProcessor ::
  "SVM_DEFS \<Rightarrow> SYS_ENV \<Rightarrow> HANDLERS \<Rightarrow> UINT64 \<Rightarrow> SYSTEM \<Rightarrow> host_fault + NTSTATUS \<times> SYSTEM" where
  "SvVirtualizeProcessor D V H Context s =
     (if Context = 0 then Inr (STATUS_INVALID_PARAMETER_1, s)
      else
       (let (vpData, s1) = SvAllocatePageAlingedPhysicalMemory s
        in if vpData = 0 then Inr (STATUS_INSUFFICIENT_RESOURCES, s1)
           else
            (let (nestData, s2) = SvAllocatePageAlingedPhysicalMemory s1;
                 s3 = s2\<lparr>VpBlocks := (VpBlocks s2)(vpData :=
                            (VpBlocks s2 vpData)\<lparr>HostStackLayout_pProcessNestData := nestData\<rparr>)\<rparr>
             in if nestData = 0
                then (case SvFreePageAlingedPhysicalMemory vpData s3 of
                        Inl f \<Rightarrow> Inl f
                      | Inr s4 \<Rightarrow> Inr (STATUS_INSUFFICIENT_RESOURCES, s4))
                else (case from_captured_context D V H vpData Context s3 of
                        None \<Rightarrow> Inl Never_returns
                      | Some r \<Rightarrow> r))))"

subsection \<open>SvDevirtualizeProcessor and SvDevirtualizeAllProcessors\<close>

text \<open>\<open>Context\<close> is null or the address of the variable \<open>sharedVpData\<close> of
  \<open>SvDevirtualizeAllProcessors\<close>, the only caller: the parameter tells whether it is
  present.\<close>

definition SvDevirtualizeProcessor ::
  "SVM_DEFS \<Rightarrow> SYS_ENV \<Rightarrow> HANDLERS \<Rightarrow> bool \<Rightarrow> SYSTEM \<Rightarrow> host_fault + NTSTATUS \<times> SYSTEM" where
  "SvDevirtualizeProcessor D V H Context_present s =
     (if \<not> Context_present then Inr (STATUS_SUCCESS, s)
      else
       (case execute_cpuid D V H (CPUID_UNLOAD_SIMPLE_SVM D) (CPUID_UNLOAD_SIMPLE_SVM D) s of
          Inl f \<Rightarrow> Inl f
        | Inr ((r0, r1, r2, r3), s1) \<Rightarrow>
           if r2 \<noteq> multichar ''JSVM'' then Inr (STATUS_SUCCESS, s1)
           else
            (let high = int_to_UINT64 r3;
                 low = (ucast (r0 AND 0xFFFFFFFF) :: UINT64);
                 vpData = push_bit 32 high OR low;
                 s2 = s1\<lparr>sharedVpData_local := HostStackLayout_SharedVpData (VpBlocks s1 vpData)\<rparr>;
                 nestData = HostStackLayout_pProcessNestData (VpBlocks s2 vpData)
             in case (if nestData \<noteq> 0
                      then (case SvFreePageAlingedPhysicalMemory nestData s2 of
                              Inl f \<Rightarrow> Inl f
                            | Inr s3 \<Rightarrow>
                                Inr (s3\<lparr>VpBlocks := (VpBlocks s3)(vpData :=
                                       (VpBlocks s3 vpData)\<lparr>HostStackLayout_pProcessNestData := 0\<rparr>)\<rparr>))
                      else Inr s2) of
                  Inl f \<Rightarrow> Inl f
                | Inr s4 \<Rightarrow>
                   (case SvFreePageAlingedPhysicalMemory vpData s4 of
                      Inl f \<Rightarrow> Inl f
                    | Inr s5 \<Rightarrow> Inr (STATUS_SUCCESS, s5)))))"

text \<open>\<open>NT_VERIFY\<close> evaluates its argument and, in a free build, does nothing else.\<close>

definition SvDevirtualizeAllProcessors ::
  "SVM_DEFS \<Rightarrow> SYS_ENV \<Rightarrow> HANDLERS \<Rightarrow> SYSTEM \<Rightarrow> host_fault + SYSTEM" where
  "SvDevirtualizeAllProcessors D V H s =
     (let s0 = s\<lparr>sharedVpData_local := 0\<rparr>
      in case SvExecuteOnEachProcessor (system_kernel V) (SvDevirtualizeProcessor D V H) True
                False s0 of
           Inl f \<Rightarrow> Inl f
         | Inr (status, NumOfProcessorCompleted, executed, s1) \<Rightarrow>
            (let sharedVpData = sharedVpData_local s1
             in if sharedVpData \<noteq> 0
                then (case SvFreeContiguousMemory
                             (MsrPermissionsMap (SharedBlocks s1 sharedVpData)) s1 of
                        Inl f \<Rightarrow> Inl f
                      | Inr s2 \<Rightarrow> SvFreePageAlingedPhysicalMemory sharedVpData s2)
                else Inr s1))"

subsection \<open>SvVirtualizeAllProcessors\<close>

text \<open>The statements at \<open>Exit\<close>, for the values the local variables have there.\<close>

definition SvVirtualizeAllProcessors_Exit ::
  "SVM_DEFS \<Rightarrow> SYS_ENV \<Rightarrow> HANDLERS \<Rightarrow> NTSTATUS \<Rightarrow> UINT64 \<Rightarrow> nat \<Rightarrow> SYSTEM
     \<Rightarrow> host_fault + NTSTATUS \<times> SYSTEM" where
  "SvVirtualizeAllProcessors_Exit D V H status sharedVpData numOfProcessorsCompleted s =
     (if \<not> NT_SUCCESS status then
        (if numOfProcessorsCompleted \<noteq> 0 then
           (case SvDevirtualizeAllProcessors D V H s of
              Inl f \<Rightarrow> Inl f
            | Inr s1 \<Rightarrow> Inr (status, s1))
         else if sharedVpData \<noteq> 0 then
           (case (if MsrPermissionsMap (SharedBlocks s sharedVpData) \<noteq> 0
                  then SvFreeContiguousMemory (MsrPermissionsMap (SharedBlocks s sharedVpData)) s
                  else Inr s) of
              Inl f \<Rightarrow> Inl f
            | Inr s1 \<Rightarrow>
               (case SvFreePageAlingedPhysicalMemory sharedVpData s1 of
                  Inl f \<Rightarrow> Inl f
                | Inr s2 \<Rightarrow> Inr (status, s2)))
         else Inr (status, s))
      else Inr (status, s))"

definition SvVirtualizeAllProcessors ::
  "SVM_DEFS \<Rightarrow> SYS_ENV \<Rightarrow> HANDLERS \<Rightarrow> SYSTEM \<Rightarrow> host_fault + NTSTATUS \<times> SYSTEM" where
  "SvVirtualizeAllProcessors D V H s =
     (case SvIsSvmSupported D V H s of
        Inl f \<Rightarrow> Inl f
      | Inr (supported, s1) \<Rightarrow>
         if \<not> supported
         then SvVirtualizeAllProcessors_Exit D V H STATUS_HV_FEATURE_UNAVAILABLE 0 0 s1
         else
          (let (sharedVpData, s2) = SvAllocatePageAlingedPhysicalMemory s1
           in if sharedVpData = 0
              then SvVirtualizeAllProcessors_Exit D V H STATUS_INSUFFICIENT_RESOURCES 0 0 s2
              else
               (let (msrPermissionsMap, s3) = SvAllocateContiguousMemory D s2;
                    s4 = s3\<lparr>SharedBlocks := (SharedBlocks s3)(sharedVpData :=
                               (SharedBlocks s3 sharedVpData)\<lparr>MsrPermissionsMap := msrPermissionsMap\<rparr>)\<rparr>
                in if msrPermissionsMap = 0
                   then SvVirtualizeAllProcessors_Exit D V H STATUS_INSUFFICIENT_RESOURCES
                          sharedVpData 0 s4
                   else
                    (let s5 = s4\<lparr>SharedBlocks := (SharedBlocks s4)(sharedVpData :=
                                   SvBuildNestedPageTables D
                                     (PhysicalAddresses_of_shared V sharedVpData)
                                     (SharedBlocks s4 sharedVpData))\<rparr>
                     in case SvBuildMsrPermissionsMap D (MsrpmBlocks s5 msrPermissionsMap) of
                          None \<Rightarrow> Inl Write_outside_buffer
                        | Some built \<Rightarrow>
                           (let s6 = s5\<lparr>MsrpmBlocks := (MsrpmBlocks s5)(msrPermissionsMap := built)\<rparr>
                            in case SvExecuteOnEachProcessor (system_kernel V)
                                      (SvVirtualizeProcessor D V H) sharedVpData True s6 of
                                 Inl f \<Rightarrow> Inl f
                               | Inr (status, numOfProcessorsCompleted, executed, s7) \<Rightarrow>
                                   SvVirtualizeAllProcessors_Exit D V H status sharedVpData
                                     (case numOfProcessorsCompleted of None \<Rightarrow> 0
                                      | Some n \<Rightarrow> n) s7)))))"

section \<open>Concrete inputs\<close>

text \<open>A processor whose \<open>CPUID\<close> answers zero in every register, a memory in which every
  physical address but zero holds a VMCB of its own, handlers that return at once, and
  per-processor data in flat and in nested mode.\<close>

definition example_env :: HOST_ENV where
  "example_env = \<lparr>cpuidex = (\<lambda>leaf subLeaf. (0, 0, 0, 0)),
     MmGetVirtualForPhysical = (\<lambda>pa. if pa = 0 then None else Some (Vmcb_at pa)),
     MmGetPhysicalAddress_GuestVmcb = 0x1000\<rparr>"

definition example_handlers :: HANDLERS where
  "example_handlers = \<lparr>SvHandleEffer = Inr, SvHandleLstrRead = Inr, SvHandleSvmHsave = Inr,
     SvHandleVmrunEx = Inr, SvHandleVmmcall = Inr, SvHandleCpuidForL2ToL1 = Inr,
     SvHandleMsrAccessNest = Inr, SvHandleVmrunExForL1ToL2 = Inr, SvHandleVmmcallNest = Inr,
     SvHandleBreakPointExceptionNest = Inr\<rparr>"

text \<open>Flat mode: the guest VMCB holds the exit code and the guest's RAX.\<close>

definition flat_state :: "UINT64 \<Rightarrow> UINT64 \<Rightarrow> VMEXIT_STATE" where
  "flat_state code rax = \<lparr>VpData = 0xFFFFA00012345000,
     HostStackLayout_HostVmcbPa = 0x2000, HostStackLayout_GuestVmcbPa = 0x1000,
     HostStackLayout_Self = 0xFFFFA00012345000, HostStackLayout_SharedVpData = 0xFFFFA00012300000,
     HostStackLayout_pProcessNestData = 0xFFFFA00012346000,
     HostStackLayout_Reserved1 = 0xFFFFFFFFFFFFFFFF,
     pProcessNestData_CpuMode = ProtectedMode, pProcessNestData_vcpu_vmx = None,
     Vmcbs = (\<lambda>p. zero_VMCB)(VpData_GuestVmcb :=
               zero_VMCB\<lparr>ControlArea_ExitCode := code, StateSaveArea_Rax := rax\<rparr>),
     VpRegs = \<lparr>Rax = 0, Rbx = 0, Rcx = 0, Rdx = 0\<rparr>,
     ExitVm = EXIT_NOTHING, Msr = (\<lambda>m. 0), Trace = []\<rparr>"

text \<open>Nested mode: the 02-view at physical address \<open>0x6000\<close> holds the exit code and the
  guest's RAX, the 12-view is at \<open>0x7000\<close>.\<close>

definition nested_state :: "UINT64 \<Rightarrow> UINT64 \<Rightarrow> VMEXIT_STATE" where
  "nested_state code rax = \<lparr>VpData = 0xFFFFA00012345000,
     HostStackLayout_HostVmcbPa = 0x2000, HostStackLayout_GuestVmcbPa = 0x1000,
     HostStackLayout_Self = 0xFFFFA00012345000, HostStackLayout_SharedVpData = 0xFFFFA00012300000,
     HostStackLayout_pProcessNestData = 0xFFFFA00012346000,
     HostStackLayout_Reserved1 = 0xFFFFFFFFFFFFFFFF,
     pProcessNestData_CpuMode = VmxMode,
     pProcessNestData_vcpu_vmx =
       Some \<lparr>vmcb_host_02_pa = 0x5000, vmcb_guest_02_pa = 0x6000, vmcb_guest_12_pa = 0x7000\<rparr>,
     Vmcbs = (\<lambda>p. zero_VMCB)(Vmcb_at 0x6000 :=
               zero_VMCB\<lparr>ControlArea_ExitCode := code, StateSaveArea_Rax := rax,
                          ControlArea_ExitInfo1 := 1, StateSaveArea_LStar := 0xFFFFF80000001000\<rparr>),
     VpRegs = \<lparr>Rax = 0, Rbx = 0, Rcx = 0, Rdx = 0\<rparr>,
     ExitVm = EXIT_NOTHING, Msr = (\<lambda>m. 0), Trace = []\<rparr>"

text \<open>Handlers that leave \<open>rax\<close> in the RAX of the register snapshot: the one of \<open>VMRUN\<close>
  in flat mode enters nested mode with the inner vCPU of \<open>nested_state\<close>, the one of
  \<open>CPUID\<close> in nested mode stays in it.\<close>

definition rax_writing_handlers :: "UINT64 \<Rightarrow> HANDLERS" where
  "rax_writing_handlers rax = example_handlers
     \<lparr>SvHandleVmrunEx := (\<lambda>s. Inr (s\<lparr>pProcessNestData_CpuMode := VmxMode,
          pProcessNestData_vcpu_vmx :=
            Some \<lparr>vmcb_host_02_pa = 0x5000, vmcb_guest_02_pa = 0x6000, vmcb_guest_12_pa = 0x7000\<rparr>,
          VpRegs := (VpRegs s)\<lparr>Rax := rax\<rparr>\<rparr>)),
      SvHandleCpuidForL2ToL1 := (\<lambda>s. Inr (s\<lparr>VpRegs := (VpRegs s)\<lparr>Rax := rax\<rparr>\<rparr>))\<rparr>"

text \<open>A system of three processors in group 0 whose state is the affinity mask of the
  thread, and a callback that fails on the processor whose mask is its context.\<close>

definition example_kernel :: "UINT64 KERNEL" where
  "example_kernel = \<lparr>KeQueryActiveProcessorCountEx = 3,
     KeGetProcessorNumberFromIndex = (\<lambda>i. (STATUS_SUCCESS, \<lparr>Group = 0, Number = of_nat i\<rparr>)),
     KeSetSystemGroupAffinityThread =
       (\<lambda>affinity s. (\<lparr>affinity_Mask = s, affinity_Group = 0\<rparr>, affinity_Mask affinity)),
     KeRevertToUserGroupAffinityThread = (\<lambda>oldAffinity s. affinity_Mask oldAffinity)\<rparr>"

definition example_callback :: "UINT64 \<Rightarrow> UINT64 \<Rightarrow> host_fault + NTSTATUS \<times> UINT64" where
  "example_callback Context s =
     Inr (if s = Context then STATUS_INSUFFICIENT_RESOURCES else STATUS_SUCCESS, s)"

text \<open>A machine of three AMD processors with SVM and nested paging, in group 0, with
  no hypervisor of another vendor; the thread is on processor 0.\<close>

definition example_sys_env :: SYS_ENV where
  "example_sys_env =
     \<lparr>hardware_cpuid = (\<lambda>p leaf subLeaf.
         if leaf = 0x00000000 then (0xD, multichar ''htuA'', multichar ''DMAc'', multichar ''itne'')
         else if leaf = 0x80000001 then (0, 0, 0x4, 0)
         else if leaf = 0x8000000A then (0, 0, 0, 0x1)
         else (0, 0, 0, 0)),
      VirtualForPhysical = (\<lambda>pa. if pa = 0 then None else Some (Vmcb_at pa)),
      PhysicalAddress_GuestVmcb = (\<lambda>vpData. vpData AND 0xFFFFFFFF),
      PhysicalAddress_HostVmcb = (\<lambda>vpData. (vpData AND 0xFFFFFFFF) + 0x1000),
      PhysicalAddress_HostStateArea = (\<lambda>vpData. (vpData AND 0xFFFFFFFF) + 0x2000),
      PhysicalAddresses_of_shared = (\<lambda>sharedVpData. example_addresses),
      kernel_SsAttrib = 0x0093,
      ContextRecord_EFlags = 0x246,
      ContextRecord_Rsp = 0xFFFFF88000001000,
      ContextRecord_Rip = 0xFFFFF80000002000,
      ActiveProcessorCount = 3,
      ProcessorNumberFromIndex = (\<lambda>i. (STATUS_SUCCESS, \<lparr>Group = 0, Number = of_nat i\<rparr>))\<rparr>"

definition example_system :: "UINT64 list \<Rightarrow> SYSTEM" where
  "example_system supply =
     \<lparr>Thread = \<lparr>affinity_Mask = 1, affinity_Group = 0\<rparr>,
      Virtualized = (\<lambda>p. None),
      CpuMsr = (\<lambda>p msr. 0),
      VpBlocks = zero_VIRTUAL_PROCESSOR_DATA,
      SharedBlocks = (\<lambda>a. zero_SHARED_VIRTUAL_PROCESSOR_DATA),
      MsrpmBlocks = (\<lambda>a. []),
      Pool = {},
      Contiguous = {},
      PoolSupply = supply,
      ContiguousSupply = [0xFFFFB00000000000],
      PoolAllocations = 0,
      Launched = [],
      Unloaded = [],
      sharedVpData_local = 0\<rparr>"

text \<open>The same machine with processor 0 virtualized: its per-processor data is at
  \<open>0xFFFFA00000002000\<close>, in flat mode.\<close>

definition virtualized_system :: "UINT64 list \<Rightarrow> SYSTEM" where
  "virtualized_system supply =
     (example_system supply)
       \<lparr>Virtualized := (\<lambda>p. None)((0, 1) := Some 0xFFFFA00000002000),
        VpBlocks := zero_VIRTUAL_PROCESSOR_DATA(0xFFFFA00000002000 :=
          (zero_VIRTUAL_PROCESSOR_DATA 0xFFFFA00000002000)
            \<lparr>pProcessNestData_CpuMode := ProtectedMode,
             HostStackLayout_SharedVpData := 0xFFFFA00000001000,
             HostStackLayout_pProcessNestData := 0xFFFFA00000003000,
             HostStackLayout_Reserved1 := 0xFFFFFFFFFFFFFFFF\<rparr>),
        Pool := {0xFFFFA00000001000, 0xFFFFA00000002000, 0xFFFFA00000003000},
        Contiguous := {0xFFFFB00000000000},
        ContiguousSupply := [],
        PoolAllocations := 3,
        Launched := [(0, 1)]\<rparr>"

section \<open>Invariants of the life cycle\<close>

text \<open>What the exits in flat mode leave of the per-processor data: its address, the
  pointers to the shared data and to the nested context, the mode and the inner vCPU.\<close>

definition same_layout :: "VMEXIT_STATE \<Rightarrow> VMEXIT_STATE \<Rightarrow> bool" where
  "same_layout b b' \<longleftrightarrow>
     VpData b' = VpData b
   \<and> HostStackLayout_SharedVpData b' = HostStackLayout_SharedVpData b
   \<and> HostStackLayout_pProcessNestData b' = HostStackLayout_pProcessNestData b
   \<and> pProcessNestData_CpuMode b' = pProcessNestData_CpuMode b
   \<and> pProcessNestData_vcpu_vmx b' = pProcessNestData_vcpu_vmx b"

text \<open>The next call of \<open>SvVirtualizeProcessor\<close> fails for lack of memory: the pool returns
  null at the first or at the second allocation of the call.\<close>

definition allocation_fails_next :: "UINT64 list \<Rightarrow> bool" where
  "allocation_fails_next supply \<longleftrightarrow>
     (case supply of
        [] \<Rightarrow> True
      | x # rest \<Rightarrow> x = 0 \<or> (case rest of [] \<Rightarrow> True | y # rest' \<Rightarrow> y = 0))"

text \<open>The affinity \<open>SvExecuteOnEachProcessor\<close> gives the thread for the index \<open>i\<close>.\<close>

definition affinity_of_index :: "SYS_ENV \<Rightarrow> nat \<Rightarrow> GROUP_AFFINITY" where
  "affinity_of_index V i =
     (let processorNumber = snd (ProcessorNumberFromIndex V i)
      in \<lparr>affinity_Mask = push_bit (unat (Number processorNumber)) 1,
          affinity_Group = Group processorNumber\<rparr>)"

text \<open>No processor answers by itself the vendor leaf with the signature of this
  hypervisor, or the unload leaf with its marker.\<close>

definition plain_hardware :: "SVM_DEFS \<Rightarrow> SYS_ENV \<Rightarrow> bool" where
  "plain_hardware D V \<longleftrightarrow>
     list_all
       (\<lambda>i. \<not> IsInstalled_on (hardware_cpuid V (processor_of_index V i)
                                 (CPUID_HV_VENDOR_AND_MAX_FUNCTIONS D) 0)
            \<and> fst (snd (snd (hardware_cpuid V (processor_of_index V i)
                               (CPUID_UNLOAD_SIMPLE_SVM D) (CPUID_UNLOAD_SIMPLE_SVM D))))
                \<noteq> multichar ''JSVM'')
       [0 ..< ActiveProcessorCount V]"

text \<open>Different indices are different processors.\<close>

definition processors_distinct :: "SYS_ENV \<Rightarrow> bool" where
  "processors_distinct V \<longleftrightarrow>
     distinct (map (processor_of_index V) [0 ..< ActiveProcessorCount V])"

text \<open>The pool returns the address \<open>shared\<close>, then the addresses of the list \<open>L\<close>, then
  those of \<open>tail\<close>. The addresses of \<open>shared\<close> and \<open>L\<close> are not null; they and the first
  address of \<open>tail\<close> are different from each other and from the blocks that are
  allocated already.\<close>

definition fresh_supply :: "SYSTEM \<Rightarrow> UINT64 \<Rightarrow> UINT64 list \<Rightarrow> UINT64 list \<Rightarrow> bool" where
  "fresh_supply s shared L tail \<longleftrightarrow>
     PoolSupply s = shared # L @ tail
   \<and> 0 \<notin> set (shared # L)
   \<and> distinct (shared # L @ take 1 tail)
   \<and> set (shared # L @ take 1 tail) \<inter> Pool s = {}"

text \<open>The state between two steps of the life cycle that started in \<open>s0\<close>: the shared data
  is at \<open>shared\<close> and its permissions map at \<open>m\<close>; the processors of the indices from
  \<open>lo\<close> up to \<open>hi - 1\<close> are virtualized, processor \<open>j\<close> with the per-processor data at
  \<open>L ! (2 * j)\<close> and the nested context at \<open>L ! (2 * j + 1)\<close>, in flat mode, and no other
  processor is; the pool holds these blocks beside those of \<open>s0\<close>; the processors below
  \<open>hi\<close> have been launched and those below \<open>lo\<close> have unloaded, in the order of their
  indices.\<close>

definition lifecycle_inv ::
  "SYS_ENV \<Rightarrow> SYSTEM \<Rightarrow> UINT64 \<Rightarrow> UINT64 \<Rightarrow> UINT64 list \<Rightarrow> nat \<Rightarrow> nat \<Rightarrow> SYSTEM \<Rightarrow> bool" where
  "lifecycle_inv V s0 shared m L lo hi t \<longleftrightarrow>
     Thread t = Thread s0
   \<and> (\<forall>j < ActiveProcessorCount V.
         Virtualized t (processor_of_index V j)
           = (if lo \<le> j \<and> j < hi then Some (L ! (2 * j)) else None))
   \<and> (\<forall>q. q \<notin> processor_of_index V ` {..< ActiveProcessorCount V} \<longrightarrow> Virtualized t q = None)
   \<and> (\<forall>j. lo \<le> j \<and> j < hi \<longrightarrow>
         VpData (VpBlocks t (L ! (2 * j))) = L ! (2 * j)
       \<and> HostStackLayout_SharedVpData (VpBlocks t (L ! (2 * j))) = shared
       \<and> HostStackLayout_pProcessNestData (VpBlocks t (L ! (2 * j))) = L ! (2 * j + 1)
       \<and> pProcessNestData_CpuMode (VpBlocks t (L ! (2 * j))) \<noteq> VmxMode)
   \<and> Pool t = Pool s0 \<union> {shared} \<union> (\<lambda>x. L ! x) ` {2 * lo ..< 2 * hi}
   \<and> Contiguous t = insert m (Contiguous s0)
   \<and> MsrPermissionsMap (SharedBlocks t shared) = m
   \<and> Launched t = Launched s0 @ map (processor_of_index V) [0 ..< hi]
   \<and> Unloaded t = Unloaded s0 @ map (processor_of_index V) [0 ..< lo]"

section \<open>Words, bytes and strings\<close>

lemma multichar_NmvS: "multichar ''NmvS'' = 0x4E6D7653" by (simp add: multichar_def)
lemma multichar_tse: "multichar '' tse'' = 0x20747365" by (simp add: multichar_def)
lemma multichar_spaces: "multichar ''    '' = 0x20202020" by (simp add: multichar_def)

lemma int_bytes_inj: "int_bytes x = int_bytes y \<Longrightarrow> x = y"
proof (rule bit_word_eqI)
  fix n assume a: "int_bytes x = int_bytes y" and n: "n < LENGTH(32)"
  from a have b0: "(ucast x :: 8 word) = ucast y"
    and b1: "(ucast (drop_bit 8 x) :: 8 word) = ucast (drop_bit 8 y)"
    and b2: "(ucast (drop_bit 16 x) :: 8 word) = ucast (drop_bit 16 y)"
    and b3: "(ucast (drop_bit 24 x) :: 8 word) = ucast (drop_bit 24 y)"
    by (simp_all add: int_bytes_def)
  have c0: "bit x k = bit y k" if "k < 8" for k
    using arg_cong [OF b0, of "\<lambda>w. bit w k"] that by (simp add: bit_simps)
  have c1: "bit x (8 + k) = bit y (8 + k)" if "k < 8" for k
    using arg_cong [OF b1, of "\<lambda>w. bit w k"] that by (simp add: bit_simps)
  have c2: "bit x (16 + k) = bit y (16 + k)" if "k < 8" for k
    using arg_cong [OF b2, of "\<lambda>w. bit w k"] that by (simp add: bit_simps)
  have c3: "bit x (24 + k) = bit y (24 + k)" if "k < 8" for k
    using arg_cong [OF b3, of "\<lambda>w. bit w k"] that by (simp add: bit_simps)
  consider "n < 8" | "8 \<le> n" "n < 16" | "16 \<le> n" "n < 24" | "24 \<le> n" "n < 32"
    using n by fastforce
  then show "bit x n = bit y n"
  proof cases
    case 1 then show ?thesis using c0 by simp
  next
    case 2 then show ?thesis using c1 [of "n - 8"] by simp
  next
    case 3 then show ?thesis using c2 [of "n - 16"] by simp
  next
    case 4 then show ?thesis using c3 [of "n - 24"] by simp
  qed
qed

lemma int_to_UINT64_high: "bit (r::32 word) 31 \<Longrightarrow> drop_bit 32 (int_to_UINT64 r) = 0xFFFFFFFF"
proof -
  assume b: "bit r 31"
  have e: "int_to_UINT64 r = scast r" by (simp only: int_to_UINT64_def scast_eq)
  have m: "(0xFFFFFFFF :: 64 word) = mask 32" by (simp add: mask_eq_exp_minus_1)
  show ?thesis unfolding e m
    apply (rule bit_word_eqI)
    using b apply (auto simp: bit_simps)
    done
qed

lemma ucast_high_zero: "drop_bit 32 (ucast (r::32 word) :: 64 word) = 0"
  by (rule bit_word_eqI) (auto simp: bit_simps dest: bit_imp_le_length)

lemma int_to_UINT64_low: "ucast (int_to_UINT64 r) = r"
proof -
  have e: "int_to_UINT64 r = scast r" by (simp only: int_to_UINT64_def scast_eq)
  show ?thesis unfolding e
    apply (rule bit_word_eqI)
    apply (auto simp: bit_simps)
    done
qed

lemma strcmp_eq:
  "length xs = length lit \<Longrightarrow> 0 \<notin> set lit \<Longrightarrow>
   strcmp (xs @ [0]) (lit @ [0]) = Some 0 \<longleftrightarrow> xs = lit"
proof (induction xs arbitrary: lit)
  case Nil then show ?case by simp
next
  case (Cons a as)
  then obtain b bs where l: "lit = b # bs" by (cases lit) auto
  with Cons show ?case by auto
qed


lemma installed_iff:
  "IsInstalled_on (r0, r1, r2, r3) \<longleftrightarrow>
     r1 = multichar ''NmvS'' \<and> r2 = multichar '' tse'' \<and> r3 = multichar ''    ''"
proof -
  let ?xs = "int_bytes r1 @ int_bytes r2 @ int_bytes r3"
  let ?lit = "map of_char ''SvmNest     '' :: 8 word list"
  have len: "length ?xs = length ?lit" by (simp add: int_bytes_def)
  have nz: "0 \<notin> set ?lit" by simp
  have lit: "?lit = int_bytes (multichar ''NmvS'') @ int_bytes (multichar '' tse'')
               @ int_bytes (multichar ''    '')"
    by (simp add: int_bytes_def multichar_def)
  have "IsInstalled_on (r0, r1, r2, r3) \<longleftrightarrow> strcmp (?xs @ [0]) (?lit @ [0]) = Some 0"
    by (simp add: IsInstalled_on_def vendorId_of_def c_string_def)
  also have "\<dots> \<longleftrightarrow> ?xs = ?lit" by (rule strcmp_eq [OF len nz])
  also have "\<dots> \<longleftrightarrow> int_bytes r1 = int_bytes (multichar ''NmvS'')
       \<and> int_bytes r2 = int_bytes (multichar '' tse'')
       \<and> int_bytes r3 = int_bytes (multichar ''    '')"
    unfolding lit by (simp add: int_bytes_def)
  also have "\<dots> \<longleftrightarrow> r1 = multichar ''NmvS'' \<and> r2 = multichar '' tse'' \<and> r3 = multichar ''    ''"
    using int_bytes_inj by blast
  finally show ?thesis .
qed

section \<open>Properties of the exit path\<close>

lemma reflect_rax_written:
  assumes "reflect_rax E s = Inr s'"
  shows "VpRegs s' = VpRegs s \<and> ExitVm s' = ExitVm s
     \<and> pProcessNestData_CpuMode s' = pProcessNestData_CpuMode s
     \<and> pProcessNestData_vcpu_vmx s' = pProcessNestData_vcpu_vmx s
     \<and> (if pProcessNestData_CpuMode s \<noteq> VmxMode
         then StateSaveArea_Rax (GuestVmcb s') = Rax (VpRegs s)
         else \<exists>vmx p. pProcessNestData_vcpu_vmx s = Some vmx
                \<and> UtilVaFromPa E (vmcb_guest_02_pa vmx) = Some p
                \<and> StateSaveArea_Rax (Vmcbs s' p) = Rax (VpRegs s))"
  using assms
  by (auto simp: reflect_rax_def update_vmcb_def GuestVmcb_def split: if_splits option.splits)

lemma flat_npf:
  assumes "pProcessNestData_CpuMode s \<noteq> VmxMode"
    and "ControlArea_ExitCode (GuestVmcb s) = VMEXIT_NPF D"
    and "vmexit_labels_distinct D"
  shows "handle_exit_flat D E H s =
      Inr (SV_DEBUG_BREAK (s\<lparr>VpRegs := (VpRegs s)\<lparr>Rax := StateSaveArea_Rax (GuestVmcb s)\<rparr>,
                 ExitVm := EXIT_NOTHING\<rparr>))"
  using assms
  by (auto simp: handle_exit_flat_def vmexit_labels_distinct_def GuestVmcb_def Let_def)

lemma load_host_state_flat:
  "pProcessNestData_CpuMode s \<noteq> VmxMode \<Longrightarrow>
   \<exists>pa. load_host_state s = Inr (host_does (svm_vmload pa) s)"
  by (auto simp: load_host_state_def split: option.splits)

lemma host_does_simps [simp]:
  "pProcessNestData_CpuMode (host_does op s) = pProcessNestData_CpuMode s"
  "pProcessNestData_vcpu_vmx (host_does op s) = pProcessNestData_vcpu_vmx s"
  "Vmcbs (host_does op s) = Vmcbs s"
  "VpRegs (host_does op s) = VpRegs s"
  "ExitVm (host_does op s) = ExitVm s"
  "GuestVmcb (host_does op s) = GuestVmcb s"
  "Trace (host_does op s) = op # Trace s"
  by (simp_all add: host_does_def GuestVmcb_def)

lemma amd64_labels [simp]:
  "vmexit_labels_distinct amd64_defs" "cpuid_labels_distinct amd64_defs"
  "msr_labels_distinct amd64_defs"
  by (simp_all add: vmexit_labels_distinct_def cpuid_labels_distinct_def
        msr_labels_distinct_def amd64_defs_def)

lemma amd64_vmexit_codes:
  "VMEXIT_NPF amd64_defs = 0x400" "VMEXIT_CPUID amd64_defs = 0x72"
  "VMEXIT_MSR amd64_defs = 0x7C" "VMEXIT_VMRUN amd64_defs = 0x80"
  "VMEXIT_VMMCALL amd64_defs = 0x81" "VMEXIT_EXCEPTION_BP amd64_defs = 0x43"
  by (simp_all add: amd64_defs_def)

lemma flat_state_simps:
  "pProcessNestData_CpuMode (flat_state c r) = ProtectedMode"
  "pProcessNestData_vcpu_vmx (flat_state c r) = None"
  "ControlArea_ExitCode (GuestVmcb (flat_state c r)) = c"
  "StateSaveArea_Rax (GuestVmcb (flat_state c r)) = r"
  "Trace (flat_state c r) = []"
  "VpRegs (flat_state c r) = \<lparr>Rax = 0, Rbx = 0, Rcx = 0, Rdx = 0\<rparr>"
  by (simp_all add: flat_state_def GuestVmcb_def)

text \<open>
  C3, as the code has it. In flat mode the exit code \<open>VMEXIT_NPF\<close> has a case of its own:
  it raises the diagnostic breakpoint \<open>SV_DEBUG_BREAK\<close> and leaves the \<open>switch\<close>, so
  \<open>SvHandleVmExit\<close> returns \<open>EXIT_NOTHING\<close> through the normal path, with the guest's RAX
  reflected from the VMCB and no VMCB changed: the guest is resumed. The system is halted
  (\<open>KeBugCheck\<close>) for the exit codes without a case, and only for them.
\<close>

theorem SvHandleVmExit_npf_resumes:
  assumes "pProcessNestData_CpuMode s \<noteq> VmxMode" and "vmexit_labels_distinct D"
  shows "(ControlArea_ExitCode (GuestVmcb s) = VMEXIT_NPF D \<longrightarrow>
            (\<exists>s' pa. SvHandleVmExit D E H s = Inr (EXIT_NOTHING, s')
               \<and> Trace s' = debug_break # svm_vmload pa # Trace s
               \<and> VpRegs s' = (VpRegs s)\<lparr>Rax := StateSaveArea_Rax (GuestVmcb s)\<rparr>
               \<and> Vmcbs s' = Vmcbs s))
       \<and> (ControlArea_ExitCode (GuestVmcb s) \<notin>
             {VMEXIT_CPUID D, VMEXIT_MSR D, VMEXIT_VMRUN D, VMEXIT_VMMCALL D, VMEXIT_NPF D} \<longrightarrow>
            SvHandleVmExit D E H s = Inl KeBugCheck_MANUALLY_INITIATED_CRASH)"
proof (intro conjI impI)
  from load_host_state_flat [OF assms(1)] obtain pa
    where l: "load_host_state s = Inr (host_does (svm_vmload pa) s)" by blast
  let ?s1 = "host_does (svm_vmload pa) s"
  {
    assume c: "ControlArea_ExitCode (GuestVmcb s) = VMEXIT_NPF D"
    have f: "handle_exit_flat D E H ?s1 =
      Inr (SV_DEBUG_BREAK (?s1\<lparr>VpRegs := (VpRegs ?s1)\<lparr>Rax := StateSaveArea_Rax (GuestVmcb ?s1)\<rparr>,
                 ExitVm := EXIT_NOTHING\<rparr>))"
      by (rule flat_npf) (use assms c in simp_all)
    show "\<exists>s' pa. SvHandleVmExit D E H s = Inr (EXIT_NOTHING, s')
               \<and> Trace s' = debug_break # svm_vmload pa # Trace s
               \<and> VpRegs s' = (VpRegs s)\<lparr>Rax := StateSaveArea_Rax (GuestVmcb s)\<rparr>
               \<and> Vmcbs s' = Vmcbs s"
      using assms(1)
      apply (simp add: SvHandleVmExit_def l f)
      apply (simp add: SV_DEBUG_BREAK_def reflect_rax_def update_vmcb_def GuestVmcb_def)
      done
  }
  {
    assume c: "ControlArea_ExitCode (GuestVmcb s) \<notin>
             {VMEXIT_CPUID D, VMEXIT_MSR D, VMEXIT_VMRUN D, VMEXIT_VMMCALL D, VMEXIT_NPF D}"
    then have "handle_exit_flat D E H ?s1 = Inl KeBugCheck_MANUALLY_INITIATED_CRASH"
      by (simp add: handle_exit_flat_def GuestVmcb_def host_does_def)
    then show "SvHandleVmExit D E H s = Inl KeBugCheck_MANUALLY_INITIATED_CRASH"
      using assms(1) by (simp add: SvHandleVmExit_def l)
  }
qed

theorem SvHandleVmExit_npf_resumes_witness:
  "\<exists>s' pa. SvHandleVmExit amd64_defs example_env example_handlers (flat_state 0x400 7)
       = Inr (EXIT_NOTHING, s')
     \<and> Trace s' = [debug_break, svm_vmload pa]
     \<and> Rax (VpRegs s') = 7
     \<and> SvHandleVmExit amd64_defs example_env example_handlers (flat_state 0x401 7)
          = Inl KeBugCheck_MANUALLY_INITIATED_CRASH"
proof -
  have m: "pProcessNestData_CpuMode (flat_state c r) \<noteq> VmxMode" for c r
    by (simp add: flat_state_simps)
  from SvHandleVmExit_npf_resumes
         [OF m amd64_labels(1), of "0x400" 7 example_env example_handlers]
       SvHandleVmExit_npf_resumes
         [OF m amd64_labels(1), of "0x401" 7 example_env example_handlers]
  show ?thesis
    by (simp add: flat_state_simps amd64_vmexit_codes) fastforce
qed

text \<open>
  C3, as the specification states it, fails: with the exit code \<open>VMEXIT_NPF\<close> (\<open>0x400\<close>) in
  flat mode the dispatcher does not halt the system, it returns \<open>EXIT_NOTHING\<close>.
\<close>

theorem SvHandleVmExit_npf_halts_counterexample:
  "map_sum id fst (SvHandleVmExit amd64_defs example_env example_handlers (flat_state 0x400 7))
     = Inr EXIT_NOTHING
   \<and> VMEXIT_NPF amd64_defs = 0x400"
  by (simp add: SvHandleVmExit_def load_host_state_def handle_exit_flat_def flat_state_def
      amd64_defs_def GuestVmcb_def SV_DEBUG_BREAK_def host_does_def reflect_rax_def
      update_vmcb_def zero_VMCB_def)

lemma reflect_rax_frame:
  assumes "reflect_rax E s = Inr s'"
  shows "if pProcessNestData_CpuMode s \<noteq> VmxMode
         then GuestVmcb s' = (GuestVmcb s)\<lparr>StateSaveArea_Rax := Rax (VpRegs s)\<rparr>
            \<and> (\<forall>q. q \<noteq> VpData_GuestVmcb \<longrightarrow> Vmcbs s' q = Vmcbs s q)
         else \<exists>vmx p. pProcessNestData_vcpu_vmx s = Some vmx
                \<and> UtilVaFromPa E (vmcb_guest_02_pa vmx) = Some p
                \<and> Vmcbs s' p = (Vmcbs s p)\<lparr>StateSaveArea_Rax := Rax (VpRegs s)\<rparr>
                \<and> (\<forall>q. q \<noteq> p \<longrightarrow> Vmcbs s' q = Vmcbs s q)"
  using assms
  by (auto simp: reflect_rax_def update_vmcb_def GuestVmcb_def split: if_splits option.splits)

text \<open>
  C7. Whenever \<open>SvHandleVmExit\<close> returns and the returned exit flag is not \<open>EXIT_EXIT\<close> (the
  unload path), whatever the exit code and the handlers did: let \<open>s2\<close> be the state in which
  the handler of the exit code has returned. The register snapshot on return is the one of
  \<open>s2\<close>, and its RAX has been written into the VMCB that \<open>VMRUN\<close> loads next: the guest VMCB
  of the per-processor data when the mode in \<open>s2\<close> is not \<open>VmxMode\<close>, the 02-view (the VMCB
  at \<open>vmcb_guest_02_pa\<close>) when it is. That VMCB is the one of \<open>s2\<close> with the RAX of the
  snapshot of \<open>s2\<close> as its RAX, and every other VMCB is as in \<open>s2\<close>. The mode and the
  inner vCPU are the ones the handler has left.
\<close>

theorem SvHandleVmExit_reflects_rax:
  assumes "SvHandleVmExit D E H s = Inr (exitVm, s')" and "exitVm \<noteq> EXIT_EXIT"
  shows "\<exists>s1 s2.
           load_host_state s = Inr s1
         \<and> (if pProcessNestData_CpuMode s1 \<noteq> VmxMode then handle_exit_flat D E H s1
            else handle_exit_nested D E H s1) = Inr s2
         \<and> exitVm = ExitVm s2
         \<and> VpRegs s' = VpRegs s2
         \<and> pProcessNestData_CpuMode s' = pProcessNestData_CpuMode s2
         \<and> pProcessNestData_vcpu_vmx s' = pProcessNestData_vcpu_vmx s2
         \<and> (if pProcessNestData_CpuMode s2 \<noteq> VmxMode
            then StateSaveArea_Rax (GuestVmcb s') = Rax (VpRegs s2)
               \<and> GuestVmcb s' = (GuestVmcb s2)\<lparr>StateSaveArea_Rax := Rax (VpRegs s2)\<rparr>
               \<and> (\<forall>q. q \<noteq> VpData_GuestVmcb \<longrightarrow> Vmcbs s' q = Vmcbs s2 q)
            else \<exists>vmx p. pProcessNestData_vcpu_vmx s2 = Some vmx
                   \<and> UtilVaFromPa E (vmcb_guest_02_pa vmx) = Some p
                   \<and> StateSaveArea_Rax (Vmcbs s' p) = Rax (VpRegs s2)
                   \<and> Vmcbs s' p = (Vmcbs s2 p)\<lparr>StateSaveArea_Rax := Rax (VpRegs s2)\<rparr>
                   \<and> (\<forall>q. q \<noteq> p \<longrightarrow> Vmcbs s' q = Vmcbs s2 q))"
proof -
  from assms obtain s1 s2 where l: "load_host_state s = Inr s1"
    and h: "(if pProcessNestData_CpuMode s1 \<noteq> VmxMode then handle_exit_flat D E H s1
            else handle_exit_nested D E H s1) = Inr s2"
    and r: "reflect_rax E s2 = Inr s'" and x: "exitVm = ExitVm s'"
    by (auto simp: SvHandleVmExit_def split: sum.splits if_splits)
  note w = reflect_rax_written [OF r]
  from w x have a: "exitVm = ExitVm s2" "VpRegs s' = VpRegs s2"
    "pProcessNestData_CpuMode s' = pProcessNestData_CpuMode s2"
    "pProcessNestData_vcpu_vmx s' = pProcessNestData_vcpu_vmx s2" by simp_all
  show ?thesis
  proof (cases "pProcessNestData_CpuMode s2 \<noteq> VmxMode")
    case True
    with reflect_rax_frame [OF r]
    have "GuestVmcb s' = (GuestVmcb s2)\<lparr>StateSaveArea_Rax := Rax (VpRegs s2)\<rparr>"
      "\<forall>q. q \<noteq> VpData_GuestVmcb \<longrightarrow> Vmcbs s' q = Vmcbs s2 q" by simp_all
    moreover from this(1) have "StateSaveArea_Rax (GuestVmcb s') = Rax (VpRegs s2)" by simp
    ultimately show ?thesis using l h a True by auto
  next
    case False
    with reflect_rax_frame [OF r] obtain vmx p where
      v: "pProcessNestData_vcpu_vmx s2 = Some vmx" "UtilVaFromPa E (vmcb_guest_02_pa vmx) = Some p"
      "Vmcbs s' p = (Vmcbs s2 p)\<lparr>StateSaveArea_Rax := Rax (VpRegs s2)\<rparr>"
      "\<forall>q. q \<noteq> p \<longrightarrow> Vmcbs s' q = Vmcbs s2 q" by auto
    from v(3) have "StateSaveArea_Rax (Vmcbs s' p) = Rax (VpRegs s2)" by simp
    with v l h a False show ?thesis by auto
  qed
qed



theorem SvHandleVmExit_reflects_rax_witness:
  "(\<exists>s'. SvHandleVmExit amd64_defs example_env example_handlers (flat_state 0x72 0x40000000)
          = Inr (EXIT_NOTHING, s')
        \<and> pProcessNestData_CpuMode s' = ProtectedMode
        \<and> Rax (VpRegs s') = 0x40000001 \<and> StateSaveArea_Rax (GuestVmcb s') = 0x40000001)
   \<and> (\<exists>s'. SvHandleVmExit amd64_defs example_env (rax_writing_handlers 0x1234)
            (nested_state 0x72 5)
          = Inr (EXIT_NOTHING, s')
        \<and> pProcessNestData_CpuMode s' = VmxMode
        \<and> Rax (VpRegs s') = 0x1234 \<and> StateSaveArea_Rax (Vmcbs s' (Vmcb_at 0x6000)) = 0x1234
        \<and> StateSaveArea_Rax (GuestVmcb s') = 0)
   \<and> (\<exists>s'. SvHandleVmExit amd64_defs example_env (rax_writing_handlers 0x1234)
            (flat_state 0x80 7)
          = Inr (EXIT_NOTHING, s')
        \<and> pProcessNestData_CpuMode s' = VmxMode
        \<and> Rax (VpRegs s') = 0x1234 \<and> StateSaveArea_Rax (Vmcbs s' (Vmcb_at 0x6000)) = 0x1234
        \<and> StateSaveArea_Rax (GuestVmcb s') = 7)"
proof (intro conjI)
  let ?s = "flat_state 0x72 0x40000000"
  let ?s1 = "host_does (svm_vmload 0x2000) ?s"
  have l: "load_host_state ?s = Inr ?s1"
    by (simp add: load_host_state_def flat_state_def)
  have m1: "pProcessNestData_CpuMode ?s1 = ProtectedMode" by (simp add: flat_state_simps)
  have h: "\<exists>s2. handle_exit_flat amd64_defs example_env example_handlers ?s1 = Inr s2
          \<and> ExitVm s2 = EXIT_NOTHING \<and> pProcessNestData_CpuMode s2 = ProtectedMode
          \<and> Rax (VpRegs s2) = 0x40000001"
    by (simp add: handle_exit_flat_def flat_state_def amd64_defs_def GuestVmcb_def
        SvHandleCpuid_def SvHandleCpuid_switch_def example_env_def host_does_def Let_def
        update_vmcb_def zero_VMCB_def static_cast_int_def int_to_UINT64_def)
  then obtain s2 where h2: "handle_exit_flat amd64_defs example_env example_handlers ?s1 = Inr s2"
    "ExitVm s2 = EXIT_NOTHING" "pProcessNestData_CpuMode s2 = ProtectedMode"
    "Rax (VpRegs s2) = 0x40000001" by blast
  have "\<exists>s'. SvHandleVmExit amd64_defs example_env example_handlers ?s = Inr (EXIT_NOTHING, s')"
    using l m1 h2 by (simp add: SvHandleVmExit_def reflect_rax_def update_vmcb_def)
  then obtain s' where
    e: "SvHandleVmExit amd64_defs example_env example_handlers ?s = Inr (EXIT_NOTHING, s')"
    by blast
  from SvHandleVmExit_reflects_rax [OF e] l m1 h2
  have "pProcessNestData_CpuMode s' = ProtectedMode
        \<and> Rax (VpRegs s') = 0x40000001 \<and> StateSaveArea_Rax (GuestVmcb s') = 0x40000001"
    by auto
  with e show "\<exists>s'. SvHandleVmExit amd64_defs example_env example_handlers ?s
          = Inr (EXIT_NOTHING, s')
        \<and> pProcessNestData_CpuMode s' = ProtectedMode
        \<and> Rax (VpRegs s') = 0x40000001 \<and> StateSaveArea_Rax (GuestVmcb s') = 0x40000001"
    by blast
next
  let ?H = "rax_writing_handlers 0x1234"
  let ?s = "nested_state 0x72 5"
  let ?s1 = "host_does (svm_vmload 0x5000) ?s"
  have l: "load_host_state ?s = Inr ?s1"
    by (simp add: load_host_state_def nested_state_def)
  have m1: "pProcessNestData_CpuMode ?s1 = VmxMode" by (simp add: nested_state_def)
  have h: "\<exists>s2. handle_exit_nested amd64_defs example_env ?H ?s1 = Inr s2
          \<and> ExitVm s2 = EXIT_NOTHING \<and> pProcessNestData_CpuMode s2 = VmxMode
          \<and> pProcessNestData_vcpu_vmx s2 =
            Some \<lparr>vmcb_host_02_pa = 0x5000, vmcb_guest_02_pa = 0x6000, vmcb_guest_12_pa = 0x7000\<rparr>
          \<and> Rax (VpRegs s2) = 0x1234 \<and> StateSaveArea_Rax (GuestVmcb s2) = 0"
    by (simp add: handle_exit_nested_def nested_state_def amd64_defs_def GuestVmcb_def
        rax_writing_handlers_def example_handlers_def example_env_def UtilVaFromPa_def
        SV_DEBUG_BREAK_def host_does_def Let_def zero_VMCB_def)
  then obtain s2 where h2: "handle_exit_nested amd64_defs example_env ?H ?s1 = Inr s2"
    "ExitVm s2 = EXIT_NOTHING" "pProcessNestData_CpuMode s2 = VmxMode"
    "pProcessNestData_vcpu_vmx s2 =
            Some \<lparr>vmcb_host_02_pa = 0x5000, vmcb_guest_02_pa = 0x6000, vmcb_guest_12_pa = 0x7000\<rparr>"
    "Rax (VpRegs s2) = 0x1234" "StateSaveArea_Rax (GuestVmcb s2) = 0" by blast
  have u: "UtilVaFromPa example_env 0x6000 = Some (Vmcb_at 0x6000)"
    by (simp add: UtilVaFromPa_def example_env_def)
  have "\<exists>s'. SvHandleVmExit amd64_defs example_env ?H ?s = Inr (EXIT_NOTHING, s')"
    using l m1 h2 u by (simp add: SvHandleVmExit_def reflect_rax_def update_vmcb_def)
  then obtain s' where
    e: "SvHandleVmExit amd64_defs example_env ?H ?s = Inr (EXIT_NOTHING, s')"
    by blast
  from SvHandleVmExit_reflects_rax [OF e] l m1 h2 u
  have "pProcessNestData_CpuMode s' = VmxMode
        \<and> Rax (VpRegs s') = 0x1234 \<and> StateSaveArea_Rax (Vmcbs s' (Vmcb_at 0x6000)) = 0x1234
        \<and> StateSaveArea_Rax (GuestVmcb s') = 0"
    by (auto simp: GuestVmcb_def)
  with e show "\<exists>s'. SvHandleVmExit amd64_defs example_env ?H ?s = Inr (EXIT_NOTHING, s')
        \<and> pProcessNestData_CpuMode s' = VmxMode
        \<and> Rax (VpRegs s') = 0x1234 \<and> StateSaveArea_Rax (Vmcbs s' (Vmcb_at 0x6000)) = 0x1234
        \<and> StateSaveArea_Rax (GuestVmcb s') = 0"
    by blast
next
  let ?H = "rax_writing_handlers 0x1234"
  let ?s = "flat_state 0x80 7"
  let ?s1 = "host_does (svm_vmload 0x2000) ?s"
  have l: "load_host_state ?s = Inr ?s1"
    by (simp add: load_host_state_def flat_state_def)
  have m1: "pProcessNestData_CpuMode ?s1 = ProtectedMode" by (simp add: flat_state_simps)
  have h: "\<exists>s2. handle_exit_flat amd64_defs example_env ?H ?s1 = Inr s2
          \<and> ExitVm s2 = EXIT_NOTHING \<and> pProcessNestData_CpuMode s2 = VmxMode
          \<and> pProcessNestData_vcpu_vmx s2 =
            Some \<lparr>vmcb_host_02_pa = 0x5000, vmcb_guest_02_pa = 0x6000, vmcb_guest_12_pa = 0x7000\<rparr>
          \<and> Rax (VpRegs s2) = 0x1234 \<and> StateSaveArea_Rax (GuestVmcb s2) = 7"
    by (simp add: handle_exit_flat_def flat_state_def amd64_defs_def GuestVmcb_def
        rax_writing_handlers_def example_handlers_def host_does_def Let_def zero_VMCB_def)
  then obtain s2 where h2: "handle_exit_flat amd64_defs example_env ?H ?s1 = Inr s2"
    "ExitVm s2 = EXIT_NOTHING" "pProcessNestData_CpuMode s2 = VmxMode"
    "pProcessNestData_vcpu_vmx s2 =
            Some \<lparr>vmcb_host_02_pa = 0x5000, vmcb_guest_02_pa = 0x6000, vmcb_guest_12_pa = 0x7000\<rparr>"
    "Rax (VpRegs s2) = 0x1234" "StateSaveArea_Rax (GuestVmcb s2) = 7" by blast
  have u: "UtilVaFromPa example_env 0x6000 = Some (Vmcb_at 0x6000)"
    by (simp add: UtilVaFromPa_def example_env_def)
  have "\<exists>s'. SvHandleVmExit amd64_defs example_env ?H ?s = Inr (EXIT_NOTHING, s')"
    using l m1 h2 u by (simp add: SvHandleVmExit_def reflect_rax_def update_vmcb_def)
  then obtain s' where
    e: "SvHandleVmExit amd64_defs example_env ?H ?s = Inr (EXIT_NOTHING, s')"
    by blast
  from SvHandleVmExit_reflects_rax [OF e] l m1 h2 u
  have "pProcessNestData_CpuMode s' = VmxMode
        \<and> Rax (VpRegs s') = 0x1234 \<and> StateSaveArea_Rax (Vmcbs s' (Vmcb_at 0x6000)) = 0x1234
        \<and> StateSaveArea_Rax (GuestVmcb s') = 7"
    by (auto simp: GuestVmcb_def)
  with e show "\<exists>s'. SvHandleVmExit amd64_defs example_env ?H ?s = Inr (EXIT_NOTHING, s')
        \<and> pProcessNestData_CpuMode s' = VmxMode
        \<and> Rax (VpRegs s') = 0x1234 \<and> StateSaveArea_Rax (Vmcbs s' (Vmcb_at 0x6000)) = 0x1234
        \<and> StateSaveArea_Rax (GuestVmcb s') = 7"
    by blast
qed

lemma Vmcbs_store_field:
  "Vmcbs (store_field dst rhs set_field s) q =
     (if q = dst then set_field (rhs s) (Vmcbs s dst) else Vmcbs s q)"
  by (simp add: store_field_def update_vmcb_def)

lemma VpRegs_store_field [simp]: "VpRegs (store_field dst rhs set_field s) = VpRegs s"
  by (simp add: store_field_def update_vmcb_def)

text \<open>An assignment to another field, or through another pointer, leaves a field as it
  was; an assignment to the field leaves the right-hand side in it.\<close>

lemma store_field_frame:
  assumes "\<And>x v. F (set_field x v) = F v"
  shows "F (Vmcbs (store_field dst rhs set_field t) q) = F (Vmcbs t q)"
  by (simp add: Vmcbs_store_field assms)

lemma store_field_miss:
  "q \<noteq> dst \<Longrightarrow> Vmcbs (store_field dst rhs set_field t) q = Vmcbs t q"
  by (simp add: Vmcbs_store_field)

lemma store_field_hit:
  assumes "\<And>x v. F (set_field x v) = x"
  shows "F (Vmcbs (store_field dst rhs set_field t) dst) = rhs t"
  by (simp add: Vmcbs_store_field assms)

lemmas merged_field_frames =
  store_field_frame [where F = ControlArea_ExitCode]
  store_field_frame [where F = ControlArea_ExitInfo1]
  store_field_frame [where F = ControlArea_ExitInfo2]
  store_field_frame [where F = ControlArea_ExitIntInfo]
  store_field_frame [where F = ControlArea_EventInj]
  store_field_frame [where F = StateSaveArea_Cpl]
  store_field_frame [where F = StateSaveArea_LStar]

lemmas merged_field_hits =
  store_field_hit [where F = ControlArea_ExitCode]
  store_field_hit [where F = ControlArea_ExitInfo1]
  store_field_hit [where F = ControlArea_ExitInfo2]
  store_field_hit [where F = ControlArea_ExitIntInfo]
  store_field_hit [where F = ControlArea_EventInj]
  store_field_hit [where F = StateSaveArea_Cpl]
  store_field_hit [where F = StateSaveArea_LStar]

text \<open>
  C6. When the inner vCPU exists and both of its VMCB addresses translate,
  \<open>SaveGuestVmcb12FromGuestVmcb02\<close> returns, and in the state it leaves the 12-view holds
  the exit code, exit info 1, exit info 2, exit interrupt info, event injection, CPL and
  LSTAR that the 02-view had at the call (the 02-view keeps them), and the RAX of the
  register snapshot is the physical address of the 12-view. This holds whether or not the
  two views, or a view and the outer guest VMCB, are the same memory.
\<close>

theorem SaveGuestVmcb12FromGuestVmcb02_merges:
  assumes "pProcessNestData_vcpu_vmx s = Some vmx"
    and "UtilVaFromPa E (vmcb_guest_02_pa vmx) = Some p02"
    and "UtilVaFromPa E (vmcb_guest_12_pa vmx) = Some p12"
  shows "\<exists>s'. SaveGuestVmcb12FromGuestVmcb02 E s = Inr s'
     \<and> ControlArea_ExitCode (Vmcbs s' p12) = ControlArea_ExitCode (Vmcbs s p02)
     \<and> ControlArea_ExitInfo1 (Vmcbs s' p12) = ControlArea_ExitInfo1 (Vmcbs s p02)
     \<and> ControlArea_ExitInfo2 (Vmcbs s' p12) = ControlArea_ExitInfo2 (Vmcbs s p02)
     \<and> ControlArea_ExitIntInfo (Vmcbs s' p12) = ControlArea_ExitIntInfo (Vmcbs s p02)
     \<and> ControlArea_EventInj (Vmcbs s' p12) = ControlArea_EventInj (Vmcbs s p02)
     \<and> StateSaveArea_Cpl (Vmcbs s' p12) = StateSaveArea_Cpl (Vmcbs s p02)
     \<and> StateSaveArea_LStar (Vmcbs s' p12) = StateSaveArea_LStar (Vmcbs s p02)
     \<and> ControlArea_ExitCode (Vmcbs s' p02) = ControlArea_ExitCode (Vmcbs s p02)
     \<and> Rax (VpRegs s') = vmcb_guest_12_pa vmx"
proof -
  let ?s' = "fold (\<lambda>assignment s. assignment s)
      (SaveGuestVmcb12FromGuestVmcb02_assignments vmx p02 p12) s"
  have r: "SaveGuestVmcb12FromGuestVmcb02 E s = Inr ?s'"
    using assms by (simp add: SaveGuestVmcb12FromGuestVmcb02_def)
  have f1: "ControlArea_ExitCode (Vmcbs ?s' p12) = ControlArea_ExitCode (Vmcbs s p02)"
    by (cases "p02 = p12")
       (simp_all add: SaveGuestVmcb12FromGuestVmcb02_assignments_def merged_field_frames
          merged_field_hits store_field_miss)
  have f2: "ControlArea_ExitInfo1 (Vmcbs ?s' p12) = ControlArea_ExitInfo1 (Vmcbs s p02)"
    by (cases "p02 = p12")
       (simp_all add: SaveGuestVmcb12FromGuestVmcb02_assignments_def merged_field_frames
          merged_field_hits store_field_miss)
  have f3: "ControlArea_ExitInfo2 (Vmcbs ?s' p12) = ControlArea_ExitInfo2 (Vmcbs s p02)"
    by (cases "p02 = p12")
       (simp_all add: SaveGuestVmcb12FromGuestVmcb02_assignments_def merged_field_frames
          merged_field_hits store_field_miss)
  have f4: "ControlArea_ExitIntInfo (Vmcbs ?s' p12) = ControlArea_ExitIntInfo (Vmcbs s p02)"
    by (cases "p02 = p12")
       (simp_all add: SaveGuestVmcb12FromGuestVmcb02_assignments_def merged_field_frames
          merged_field_hits store_field_miss)
  have f5: "ControlArea_EventInj (Vmcbs ?s' p12) = ControlArea_EventInj (Vmcbs s p02)"
    by (cases "p02 = p12")
       (simp_all add: SaveGuestVmcb12FromGuestVmcb02_assignments_def merged_field_frames
          merged_field_hits store_field_miss)
  have f6: "StateSaveArea_Cpl (Vmcbs ?s' p12) = StateSaveArea_Cpl (Vmcbs s p02)"
    by (cases "p02 = p12")
       (simp_all add: SaveGuestVmcb12FromGuestVmcb02_assignments_def merged_field_frames
          merged_field_hits store_field_miss)
  have f7: "StateSaveArea_LStar (Vmcbs ?s' p12) = StateSaveArea_LStar (Vmcbs s p02)"
    by (cases "p02 = p12")
       (simp_all add: SaveGuestVmcb12FromGuestVmcb02_assignments_def merged_field_frames
          merged_field_hits store_field_miss)
  have k: "ControlArea_ExitCode (Vmcbs ?s' p02) = ControlArea_ExitCode (Vmcbs s p02)"
    by (cases "p02 = p12")
       (simp_all add: SaveGuestVmcb12FromGuestVmcb02_assignments_def merged_field_frames
          merged_field_hits store_field_miss)
  have a: "Rax (VpRegs ?s') = vmcb_guest_12_pa vmx"
    by (simp add: SaveGuestVmcb12FromGuestVmcb02_assignments_def)
  from r f1 f2 f3 f4 f5 f6 f7 k a show ?thesis by blast
qed

theorem SaveGuestVmcb12FromGuestVmcb02_merges_witness:
  "\<exists>s'. SaveGuestVmcb12FromGuestVmcb02 example_env (nested_state 0x72 5) = Inr s'
     \<and> ControlArea_ExitCode (Vmcbs s' (Vmcb_at 0x7000)) = 0x72
     \<and> ControlArea_ExitInfo1 (Vmcbs s' (Vmcb_at 0x7000)) = 1
     \<and> StateSaveArea_LStar (Vmcbs s' (Vmcb_at 0x7000)) = 0xFFFFF80000001000
     \<and> Rax (VpRegs s') = 0x7000"
  using SaveGuestVmcb12FromGuestVmcb02_merges
    [of "nested_state 0x72 5"
        "\<lparr>vmcb_host_02_pa = 0x5000, vmcb_guest_02_pa = 0x6000, vmcb_guest_12_pa = 0x7000\<rparr>"
        example_env "Vmcb_at 0x6000" "Vmcb_at 0x7000"]
  by (simp add: nested_state_def example_env_def UtilVaFromPa_def zero_VMCB_def) blast

section \<open>Properties of the presence probe\<close>

lemma SvHandleCpuid_switch_vendor:
  assumes "static_cast_int (Rax (VpRegs s)) = CPUID_HV_VENDOR_AND_MAX_FUNCTIONS D"
    and "cpuid_labels_distinct D"
  shows "SvHandleCpuid_switch D E s =
     ((CPUID_HV_MAX D, multichar ''NmvS'', multichar '' tse'', multichar ''    ''), ExitVm s)"
  using assms
  by (auto simp: SvHandleCpuid_switch_def cpuid_labels_distinct_def Let_def split: prod.splits)

lemma SvHandleCpuid_regs:
  "SvHandleCpuid_switch D E s = ((r0, r1, r2, r3), x) \<Longrightarrow>
   VpRegs (SvHandleCpuid D E s) =
     (VpRegs s)\<lparr>Rax := int_to_UINT64 r0, Rbx := int_to_UINT64 r1,
                Rcx := int_to_UINT64 r2, Rdx := int_to_UINT64 r3\<rparr>"
  by (simp add: SvHandleCpuid_def update_vmcb_def)

lemma static_cast_int_ucast [simp]: "static_cast_int (ucast (x :: INT32)) = x"
  unfolding static_cast_int_def
  by (rule bit_word_eqI) (auto simp: bit_simps)

text \<open>
  C9. The handler answers the vendor-and-max-functions leaf with \<open>'NmvS'\<close>, \<open>' tse'\<close> and
  \<open>'    '\<close> in EBX, ECX and EDX; their twelve bytes in memory are the string
  \<open>"SvmNest     "\<close> that \<open>SvIsSimpleSvmHypervisorInstalled\<close> compares with, so the test on
  a \<open>CPUID\<close> answered by the handler is \<open>TRUE\<close>. On a \<open>CPUID\<close> not answered by the handler
  the test is \<open>FALSE\<close> whenever the twelve bytes of EBX, ECX and EDX are anything else.
\<close>

theorem presence_probe_round_trip:
  "(cpuid_labels_distinct D \<longrightarrow>
      vendorId_of (answered_by_SvHandleCpuid D E s (CPUID_HV_VENDOR_AND_MAX_FUNCTIONS D) 0)
        = c_string ''SvmNest     ''
      \<and> SvIsSimpleSvmHypervisorInstalled D (answered_by_SvHandleCpuid D E s))
   \<and> (vendorId_of (native_cpuid (CPUID_HV_VENDOR_AND_MAX_FUNCTIONS D) 0)
         \<noteq> c_string ''SvmNest     '' \<longrightarrow>
       \<not> SvIsSimpleSvmHypervisorInstalled D native_cpuid)"
proof (intro conjI impI)
  assume d: "cpuid_labels_distinct D"
  let ?s = "s\<lparr>VpRegs := (VpRegs s)\<lparr>Rax := ucast (CPUID_HV_VENDOR_AND_MAX_FUNCTIONS D),
                                      Rcx := ucast (0 :: INT32)\<rparr>\<rparr>"
  have sw: "SvHandleCpuid_switch D E ?s =
     ((CPUID_HV_MAX D, multichar ''NmvS'', multichar '' tse'', multichar ''    ''), ExitVm ?s)"
    by (rule SvHandleCpuid_switch_vendor) (simp_all add: d)
  have a: "answered_by_SvHandleCpuid D E s (CPUID_HV_VENDOR_AND_MAX_FUNCTIONS D) 0 =
     (CPUID_HV_MAX D, multichar ''NmvS'', multichar '' tse'', multichar ''    '')"
    unfolding answered_by_SvHandleCpuid_def guest_cpuid_result_def
    using SvHandleCpuid_regs [OF sw] by (simp add: int_to_UINT64_low)
  show "vendorId_of (answered_by_SvHandleCpuid D E s (CPUID_HV_VENDOR_AND_MAX_FUNCTIONS D) 0)
        = c_string ''SvmNest     ''"
    unfolding a by (simp add: vendorId_of_def c_string_def int_bytes_def multichar_def)
  show "SvIsSimpleSvmHypervisorInstalled D (answered_by_SvHandleCpuid D E s)"
    unfolding SvIsSimpleSvmHypervisorInstalled_def a by (simp add: installed_iff)
next
  assume n: "vendorId_of (native_cpuid (CPUID_HV_VENDOR_AND_MAX_FUNCTIONS D) 0)
         \<noteq> c_string ''SvmNest     ''"
  obtain r0 r1 r2 r3 where
    r: "native_cpuid (CPUID_HV_VENDOR_AND_MAX_FUNCTIONS D) 0 = (r0, r1, r2, r3)"
    by (cases "native_cpuid (CPUID_HV_VENDOR_AND_MAX_FUNCTIONS D) 0") auto
  show "\<not> SvIsSimpleSvmHypervisorInstalled D native_cpuid"
  proof
    assume "SvIsSimpleSvmHypervisorInstalled D native_cpuid"
    then have "r1 = multichar ''NmvS'' \<and> r2 = multichar '' tse'' \<and> r3 = multichar ''    ''"
      by (simp add: SvIsSimpleSvmHypervisorInstalled_def r installed_iff)
    then have "vendorId_of (r0, r1, r2, r3) = c_string ''SvmNest     ''"
      by (simp add: vendorId_of_def c_string_def int_bytes_def multichar_def)
    with n r show False by simp
  qed
qed

theorem presence_probe_round_trip_witness:
  "SvIsSimpleSvmHypervisorInstalled amd64_defs
     (answered_by_SvHandleCpuid amd64_defs example_env (flat_state 0x72 0))
   \<and> \<not> SvIsSimpleSvmHypervisorInstalled amd64_defs (cpuidex example_env)"
  using presence_probe_round_trip
    [of amd64_defs example_env "flat_state 0x72 0" "cpuidex example_env"]
  by (simp add: example_env_def vendorId_of_def c_string_def int_bytes_def)

text \<open>
  C10. \<open>SvHandleCpuid\<close> stores each of the four \<open>int\<close> results into the guest's 64-bit
  RAX, RBX, RCX and RDX by the conversion of a signed 32-bit value: a result with bit 31
  set leaves all ones in the upper 32 bits of the register, which is not the zero
  extension of the result; the low 32 bits are the result.
\<close>

theorem SvHandleCpuid_sign_extends:
  "case fst (SvHandleCpuid_switch D E s) of (r0, r1, r2, r3) \<Rightarrow>
     (let g = VpRegs (SvHandleCpuid D E s) in
        Rax g = word_of_int (sint r0) \<and> Rbx g = word_of_int (sint r1)
      \<and> Rcx g = word_of_int (sint r2) \<and> Rdx g = word_of_int (sint r3)
      \<and> (bit r0 31 \<longrightarrow> drop_bit 32 (Rax g) = 0xFFFFFFFF \<and> Rax g \<noteq> ucast r0)
      \<and> (bit r1 31 \<longrightarrow> drop_bit 32 (Rbx g) = 0xFFFFFFFF \<and> Rbx g \<noteq> ucast r1)
      \<and> (bit r2 31 \<longrightarrow> drop_bit 32 (Rcx g) = 0xFFFFFFFF \<and> Rcx g \<noteq> ucast r2)
      \<and> (bit r3 31 \<longrightarrow> drop_bit 32 (Rdx g) = 0xFFFFFFFF \<and> Rdx g \<noteq> ucast r3)
      \<and> ucast (Rax g) = r0 \<and> ucast (Rbx g) = r1 \<and> ucast (Rcx g) = r2 \<and> ucast (Rdx g) = r3)"
proof -
  obtain r0 r1 r2 r3 x where sw: "SvHandleCpuid_switch D E s = ((r0, r1, r2, r3), x)"
    by (metis prod.exhaust)
  have ne: "int_to_UINT64 r \<noteq> ucast r" if "bit r 31" for r :: INT32
  proof
    assume "int_to_UINT64 r = ucast r"
    then have "drop_bit 32 (int_to_UINT64 r) = drop_bit 32 (ucast r :: UINT64)" by simp
    with int_to_UINT64_high [OF that] ucast_high_zero [of r] show False by simp
  qed
  show ?thesis
    unfolding sw fst_conv prod.case Let_def SvHandleCpuid_regs [OF sw]
    by (simp add: int_to_UINT64_high ne int_to_UINT64_low) (simp add: int_to_UINT64_def)
qed

theorem SvHandleCpuid_sign_extends_witness:
  "fst (SvHandleCpuid_switch amd64_defs example_env
          ((flat_state 0x72 1)\<lparr>VpRegs := \<lparr>Rax = 1, Rbx = 0, Rcx = 0, Rdx = 0\<rparr>\<rparr>))
     = (0, 0, 0, 0x80000000)
   \<and> Rdx (VpRegs (SvHandleCpuid amd64_defs example_env
         ((flat_state 0x72 1)\<lparr>VpRegs := \<lparr>Rax = 1, Rbx = 0, Rcx = 0, Rdx = 0\<rparr>\<rparr>)))
       = 0xFFFFFFFF80000000"
proof -
  let ?s = "(flat_state 0x72 1)\<lparr>VpRegs := \<lparr>Rax = 1, Rbx = 0, Rcx = 0, Rdx = 0\<rparr>\<rparr>"
  have sw: "fst (SvHandleCpuid_switch amd64_defs example_env ?s) = (0, 0, 0, 0x80000000)"
    by (simp add: SvHandleCpuid_switch_def amd64_defs_def example_env_def static_cast_int_def)
  from SvHandleCpuid_sign_extends [of amd64_defs example_env ?s]
  show ?thesis unfolding sw by (simp add: Let_def)
qed

section \<open>Properties of the MSR permissions map\<close>

lemma msrpm_bit_set_one_bit:
  assumes "k div 32 < length buf"
  shows "msrpm_bit (set_one_bit k buf) n \<longleftrightarrow> n = k \<or> msrpm_bit buf n"
proof (cases "n div 32 = k div 32")
  case True
  have "n = k \<longleftrightarrow> n mod 32 = k mod 32"
    using True by (metis div_mult_mod_eq)
  with True assms show ?thesis
    by (auto simp: msrpm_bit_def set_one_bit_def bit_simps)
next
  case False
  then have "n \<noteq> k" by auto
  with False show ?thesis
    by (simp add: msrpm_bit_def set_one_bit_def)
qed

lemma length_set_one_bit [simp]: "length (set_one_bit k buf) = length buf"
  by (simp add: set_one_bit_def)

lemma RtlSetBits_one:
  assumes "k < SizeOfBitMap bm" and "(SizeOfBitMap bm + 31) div 32 \<le> length (Buffer bm)"
  shows "RtlSetBits bm k 1 = Some (bm\<lparr>Buffer := set_one_bit k (Buffer bm)\<rparr>)"
  using assms by (simp add: RtlSetBits_def)

lemma unat_msr_delta:
  fixes e b :: "32 word"
  assumes "b \<le> e" and "e \<le> b + 0x1FFF" and "unat b + 0x1FFF < 2 ^ 32"
  shows "unat (e - b) = unat e - unat b" and "unat (e - b) \<le> 0x1FFF"
proof -
  show 1: "unat (e - b) = unat e - unat b" using assms(1) by (simp add: unat_sub)
  have "unat (b + 0x1FFF) = unat b + 0x1FFF"
    using assms(3) by (simp add: unat_word_ariths)
  with assms(2) have "unat e \<le> unat b + 0x1FFF" by (simp add: word_le_nat_alt)
  with 1 show "unat (e - b) \<le> 0x1FFF" by simp
qed

lemma unat_msr_offset:
  fixes d base :: "32 word"
  assumes "unat d \<le> 0x1FFF" and "unat base \<le> 0x8000"
  shows "unat (base + d * 2) = unat base + 2 * unat d"
    and "unat (base + d * 2 + 1) = unat base + 2 * unat d + 1"
proof -
  have m: "unat (d * 2) = 2 * unat d" using assms(1) by (simp add: unat_word_ariths)
  show a: "unat (base + d * 2) = unat base + 2 * unat d"
    using assms by (simp add: unat_word_ariths(1) m)
  show "unat (base + d * 2 + 1) = unat base + 2 * unat d + 1"
    using assms by (simp add: unat_word_ariths(1) [of "base + d * 2"] a)
qed


lemma msrpm_bit_zero: "n div 32 < N \<Longrightarrow> \<not> msrpm_bit (replicate N 0) n"
  by (simp add: msrpm_bit_def)

lemma msrpm_bits_set_card:
  "msrpm_bits_set buf n = card {i. i < n \<and> msrpm_bit buf i}"
proof -
  have "{i. i < length [0..<n] \<and> msrpm_bit buf ([0..<n] ! i)} = {i. i < n \<and> msrpm_bit buf i}"
    by auto
  then show ?thesis
    unfolding msrpm_bits_set_def length_filter_conv_card by simp
qed

text \<open>The map behind the call, whatever the buffer held before.\<close>

lemma SvBuildMsrPermissionsMap_result:
  assumes len: "4 * length buf = unat (SVM_MSR_PERMISSIONS_MAP_SIZE D)"
    and sz: "SVM_MSR_PERMISSIONS_MAP_SIZE D \<le> 0x10000000"
    and e: "unat (efer_offset D + 1) < 32 * length buf"
    and l0: "unat (lstar_offset D) < 32 * length buf"
    and l1: "unat (lstar_offset D + 1) < 32 * length buf"
    and h0: "unat (hsave_offset D) < 32 * length buf"
    and h1: "unat (hsave_offset D + 1) < 32 * length buf"
  shows "SvBuildMsrPermissionsMap D buf =
     Some (set_one_bit (unat (hsave_offset D + 1))
            (set_one_bit (unat (hsave_offset D))
              (set_one_bit (unat (lstar_offset D + 1))
                (set_one_bit (unat (lstar_offset D))
                  (set_one_bit (unat (efer_offset D + 1))
                    (replicate (length buf) 0))))))"
proof -
  have "unat (SVM_MSR_PERMISSIONS_MAP_SIZE D) \<le> 0x10000000"
    using sz by (simp add: word_le_nat_alt)
  then have bits: "unat (SVM_MSR_PERMISSIONS_MAP_SIZE D * CHAR_BIT) = 32 * length buf"
    using len by (simp add: CHAR_BIT_def unat_word_ariths)
  have c: "RtlClearAllBits (RtlInitializeBitMap buf (32 * length buf)) =
      Some \<lparr>SizeOfBitMap = 32 * length buf, Buffer = replicate (length buf) 0\<rparr>"
    by (simp add: RtlClearAllBits_def RtlInitializeBitMap_def Let_def)
  have s: "RtlSetBits \<lparr>SizeOfBitMap = 32 * length buf, Buffer = b\<rparr> k (Suc 0) =
      Some \<lparr>SizeOfBitMap = 32 * length buf, Buffer = set_one_bit k b\<rparr>"
    if "k < 32 * length buf" and "length b = length buf" for k b
    using that by (simp add: RtlSetBits_def)
  show ?thesis
    unfolding SvBuildMsrPermissionsMap_def Let_def bits c
    by (simp add: s e l0 l1 h0 h1)
qed

lemma msrpm_offsets:
  assumes "msrpm_defs_ok D"
  shows "msrpm_read_bit (ucast (IA32_MSR_EFER D)) = Some (unat (efer_offset D))"
    and "unat (efer_offset D + 1) = Suc (unat (efer_offset D))"
    and "msrpm_read_bit (ucast (IA32_MSR_LSTR D)) = Some (unat (lstar_offset D))"
    and "unat (lstar_offset D + 1) = Suc (unat (lstar_offset D))"
    and "msrpm_read_bit (kIa32svmHsave D) = Some (unat (hsave_offset D))"
    and "unat (hsave_offset D + 1) = Suc (unat (hsave_offset D))"
    and "Suc (unat (efer_offset D)) < 0x8000" and "Suc (unat (lstar_offset D)) < 0x8000"
    and "0x8000 \<le> unat (hsave_offset D)" and "unat (hsave_offset D) < 0xC000 - 1"
    and "even (unat (efer_offset D))" and "even (unat (lstar_offset D))"
    and "unat (efer_offset D) \<noteq> unat (lstar_offset D)"
proof -
  let ?e = "ucast (IA32_MSR_EFER D) :: UINT32"
  let ?l = "ucast (IA32_MSR_LSTR D) :: UINT32"
  let ?h = "kIa32svmHsave D"
  from assms have r:
    "0xC0000000 \<le> ?e" "?e \<le> 0xC0000000 + 0x1FFF"
    "0xC0000000 \<le> ?l" "?l \<le> 0xC0000000 + 0x1FFF"
    "0xC0010000 \<le> ?h" "?h \<le> 0xC0010000 + 0x1FFF" "?e \<noteq> ?l"
    by (simp_all add: msrpm_defs_ok_def)
  have de: "unat (?e - 0xC0000000) = unat ?e - 0xC0000000" "unat (?e - 0xC0000000) \<le> 0x1FFF"
    using unat_msr_delta [OF r(1) r(2)] by simp_all
  have dl: "unat (?l - 0xC0000000) = unat ?l - 0xC0000000" "unat (?l - 0xC0000000) \<le> 0x1FFF"
    using unat_msr_delta [OF r(3) r(4)] by simp_all
  have dh: "unat (?h - 0xC0010000) = unat ?h - 0xC0010000" "unat (?h - 0xC0010000) \<le> 0x1FFF"
    using unat_msr_delta [OF r(5) r(6)] by simp_all
  have oe: "unat (efer_offset D) = 0x4000 + 2 * (unat ?e - 0xC0000000)"
       "unat (efer_offset D + 1) = 0x4000 + 2 * (unat ?e - 0xC0000000) + 1"
    using unat_msr_offset [OF de(2), of "0x4000"]
    by (simp_all add: efer_offset_def SECOND_MSRPM_OFFSET_def CHAR_BIT_def BITS_PER_MSR_def
          SECOND_MSR_RANGE_BASE_def de(1))
  have ol: "unat (lstar_offset D) = 0x4000 + 2 * (unat ?l - 0xC0000000)"
       "unat (lstar_offset D + 1) = 0x4000 + 2 * (unat ?l - 0xC0000000) + 1"
    using unat_msr_offset [OF dl(2), of "0x4000"]
    by (simp_all add: lstar_offset_def SECOND_MSRPM_OFFSET_def CHAR_BIT_def BITS_PER_MSR_def
          SECOND_MSR_RANGE_BASE_def dl(1))
  have oh: "unat (hsave_offset D) = 0x8000 + 2 * (unat ?h - 0xC0010000)"
       "unat (hsave_offset D + 1) = 0x8000 + 2 * (unat ?h - 0xC0010000) + 1"
    using unat_msr_offset [OF dh(2), of "0x8000"]
    by (simp_all add: hsave_offset_def THIRD_MSRPM_OFFSET_def CHAR_BIT_def BITS_PER_MSR_def
          THIRD_MSR_RANGE_BASE_def dh(1))
  have ge: "0xC0000000 \<le> unat ?e" "0xC0000000 \<le> unat ?l" "0xC0010000 \<le> unat ?h"
    using r(1,3,5) by (simp_all add: word_le_nat_alt)
  have ne: "unat ?e \<noteq> unat ?l" using r(7) by (simp add: word_unat_eq_iff)
  have n1: "\<not> ?e \<le> 0x1FFF" "\<not> ?l \<le> 0x1FFF" "\<not> ?h \<le> 0x1FFF"
      "\<not> (0xC0000000 \<le> ?h \<and> ?h \<le> 0xC0001FFF)"
    using ge by (simp_all add: word_le_nat_alt)
  show "msrpm_read_bit ?e = Some (unat (efer_offset D))"
    using r n1 by (simp add: msrpm_read_bit_def oe)
  show "msrpm_read_bit ?l = Some (unat (lstar_offset D))"
    using r n1 by (simp add: msrpm_read_bit_def ol)
  show "msrpm_read_bit ?h = Some (unat (hsave_offset D))"
    using r n1 by (auto simp: msrpm_read_bit_def oh)
  show "unat (efer_offset D + 1) = Suc (unat (efer_offset D))" by (simp add: oe)
  show "unat (lstar_offset D + 1) = Suc (unat (lstar_offset D))" by (simp add: ol)
  show "unat (hsave_offset D + 1) = Suc (unat (hsave_offset D))" by (simp add: oh)
  show "Suc (unat (efer_offset D)) < 0x8000" using de by (simp add: oe)
  show "Suc (unat (lstar_offset D)) < 0x8000" using dl by (simp add: ol)
  show "0x8000 \<le> unat (hsave_offset D)" by (simp add: oh)
  show "unat (hsave_offset D) < 0xC000 - 1" using dh by (simp add: oh)
  show "even (unat (efer_offset D))" by (simp add: oe)
  show "even (unat (lstar_offset D))" by (simp add: ol)
  show "unat (efer_offset D) \<noteq> unat (lstar_offset D)" using ne ge by (simp add: oe ol)
qed


lemma SvBuildMsrPermissionsMap_bits:
  assumes ok: "msrpm_defs_ok D"
    and len: "4 * length buf = unat (SVM_MSR_PERMISSIONS_MAP_SIZE D)"
  shows "\<exists>out. (\<forall>buf'. length buf' = length buf \<longrightarrow> SvBuildMsrPermissionsMap D buf' = Some out)
     \<and> length out = length buf
     \<and> (\<forall>n < 32 * length buf. msrpm_bit out n \<longleftrightarrow>
           n \<in> {Suc (unat (efer_offset D)), unat (lstar_offset D), Suc (unat (lstar_offset D)),
                 unat (hsave_offset D), Suc (unat (hsave_offset D))})
     \<and> msrpm_bits_set out (32 * length buf) = 5"
proof -
  note o = msrpm_offsets [OF ok]
  let ?e = "unat (efer_offset D)" and ?l = "unat (lstar_offset D)"
    and ?h = "unat (hsave_offset D)"
  let ?N = "length buf"
  let ?out = "set_one_bit (Suc ?h) (set_one_bit ?h (set_one_bit (Suc ?l)
                (set_one_bit ?l (set_one_bit (Suc ?e) (replicate ?N 0)))))"
  from ok have "0x1800 \<le> unat (SVM_MSR_PERMISSIONS_MAP_SIZE D)"
    and sz: "SVM_MSR_PERMISSIONS_MAP_SIZE D \<le> 0x10000000"
    by (simp_all add: msrpm_defs_ok_def word_le_nat_alt)
  with len have big: "0xC000 \<le> 32 * ?N" by simp
  have b: "Suc ?e < 32 * ?N" "?l < 32 * ?N" "Suc ?l < 32 * ?N" "?h < 32 * ?N" "Suc ?h < 32 * ?N"
    using o(7-10) big by simp_all
  have res: "SvBuildMsrPermissionsMap D buf' = Some ?out" if "length buf' = ?N" for buf'
    using SvBuildMsrPermissionsMap_result [of buf' D] that len sz b
    by (simp add: o(2,4,6))
  have d: "Suc ?e div 32 < ?N" "?l div 32 < ?N" "Suc ?l div 32 < ?N" "?h div 32 < ?N"
      "Suc ?h div 32 < ?N"
    using b by simp_all
  have bits: "msrpm_bit ?out n \<longleftrightarrow> n \<in> {Suc ?e, ?l, Suc ?l, ?h, Suc ?h}" if "n < 32 * ?N" for n
  proof -
    from that have "n div 32 < ?N" by simp
    then show ?thesis
      by (simp add: msrpm_bit_set_one_bit d msrpm_bit_zero) blast
  qed
  have "{i. i < 32 * ?N \<and> msrpm_bit ?out i} = {Suc ?e, ?l, Suc ?l, ?h, Suc ?h}"
    using bits b by auto
  moreover have "card {Suc ?e, ?l, Suc ?l, ?h, Suc ?h} = 5"
  proof -
    have "Suc ?e \<noteq> ?l" using o(11,12) by (metis even_Suc)
    moreover have "Suc ?e \<noteq> Suc ?l" using o(13) by simp
    moreover have "Suc ?e \<noteq> ?h" "Suc ?e \<noteq> Suc ?h" "?l \<noteq> ?h" "?l \<noteq> Suc ?h"
        "Suc ?l \<noteq> ?h" "Suc ?l \<noteq> Suc ?h"
      using o(7-9) by simp_all
    ultimately show ?thesis by simp
  qed
  ultimately have "msrpm_bits_set ?out (32 * ?N) = 5"
    by (simp add: msrpm_bits_set_card)
  with res bits show ?thesis by (intro exI [of _ ?out]) simp
qed

lemma amd64_msrpm:
  "msrpm_defs_ok amd64_defs"
  "unat (efer_offset amd64_defs) = 0x4100"
  "unat (lstar_offset amd64_defs) = 0x4104"
  "unat (hsave_offset amd64_defs) = 0x822E"
  "unat (SVM_MSR_PERMISSIONS_MAP_SIZE amd64_defs) = 0x2000"
  by (simp_all add: msrpm_defs_ok_def amd64_defs_def efer_offset_def lstar_offset_def
        hsave_offset_def SECOND_MSRPM_OFFSET_def THIRD_MSRPM_OFFSET_def CHAR_BIT_def
        BITS_PER_MSR_def SECOND_MSR_RANGE_BASE_def THIRD_MSR_RANGE_BASE_def)

text \<open>
  C4, as the code has it. For every buffer of the size of the permissions map, zeroed or
  not, \<open>SvBuildMsrPermissionsMap\<close> leaves exactly five bits set: the write-intercept bit
  of EFER, the read-intercept and write-intercept bits of LSTAR, and the read-intercept
  and write-intercept bits of \<open>VM_HSAVE_PA\<close>. Every other bit is clear, the read-intercept
  bit of EFER among them. The result does not depend on what the buffer held, so a
  second call leaves the map as it is.
\<close>

theorem SvBuildMsrPermissionsMap_sets_five_bits:
  assumes "msrpm_defs_ok D" and "4 * length buf = unat (SVM_MSR_PERMISSIONS_MAP_SIZE D)"
  shows "\<exists>out ie il ih.
       SvBuildMsrPermissionsMap D buf = Some out \<and> length out = length buf
     \<and> msrpm_read_bit (ucast (IA32_MSR_EFER D)) = Some ie
     \<and> msrpm_read_bit (ucast (IA32_MSR_LSTR D)) = Some il
     \<and> msrpm_read_bit (kIa32svmHsave D) = Some ih
     \<and> (\<forall>n < 32 * length buf. msrpm_bit out n \<longleftrightarrow> n \<in> {Suc ie, il, Suc il, ih, Suc ih})
     \<and> msrpm_bits_set out (32 * length buf) = 5
     \<and> SvBuildMsrPermissionsMap D out = Some out
     \<and> (\<forall>buf'. length buf' = length buf \<longrightarrow> SvBuildMsrPermissionsMap D buf' = Some out)"
proof -
  from SvBuildMsrPermissionsMap_bits [OF assms] obtain out where
    o: "\<forall>buf'. length buf' = length buf \<longrightarrow> SvBuildMsrPermissionsMap D buf' = Some out"
      "length out = length buf"
      "\<forall>n < 32 * length buf. msrpm_bit out n \<longleftrightarrow>
           n \<in> {Suc (unat (efer_offset D)), unat (lstar_offset D), Suc (unat (lstar_offset D)),
                 unat (hsave_offset D), Suc (unat (hsave_offset D))}"
      "msrpm_bits_set out (32 * length buf) = 5"
    by blast
  from o(1) o(2) have "SvBuildMsrPermissionsMap D buf = Some out"
    "SvBuildMsrPermissionsMap D out = Some out" by simp_all
  with o msrpm_offsets(1,3,5) [OF assms(1)] show ?thesis by blast
qed

theorem SvBuildMsrPermissionsMap_sets_five_bits_witness:
  "\<exists>out. SvBuildMsrPermissionsMap amd64_defs (replicate 2048 0) = Some out
     \<and> (\<forall>n < 65536. msrpm_bit out n \<longleftrightarrow> n \<in> {0x4101, 0x4104, 0x4105, 0x822E, 0x822F})
     \<and> msrpm_bits_set out 65536 = 5
     \<and> SvBuildMsrPermissionsMap amd64_defs out = Some out"
proof -
  have l: "4 * length (replicate 2048 (0 :: UINT32))
      = unat (SVM_MSR_PERMISSIONS_MAP_SIZE amd64_defs)"
    by (simp add: amd64_msrpm)
  have r: "msrpm_read_bit (ucast (IA32_MSR_EFER amd64_defs)) = Some 0x4100"
    "msrpm_read_bit (ucast (IA32_MSR_LSTR amd64_defs)) = Some 0x4104"
    "msrpm_read_bit (kIa32svmHsave amd64_defs) = Some 0x822E"
    by (simp_all add: msrpm_read_bit_def amd64_defs_def)
  from SvBuildMsrPermissionsMap_sets_five_bits [OF amd64_msrpm(1) l]
  show ?thesis unfolding r by simp blast
qed

text \<open>
  C4, as the specification states it, fails: on the zeroed map of \<open>0x2000\<close> bytes the
  read-intercept bit of EFER (bit \<open>0x4100\<close>) is clear behind the call, and five bits are
  set, not six.
\<close>

theorem SvBuildMsrPermissionsMap_six_bits_counterexample:
  "SvBuildMsrPermissionsMap amd64_defs (replicate 2048 0) \<noteq> None
   \<and> msrpm_read_bit (ucast (IA32_MSR_EFER amd64_defs)) = Some 0x4100
   \<and> \<not> msrpm_bit (the (SvBuildMsrPermissionsMap amd64_defs (replicate 2048 0))) 0x4100
   \<and> msrpm_bits_set (the (SvBuildMsrPermissionsMap amd64_defs (replicate 2048 0))) 65536 = 5"
proof -
  have l: "4 * length (replicate 2048 (0 :: UINT32))
      = unat (SVM_MSR_PERMISSIONS_MAP_SIZE amd64_defs)"
    by (simp add: amd64_msrpm)
  have r: "msrpm_read_bit (ucast (IA32_MSR_EFER amd64_defs)) = Some 0x4100"
    by (simp add: msrpm_read_bit_def amd64_defs_def)
  from SvBuildMsrPermissionsMap_bits [OF amd64_msrpm(1) l] r
  show ?thesis by (simp add: amd64_msrpm) fastforce
qed

section \<open>Properties of the nested page tables\<close>

lemma inner_loop:
  assumes "i < length pde" and "n \<le> length (pde ! i)"
  shows "length (fold (inner_loop_body D i) [0..<n] pde) = length pde
     \<and> (\<forall>i' < length pde.
           length (fold (inner_loop_body D i) [0..<n] pde ! i') = length (pde ! i')
         \<and> (\<forall>j' < length (pde ! i').
               fold (inner_loop_body D i) [0..<n] pde ! i' ! j' =
                 (if i' = i \<and> j' < n then build_pde D i j' (pde ! i ! j') else pde ! i' ! j')))"
  using assms(2)
proof (induction n)
  case 0
  then show ?case by simp
next
  case (Suc n)
  define r where "r = fold (inner_loop_body D i) [0..<n] pde"
  from Suc have ih: "length r = length pde"
    "\<And>i'. i' < length pde \<Longrightarrow> length (r ! i') = length (pde ! i')"
    "\<And>i' j'. i' < length pde \<Longrightarrow> j' < length (pde ! i') \<Longrightarrow>
        r ! i' ! j' = (if i' = i \<and> j' < n then build_pde D i j' (pde ! i ! j') else pde ! i' ! j')"
    by (simp_all add: r_def)
  have n: "n < length (pde ! i)" using Suc.prems by simp
  have step: "fold (inner_loop_body D i) [0..<Suc n] pde
      = r[i := (r ! i)[n := build_pde D i n (r ! i ! n)]]"
    by (simp add: r_def inner_loop_body_def)
  show ?case
    unfolding step
    using assms(1) n ih
    by (auto simp: nth_list_update less_Suc_eq)
qed

lemma outer_loop_PdeEntries:
  "PdeEntries (fold (outer_loop_body D A) [0..<m] s) =
     fold (\<lambda>i pde. fold (inner_loop_body D i) [0..<512] pde) [0..<m] (PdeEntries s)"
  by (induction m) (simp_all add: outer_loop_body_def Let_def)

lemma outer_loop:
  assumes "m \<le> length pde" and "\<forall>r \<in> set pde. 512 \<le> length r"
  shows "length (fold (\<lambda>i pde. fold (inner_loop_body D i) [0..<512] pde) [0..<m] pde) = length pde
     \<and> (\<forall>i' < length pde.
           length (fold (\<lambda>i pde. fold (inner_loop_body D i) [0..<512] pde) [0..<m] pde ! i')
             = length (pde ! i')
         \<and> (\<forall>j' < length (pde ! i').
               fold (\<lambda>i pde. fold (inner_loop_body D i) [0..<512] pde) [0..<m] pde ! i' ! j' =
                 (if i' < m \<and> j' < 512 then build_pde D i' j' (pde ! i' ! j')
                  else pde ! i' ! j')))"
  using assms(1)
proof (induction m)
  case 0
  then show ?case by simp
next
  case (Suc m)
  define r where "r = fold (\<lambda>i pde. fold (inner_loop_body D i) [0..<512] pde) [0..<m] pde"
  from Suc have ih: "length r = length pde"
    "\<And>i'. i' < length pde \<Longrightarrow> length (r ! i') = length (pde ! i')"
    "\<And>i' j'. i' < length pde \<Longrightarrow> j' < length (pde ! i') \<Longrightarrow>
        r ! i' ! j' = (if i' < m \<and> j' < 512 then build_pde D i' j' (pde ! i' ! j')
                        else pde ! i' ! j')"
    by (simp_all add: r_def)
  have m: "m < length r" using Suc.prems ih(1) by simp
  have "512 \<le> length (pde ! m)" using assms(2) Suc.prems by simp
  then have row: "512 \<le> length (r ! m)" using ih(2) [of m] Suc.prems by simp
  define r' where "r' = fold (inner_loop_body D m) [0..<512] r"
  have il: "length r' = length r"
    "\<And>i'. i' < length r \<Longrightarrow> length (r' ! i') = length (r ! i')"
    "\<And>i' j'. i' < length r \<Longrightarrow> j' < length (r ! i') \<Longrightarrow>
        r' ! i' ! j' = (if i' = m \<and> j' < 512 then build_pde D m j' (r ! m ! j') else r ! i' ! j')"
    using inner_loop [OF m row, of D] by (simp_all add: r'_def)
  have step: "fold (\<lambda>i pde. fold (inner_loop_body D i) [0..<512] pde) [0..<Suc m] pde = r'"
    by (simp add: r_def r'_def)
  show ?case
    unfolding step
    using il ih Suc.prems
    by (auto simp: less_Suc_eq)
qed


lemma SvBuildNestedPageTables_PdeEntries:
  assumes "length (PdeEntries s) = 512" and "\<forall>r \<in> set (PdeEntries s). length r = 512"
    and "i < 512" and "j < 512"
  shows "PdeEntries (SvBuildNestedPageTables D A s) ! i ! j
           = build_pde D i j (PdeEntries s ! i ! j)"
proof -
  let ?pde = "PdeEntries s"
  have 1: "512 \<le> length ?pde" using assms(1) by simp
  have 2: "\<forall>r \<in> set ?pde. 512 \<le> length r" using assms(2) by simp
  have l: "length (?pde ! i) = 512" using assms(1,2,3) by simp
  have "PdeEntries (SvBuildNestedPageTables D A s) =
      fold (\<lambda>i pde. fold (inner_loop_body D i) [0..<512] pde) [0..<512] ?pde"
    by (simp add: SvBuildNestedPageTables_def Let_def outer_loop_PdeEntries)
  with outer_loop [OF 1 2, of D] assms(1,3,4) l show ?thesis by simp
qed

lemma zero_SHARED_dims:
  "length (PdeEntries zero_SHARED_VIRTUAL_PROCESSOR_DATA) = 512"
  "\<forall>r \<in> set (PdeEntries zero_SHARED_VIRTUAL_PROCESSOR_DATA). length r = 512"
  by (simp_all add: zero_SHARED_VIRTUAL_PROCESSOR_DATA_def)

lemma identity_frame:
  assumes "i < 512 * 512" and "18 \<le> w"
  shows "take_bit w (of_nat (i div 512) * 512 + of_nat (i mod 512) :: UINT64) = of_nat i"
proof -
  have "(of_nat (i div 512) * 512 + of_nat (i mod 512) :: UINT64)
      = of_nat (i div 512 * 512 + i mod 512)"
    by (simp only: of_nat_add of_nat_mult of_nat_numeral)
  also have "\<dots> = of_nat i" by (simp only: div_mult_mod_eq)
  finally have e: "(of_nat (i div 512) * 512 + of_nat (i mod 512) :: UINT64) = of_nat i" .
  have "i < 2 ^ 18" using assms(1) by simp
  also have "(2 :: nat) ^ 18 \<le> 2 ^ w" using assms(2) by (rule power_increasing) simp
  finally have "take_bit w i = i" by (simp add: take_bit_nat_eq_self)
  then show ?thesis unfolding e by (simp add: take_bit_of_nat)
qed

text \<open>
  C5. On the zeroed shared data \<open>SvBuildNestedPageTables\<close> builds an identity map: for
  every index \<open>i\<close> below \<open>512 * 512\<close> of a 2 MB page, the page directory entry at
  \<open>(i div 512, i mod 512)\<close> has the page frame number \<open>i\<close> and its \<open>Valid\<close>, \<open>Write\<close>,
  \<open>User\<close> and \<open>LargePage\<close> bits set. The \<open>PageFrameNumber\<close> bit-field is wide enough for
  the 18 bits of an index.
\<close>

theorem SvBuildNestedPageTables_identity_map:
  assumes "i < 512 * 512" and "18 \<le> PDE_PageFrameNumber_bits D"
  shows "let e = PdeEntries (SvBuildNestedPageTables D A zero_SHARED_VIRTUAL_PROCESSOR_DATA)
                   ! (i div 512) ! (i mod 512)
         in PageFrameNumber e = of_nat i \<and> Valid e \<and> Write e \<and> User e \<and> LargePage e"
proof -
  have d: "i div 512 < 512" using assms(1) by simp
  have m: "i mod 512 < 512" by simp
  show ?thesis
    unfolding Let_def SvBuildNestedPageTables_PdeEntries [OF zero_SHARED_dims d m]
    by (simp add: build_pde_def identity_frame [OF assms])
qed

theorem SvBuildNestedPageTables_identity_map_witness:
  "PdeEntries (SvBuildNestedPageTables amd64_defs example_addresses
       zero_SHARED_VIRTUAL_PROCESSOR_DATA) ! 1 ! 488
     = \<lparr>Valid = True, Write = True, User = True, LargePage = True, PageFrameNumber = 1000\<rparr>"
proof -
  have w: "18 \<le> PDE_PageFrameNumber_bits amd64_defs" by (simp add: amd64_defs_def)
  have i: "(1000 :: nat) < 512 * 512" by simp
  from SvBuildNestedPageTables_identity_map [OF i w, of example_addresses]
  show ?thesis by (simp add: Let_def NPT_ENTRY.equality)
qed

section \<open>Properties of the iteration over the processors\<close>

declare SvExecuteOnEachProcessor_loop.simps [simp del]

lemma indices_convertD:
  "indices_convert K \<Longrightarrow> i < KeQueryActiveProcessorCountEx K \<Longrightarrow>
   \<exists>pn st. KeGetProcessorNumberFromIndex K i = (st, pn) \<and> NT_SUCCESS st"
proof -
  assume c: "indices_convert K" and i: "i < KeQueryActiveProcessorCountEx K"
  obtain st pn where g: "KeGetProcessorNumberFromIndex K i = (st, pn)"
    by (cases "KeGetProcessorNumberFromIndex K i") auto
  from c i have "NT_SUCCESS (fst (KeGetProcessorNumberFromIndex K i))"
    by (simp add: indices_convert_def list_all_iff)
  with g show ?thesis by simp
qed

lemma succeeded_through_prefix:
  "succeeded_through K cb ctx k s = Some t \<Longrightarrow> i \<le> k \<Longrightarrow>
   \<exists>u. succeeded_through K cb ctx i s = Some u"
proof (induction k arbitrary: t)
  case 0
  then show ?case by simp
next
  case (Suc k)
  show ?case
  proof (cases "i = Suc k")
    case True
    with Suc.prems show ?thesis by simp
  next
    case False
    with Suc.prems have "i \<le> k" by simp
    moreover from Suc.prems(1) obtain t0 where "succeeded_through K cb ctx k s = Some t0"
      by (auto split: option.splits)
    ultimately show ?thesis using Suc.IH by blast
  qed
qed

lemma loop_step_success:
  assumes "i < N" and "KeGetProcessorNumberFromIndex K i = (st1, pn)" and "NT_SUCCESS st1"
    and "callback_on_index K cb ctx i t = Inr (st, t')" and "NT_SUCCESS st"
  shows "SvExecuteOnEachProcessor_loop K cb ctx N i status ex t =
         SvExecuteOnEachProcessor_loop K cb ctx N (Suc i) st (ex @ [i]) t'"
  using assms
  by (subst SvExecuteOnEachProcessor_loop.simps) (simp add: callback_on_index_def)

lemma loop_step_failure:
  assumes "i < N" and "KeGetProcessorNumberFromIndex K i = (st1, pn)" and "NT_SUCCESS st1"
    and "callback_on_index K cb ctx i t = Inr (st, t')" and "\<not> NT_SUCCESS st"
  shows "SvExecuteOnEachProcessor_loop K cb ctx N i status ex t = Inr (st, i, ex @ [i], t')"
  using assms
  by (subst SvExecuteOnEachProcessor_loop.simps) (simp add: callback_on_index_def)

lemma loop_to_failure:
  assumes conv: "indices_convert K" and N: "N = KeQueryActiveProcessorCountEx K"
    and k: "k < N"
    and sk: "succeeded_through K cb ctx k s = Some t"
    and fail: "callback_on_index K cb ctx k t = Inr (st, t')" "\<not> NT_SUCCESS st"
  shows "i \<le> k \<Longrightarrow> succeeded_through K cb ctx i s = Some u \<Longrightarrow>
         SvExecuteOnEachProcessor_loop K cb ctx N i status [0..<i] u = Inr (st, k, [0..<Suc k], t')"
proof (induction "k - i" arbitrary: i u status)
  case 0
  then have "i = k" by simp
  with 0 sk have "u = t" by simp
  from indices_convertD [OF conv] k N obtain pn st1
    where "KeGetProcessorNumberFromIndex K k = (st1, pn)" "NT_SUCCESS st1" by blast
  with loop_step_failure [OF k this(1) this(2) fail, of status "[0..<k]"] \<open>i = k\<close> \<open>u = t\<close>
  show ?case by simp
next
  case (Suc d)
  then have ik: "i < k" by simp
  then have iN: "i < N" using k by simp
  from succeeded_through_prefix [OF sk, of "Suc i"] ik
  obtain u' where u': "succeeded_through K cb ctx (Suc i) s = Some u'" by auto
  with Suc.prems(2) obtain st2 where
    c: "callback_on_index K cb ctx i u = Inr (st2, u')" "NT_SUCCESS st2"
    by (auto split: sum.splits if_splits)
  from indices_convertD [OF conv] iN N obtain pn st1
    where g: "KeGetProcessorNumberFromIndex K i = (st1, pn)" "NT_SUCCESS st1" by blast
  have "SvExecuteOnEachProcessor_loop K cb ctx N i status [0..<i] u =
        SvExecuteOnEachProcessor_loop K cb ctx N (Suc i) st2 ([0..<i] @ [i]) u'"
    by (rule loop_step_success [OF iN g c])
  also have "\<dots> = Inr (st, k, [0..<Suc k], t')"
    using Suc.hyps(1) [of "Suc i" u' st2] Suc.hyps(2) ik u' by simp
  finally show ?case .
qed

lemma loop_to_end:
  assumes conv: "indices_convert K" and N: "N = KeQueryActiveProcessorCountEx K"
    and sN: "succeeded_through K cb ctx N s = Some t"
  shows "i \<le> N \<Longrightarrow> succeeded_through K cb ctx i s = Some u \<Longrightarrow> NT_SUCCESS status \<Longrightarrow>
         \<exists>st. SvExecuteOnEachProcessor_loop K cb ctx N i status [0..<i] u = Inr (st, N, [0..<N], t)
              \<and> NT_SUCCESS st"
proof (induction "N - i" arbitrary: i u status)
  case 0
  then have "i = N" by simp
  with 0 sN have "u = t" by simp
  with \<open>i = N\<close> 0 show ?case
    by (subst SvExecuteOnEachProcessor_loop.simps) simp
next
  case (Suc d)
  then have iN: "i < N" by simp
  from succeeded_through_prefix [OF sN, of "Suc i"] iN
  obtain u' where u': "succeeded_through K cb ctx (Suc i) s = Some u'" by auto
  with Suc.prems(2) obtain st2 where
    c: "callback_on_index K cb ctx i u = Inr (st2, u')" "NT_SUCCESS st2"
    by (auto split: sum.splits if_splits)
  from indices_convertD [OF conv] iN N obtain pn st1
    where g: "KeGetProcessorNumberFromIndex K i = (st1, pn)" "NT_SUCCESS st1" by blast
  have "SvExecuteOnEachProcessor_loop K cb ctx N i status [0..<i] u =
        SvExecuteOnEachProcessor_loop K cb ctx N (Suc i) st2 ([0..<i] @ [i]) u'"
    by (rule loop_step_success [OF iN g c])
  moreover have "\<exists>st. SvExecuteOnEachProcessor_loop K cb ctx N (Suc i) st2 [0..<Suc i] u'
        = Inr (st, N, [0..<N], t) \<and> NT_SUCCESS st"
    using Suc.hyps(1) [of "Suc i" u' st2] Suc.hyps(2) iN u' c(2) by simp
  ultimately show ?case by simp
qed

text \<open>
  C8. \<open>SvExecuteOnEachProcessor\<close> executes the callback on the processors in the order of
  their indices. When the callback has succeeded on the processors \<open>0\<close> to \<open>k - 1\<close> and
  returns a status that is not a success on processor \<open>k\<close>, the function returns that
  status, the callback has been executed at the indices \<open>0\<close> to \<open>k\<close> and at no other, and
  the count, when the out parameter is present, is \<open>k\<close>. When the callback succeeds on all
  \<open>N\<close> processors the function returns a success, the callback has been executed once at
  each index \<open>0\<close> to \<open>N - 1\<close>, and the count is \<open>N\<close>. The conversion of the index of an
  active processor to its processor number succeeds.
\<close>

theorem SvExecuteOnEachProcessor_stops_at_first_failure:
  assumes "indices_convert K"
  shows "(\<forall>k t st t'.
            k < KeQueryActiveProcessorCountEx K
          \<and> succeeded_through K Callback Context k s = Some t
          \<and> callback_on_index K Callback Context k t = Inr (st, t') \<and> \<not> NT_SUCCESS st
          \<longrightarrow> SvExecuteOnEachProcessor K Callback Context present s =
                Inr (st, (if present then Some k else None), [0..<Suc k], t'))
       \<and> (\<forall>t. succeeded_through K Callback Context (KeQueryActiveProcessorCountEx K) s = Some t
          \<longrightarrow> (\<exists>st. SvExecuteOnEachProcessor K Callback Context present s =
                  Inr (st, (if present then Some (KeQueryActiveProcessorCountEx K) else None),
                       [0..<KeQueryActiveProcessorCountEx K], t)
                \<and> NT_SUCCESS st))"
proof (intro conjI allI impI)
  fix k t st t'
  assume a: "k < KeQueryActiveProcessorCountEx K
          \<and> succeeded_through K Callback Context k s = Some t
          \<and> callback_on_index K Callback Context k t = Inr (st, t') \<and> \<not> NT_SUCCESS st"
  from loop_to_failure [OF assms refl, of k Callback Context s t st t' 0 s STATUS_SUCCESS] a
  show "SvExecuteOnEachProcessor K Callback Context present s =
                Inr (st, (if present then Some k else None), [0..<Suc k], t')"
    by (simp add: SvExecuteOnEachProcessor_def Let_def)
next
  fix t
  assume a: "succeeded_through K Callback Context (KeQueryActiveProcessorCountEx K) s = Some t"
  have "NT_SUCCESS STATUS_SUCCESS" by (simp add: NT_SUCCESS_def STATUS_SUCCESS_def)
  with loop_to_end [OF assms refl a, of 0 s STATUS_SUCCESS]
  show "\<exists>st. SvExecuteOnEachProcessor K Callback Context present s =
                  Inr (st, (if present then Some (KeQueryActiveProcessorCountEx K) else None),
                       [0..<KeQueryActiveProcessorCountEx K], t)
                \<and> NT_SUCCESS st"
    by (auto simp: SvExecuteOnEachProcessor_def Let_def)
qed


lemma example_kernel_simps:
  "KeQueryActiveProcessorCountEx example_kernel = 3"
  "indices_convert example_kernel"
  "callback_on_index example_kernel example_callback c i s =
     Inr (if push_bit (unat (of_nat i :: UINT8)) 1 = c then STATUS_INSUFFICIENT_RESOURCES
          else STATUS_SUCCESS, s)"
  by (simp_all add: example_kernel_def indices_convert_def callback_on_index_def
        run_on_processor_def example_callback_def NT_SUCCESS_def STATUS_SUCCESS_def
        list_all_iff)

lemma status_simps:
  "NT_SUCCESS STATUS_SUCCESS" "\<not> NT_SUCCESS STATUS_INSUFFICIENT_RESOURCES"
  "\<not> NT_SUCCESS STATUS_INVALID_PARAMETER_1" "\<not> NT_SUCCESS STATUS_HV_FEATURE_UNAVAILABLE"
  by (simp_all add: NT_SUCCESS_def STATUS_SUCCESS_def STATUS_INSUFFICIENT_RESOURCES_def
        STATUS_INVALID_PARAMETER_1_def STATUS_HV_FEATURE_UNAVAILABLE_def)

theorem SvExecuteOnEachProcessor_stops_at_first_failure_witness:
  "SvExecuteOnEachProcessor example_kernel example_callback 2 True 0
     = Inr (STATUS_INSUFFICIENT_RESOURCES, Some 1, [0, 1], 0)
   \<and> (\<exists>st. SvExecuteOnEachProcessor example_kernel example_callback 0 True 0
              = Inr (st, Some 3, [0, 1, 2], 0) \<and> NT_SUCCESS st)"
proof -
  note t = SvExecuteOnEachProcessor_stops_at_first_failure [OF example_kernel_simps(2)]
  have s1: "succeeded_through example_kernel example_callback 2 (Suc 0) 0 = Some 0"
    by (simp add: example_kernel_simps status_simps)
  have f1: "callback_on_index example_kernel example_callback 2 (Suc 0) 0
      = Inr (STATUS_INSUFFICIENT_RESOURCES, 0)"
    by (simp add: example_kernel_simps)
  have s3: "succeeded_through example_kernel example_callback 0 (Suc (Suc (Suc 0))) 0 = Some 0"
    by (simp add: example_kernel_simps status_simps)
  have u: "[0..<Suc (Suc 0)] = [0, Suc 0]" "[0..<Suc (Suc (Suc 0))] = [0, Suc 0, Suc (Suc 0)]"
    by (simp_all add: upt_rec)
  from t [THEN conjunct1, rule_format, of "Suc 0" example_callback 2 0 0
            STATUS_INSUFFICIENT_RESOURCES 0 True]
  have a: "SvExecuteOnEachProcessor example_kernel example_callback 2 True 0
     = Inr (STATUS_INSUFFICIENT_RESOURCES, Some 1, [0, 1], 0)"
    using s1 f1 by (simp add: example_kernel_simps status_simps numeral_2_eq_2 u)
  from t [THEN conjunct2, rule_format, of example_callback 0 0 0 True]
  have b: "\<exists>st. SvExecuteOnEachProcessor example_kernel example_callback 0 True 0
              = Inr (st, Some 3, [0, 1, 2], 0) \<and> NT_SUCCESS st"
    using s3 by (simp add: example_kernel_simps numeral_3_eq_3 numeral_2_eq_2 u)
  from a b show ?thesis by blast
qed

section \<open>Properties of the life cycle\<close>

text \<open>What a CPUID exit in flat mode leaves of the per-processor data.\<close>

lemma update_vmcb_simps [simp]:
  "VpData (update_vmcb p f b) = VpData b"
  "HostStackLayout_SharedVpData (update_vmcb p f b) = HostStackLayout_SharedVpData b"
  "HostStackLayout_pProcessNestData (update_vmcb p f b) = HostStackLayout_pProcessNestData b"
  "pProcessNestData_CpuMode (update_vmcb p f b) = pProcessNestData_CpuMode b"
  "pProcessNestData_vcpu_vmx (update_vmcb p f b) = pProcessNestData_vcpu_vmx b"
  "Msr (update_vmcb p f b) = Msr b"
  "ExitVm (update_vmcb p f b) = ExitVm b"
  "VpRegs (update_vmcb p f b) = VpRegs b"
  "Trace (update_vmcb p f b) = Trace b"
  by (simp_all add: update_vmcb_def)

lemma SvHandleCpuid_frame:
  "VpData (SvHandleCpuid D E b) = VpData b"
  "HostStackLayout_SharedVpData (SvHandleCpuid D E b) = HostStackLayout_SharedVpData b"
  "HostStackLayout_pProcessNestData (SvHandleCpuid D E b) = HostStackLayout_pProcessNestData b"
  "pProcessNestData_CpuMode (SvHandleCpuid D E b) = pProcessNestData_CpuMode b"
  "pProcessNestData_vcpu_vmx (SvHandleCpuid D E b) = pProcessNestData_vcpu_vmx b"
  "Msr (SvHandleCpuid D E b) = Msr b"
  "ExitVm (SvHandleCpuid D E b) = snd (SvHandleCpuid_switch D E b)"
  by (simp_all add: SvHandleCpuid_def update_vmcb_def split: prod.splits)

lemma SvHandleVmExit_flat_cpuid:
  assumes "pProcessNestData_CpuMode b \<noteq> VmxMode"
    and "ControlArea_ExitCode (GuestVmcb b) = VMEXIT_CPUID D"
  shows "\<exists>pa. SvHandleVmExit D E H b =
     (let b2 = SvHandleCpuid D E
                 ((host_does (svm_vmload pa) b)
                    \<lparr>VpRegs := (VpRegs b)\<lparr>Rax := StateSaveArea_Rax (GuestVmcb b)\<rparr>,
                     ExitVm := EXIT_NOTHING\<rparr>)
      in if ExitVm b2 = EXIT_EXIT then Inr (EXIT_EXIT, unload_path D E b2)
         else Inr (ExitVm b2,
                   update_vmcb VpData_GuestVmcb
                     (\<lambda>v. v\<lparr>StateSaveArea_Rax := Rax (VpRegs b2)\<rparr>) b2))"
proof -
  from load_host_state_flat [OF assms(1)] obtain pa
    where l: "load_host_state b = Inr (host_does (svm_vmload pa) b)" by blast
  have f: "handle_exit_flat D E H (host_does (svm_vmload pa) b) =
      Inr (SvHandleCpuid D E
                 ((host_does (svm_vmload pa) b)
                    \<lparr>VpRegs := (VpRegs b)\<lparr>Rax := StateSaveArea_Rax (GuestVmcb b)\<rparr>,
                     ExitVm := EXIT_NOTHING\<rparr>))"
    using assms(2) by (simp add: handle_exit_flat_def Let_def GuestVmcb_def host_does_def)
  show ?thesis
    apply (rule exI [of _ pa])
    using assms(1)
    apply (simp add: SvHandleVmExit_def l f Let_def reflect_rax_def SvHandleCpuid_frame)
    done
qed


lemma same_layout_refl [simp]: "same_layout b b"
  by (simp add: same_layout_def)

lemma execute_cpuid_hardware:
  "Virtualized s (current_processor s) = None \<Longrightarrow>
   execute_cpuid D V H leaf subLeaf s = Inr (hardware_cpuid V (current_processor s) leaf subLeaf, s)"
  by (simp add: execute_cpuid_def)

lemma at_cpuid_exit_simps [simp]:
  "VpData (at_cpuid_exit D V leaf subLeaf msr b) = VpData b"
  "HostStackLayout_SharedVpData (at_cpuid_exit D V leaf subLeaf msr b)
     = HostStackLayout_SharedVpData b"
  "HostStackLayout_pProcessNestData (at_cpuid_exit D V leaf subLeaf msr b)
     = HostStackLayout_pProcessNestData b"
  "pProcessNestData_CpuMode (at_cpuid_exit D V leaf subLeaf msr b) = pProcessNestData_CpuMode b"
  "pProcessNestData_vcpu_vmx (at_cpuid_exit D V leaf subLeaf msr b)
     = pProcessNestData_vcpu_vmx b"
  "Msr (at_cpuid_exit D V leaf subLeaf msr b) = msr"
  "ControlArea_ExitCode (GuestVmcb (at_cpuid_exit D V leaf subLeaf msr b)) = VMEXIT_CPUID D"
  "StateSaveArea_Rax (GuestVmcb (at_cpuid_exit D V leaf subLeaf msr b)) = ucast leaf"
  "StateSaveArea_SsAttrib (GuestVmcb (at_cpuid_exit D V leaf subLeaf msr b)) = kernel_SsAttrib V"
  "ControlArea_NRip (GuestVmcb (at_cpuid_exit D V leaf subLeaf msr b))
     = ControlArea_NRip (GuestVmcb b)"
  "Rcx (VpRegs (at_cpuid_exit D V leaf subLeaf msr b)) = ucast subLeaf"
  by (simp_all add: at_cpuid_exit_def GuestVmcb_def)

text \<open>The state in which \<open>SvHandleCpuid\<close> runs at a CPUID exit in flat mode.\<close>

lemma SvHandleVmExit_at_cpuid_exit:
  assumes "pProcessNestData_CpuMode b \<noteq> VmxMode"
  shows "\<exists>c. SvHandleVmExit D E H (at_cpuid_exit D V leaf subLeaf msr b) =
           (let b2 = SvHandleCpuid D E c
            in if ExitVm b2 = EXIT_EXIT then Inr (EXIT_EXIT, unload_path D E b2)
               else Inr (ExitVm b2,
                         update_vmcb VpData_GuestVmcb
                           (\<lambda>v. v\<lparr>StateSaveArea_Rax := Rax (VpRegs b2)\<rparr>) b2))
         \<and> same_layout b c \<and> Msr c = msr \<and> ExitVm c = EXIT_NOTHING
         \<and> static_cast_int (Rax (VpRegs c)) = leaf \<and> static_cast_int (Rcx (VpRegs c)) = subLeaf
         \<and> StateSaveArea_SsAttrib (GuestVmcb c) = kernel_SsAttrib V
         \<and> ControlArea_NRip (GuestVmcb c) = ControlArea_NRip (GuestVmcb b)
         \<and> StateSaveArea_Rsp (GuestVmcb c) = StateSaveArea_Rsp (GuestVmcb b)"
proof -
  let ?b1 = "at_cpuid_exit D V leaf subLeaf msr b"
  have m1: "pProcessNestData_CpuMode ?b1 \<noteq> VmxMode" using assms by simp
  have c1: "ControlArea_ExitCode (GuestVmcb ?b1) = VMEXIT_CPUID D" by simp
  from SvHandleVmExit_flat_cpuid [OF m1 c1, of E H] obtain pa where
    e: "SvHandleVmExit D E H ?b1 =
     (let b2 = SvHandleCpuid D E
                 ((host_does (svm_vmload pa) ?b1)
                    \<lparr>VpRegs := (VpRegs ?b1)\<lparr>Rax := StateSaveArea_Rax (GuestVmcb ?b1)\<rparr>,
                     ExitVm := EXIT_NOTHING\<rparr>)
      in if ExitVm b2 = EXIT_EXIT then Inr (EXIT_EXIT, unload_path D E b2)
         else Inr (ExitVm b2,
                   update_vmcb VpData_GuestVmcb
                     (\<lambda>v. v\<lparr>StateSaveArea_Rax := Rax (VpRegs b2)\<rparr>) b2))"
    by blast
  show ?thesis
    apply (rule exI [of _ "(host_does (svm_vmload pa) ?b1)
                    \<lparr>VpRegs := (VpRegs ?b1)\<lparr>Rax := StateSaveArea_Rax (GuestVmcb ?b1)\<rparr>,
                     ExitVm := EXIT_NOTHING\<rparr>"])
    apply (rule conjI)
     apply (rule e)
    apply (simp add: same_layout_def host_does_def GuestVmcb_def at_cpuid_exit_def)
    done
qed

lemma execute_cpuid_vendor:
  assumes v: "Virtualized s (current_processor s) = Some a"
    and m: "pProcessNestData_CpuMode (VpBlocks s a) \<noteq> VmxMode"
    and d: "cpuid_labels_distinct D"
  shows "\<exists>b2. execute_cpuid D V H (CPUID_HV_VENDOR_AND_MAX_FUNCTIONS D) 0 s =
            Inr ((CPUID_HV_MAX D, multichar ''NmvS'', multichar '' tse'', multichar ''    ''),
                 s\<lparr>VpBlocks := (VpBlocks s)(a := b2)\<rparr>)
          \<and> same_layout (VpBlocks s a) b2"
proof -
  define p where "p = current_processor s"
  define E where "E = host_env_of V p a"
  from SvHandleVmExit_at_cpuid_exit [OF m, of D E H V "CPUID_HV_VENDOR_AND_MAX_FUNCTIONS D" 0
         "CpuMsr s p"]
  obtain c where
    e: "SvHandleVmExit D E H
          (at_cpuid_exit D V (CPUID_HV_VENDOR_AND_MAX_FUNCTIONS D) 0 (CpuMsr s p) (VpBlocks s a)) =
           (let b2 = SvHandleCpuid D E c
            in if ExitVm b2 = EXIT_EXIT then Inr (EXIT_EXIT, unload_path D E b2)
               else Inr (ExitVm b2,
                         update_vmcb VpData_GuestVmcb
                           (\<lambda>v. v\<lparr>StateSaveArea_Rax := Rax (VpRegs b2)\<rparr>) b2))"
    and lc: "same_layout (VpBlocks s a) c" and mc: "Msr c = CpuMsr s p"
    and cx: "ExitVm c = EXIT_NOTHING"
    and r: "static_cast_int (Rax (VpRegs c)) = CPUID_HV_VENDOR_AND_MAX_FUNCTIONS D"
    by blast
  note sw = SvHandleCpuid_switch_vendor [OF r d, of E]
  define b2 where "b2 = SvHandleCpuid D E c"
  have x: "ExitVm b2 = EXIT_NOTHING" by (simp add: b2_def SvHandleCpuid_frame sw cx)
  have regs: "VpRegs b2 = (VpRegs c)\<lparr>Rax := int_to_UINT64 (CPUID_HV_MAX D),
       Rbx := int_to_UINT64 (multichar ''NmvS''), Rcx := int_to_UINT64 (multichar '' tse''),
       Rdx := int_to_UINT64 (multichar ''    '')\<rparr>"
    unfolding b2_def using SvHandleCpuid_regs [OF sw] .
  define b3 where "b3 = update_vmcb VpData_GuestVmcb
                     (\<lambda>v. v\<lparr>StateSaveArea_Rax := Rax (VpRegs b2)\<rparr>) b2"
  have e': "SvHandleVmExit D E H
          (at_cpuid_exit D V (CPUID_HV_VENDOR_AND_MAX_FUNCTIONS D) 0 (CpuMsr s p) (VpBlocks s a))
      = Inr (EXIT_NOTHING, b3)"
    unfolding e Let_def b2_def [symmetric] b3_def using x by simp
  have msr: "Msr b3 = CpuMsr s p"
    by (simp add: b3_def b2_def SvHandleCpuid_frame mc)
  have lay: "same_layout (VpBlocks s a) b3"
    using lc by (simp add: same_layout_def b3_def b2_def SvHandleCpuid_frame)
  have out: "(ucast (StateSaveArea_Rax (GuestVmcb b3)) :: INT32) = CPUID_HV_MAX D"
    "(ucast (Rbx (VpRegs b3)) :: INT32) = multichar ''NmvS''"
    "(ucast (Rcx (VpRegs b3)) :: INT32) = multichar '' tse''"
    "(ucast (Rdx (VpRegs b3)) :: INT32) = multichar ''    ''"
    by (simp_all add: b3_def regs GuestVmcb_def update_vmcb_def int_to_UINT64_low)
  have v': "Virtualized s p = Some a" using v by (simp add: p_def)
  have "execute_cpuid D V H (CPUID_HV_VENDOR_AND_MAX_FUNCTIONS D) 0 s =
            Inr ((CPUID_HV_MAX D, multichar ''NmvS'', multichar '' tse'', multichar ''    ''),
                 s\<lparr>VpBlocks := (VpBlocks s)(a := b3)\<rparr>)"
    unfolding execute_cpuid_def Let_def p_def [symmetric] v' option.case
      E_def [symmetric] e' sum.case prod.case out msr
    by simp
  with lay show ?thesis by blast
qed


lemma SvHandleCpuid_switch_unload:
  assumes "static_cast_int (Rax (VpRegs c)) = CPUID_UNLOAD_SIMPLE_SVM D"
    and "static_cast_int (Rcx (VpRegs c)) = CPUID_UNLOAD_SIMPLE_SVM D"
    and "SEGMENT_ATTRIBUTE_Dpl D (StateSaveArea_SsAttrib (GuestVmcb c)) = DPL_SYSTEM D"
    and "cpuid_labels_distinct D"
  shows "snd (SvHandleCpuid_switch D E c) = EXIT_EXIT"
  using assms
  by (auto simp: SvHandleCpuid_switch_def cpuid_labels_distinct_def Let_def split: prod.splits)

lemma unload_path_frame:
  "same_layout b (unload_path D E b)"
  "Rax (VpRegs (unload_path D E b)) = VpData b AND 0xFFFFFFFF"
  "Rdx (VpRegs (unload_path D E b)) = drop_bit 32 (VpData b)"
  by (simp_all add: unload_path_def same_layout_def Let_def host_does_def)

lemma decode_vpData:
  "push_bit 32 (int_to_UINT64 (ucast (drop_bit 32 a) :: INT32))
     OR ucast ((ucast (a AND 0xFFFFFFFF) :: INT32) AND 0xFFFFFFFF) = (a :: UINT64)"
proof -
  have e: "int_to_UINT64 r = scast r" for r by (simp only: int_to_UINT64_def scast_eq)
  have m: "(0xFFFFFFFF :: 64 word) = mask 32" "(0xFFFFFFFF :: 32 word) = mask 32"
    by (simp_all add: mask_eq_exp_minus_1)
  show ?thesis
    unfolding e m
    by (rule bit_word_eqI) (auto simp: bit_simps)
qed

lemma execute_cpuid_unload:
  assumes v: "Virtualized s (current_processor s) = Some a"
    and m: "pProcessNestData_CpuMode (VpBlocks s a) \<noteq> VmxMode"
    and d: "cpuid_labels_distinct D"
    and dpl: "SEGMENT_ATTRIBUTE_Dpl D (kernel_SsAttrib V) = DPL_SYSTEM D"
  shows "\<exists>b2 msr rbx.
          execute_cpuid D V H (CPUID_UNLOAD_SIMPLE_SVM D) (CPUID_UNLOAD_SIMPLE_SVM D) s =
            Inr ((ucast (VpData (VpBlocks s a) AND 0xFFFFFFFF), rbx, multichar ''JSVM'',
                  ucast (drop_bit 32 (VpData (VpBlocks s a)))),
                 s\<lparr>VpBlocks := (VpBlocks s)(a := b2),
                   CpuMsr := (CpuMsr s)(current_processor s := msr),
                   Virtualized := (Virtualized s)(current_processor s := None),
                   Unloaded := Unloaded s @ [current_processor s]\<rparr>)
          \<and> same_layout (VpBlocks s a) b2"
proof -
  define p where "p = current_processor s"
  define E where "E = host_env_of V p a"
  define u where "u = CPUID_UNLOAD_SIMPLE_SVM D"
  from SvHandleVmExit_at_cpuid_exit [OF m, of D E H V u u "CpuMsr s p"]
  obtain c where
    e: "SvHandleVmExit D E H (at_cpuid_exit D V u u (CpuMsr s p) (VpBlocks s a)) =
           (let b2 = SvHandleCpuid D E c
            in if ExitVm b2 = EXIT_EXIT then Inr (EXIT_EXIT, unload_path D E b2)
               else Inr (ExitVm b2,
                         update_vmcb VpData_GuestVmcb
                           (\<lambda>v. v\<lparr>StateSaveArea_Rax := Rax (VpRegs b2)\<rparr>) b2))"
    and lc: "same_layout (VpBlocks s a) c"
    and r: "static_cast_int (Rax (VpRegs c)) = u" "static_cast_int (Rcx (VpRegs c)) = u"
    and ss: "StateSaveArea_SsAttrib (GuestVmcb c) = kernel_SsAttrib V"
    by blast
  have sw: "snd (SvHandleCpuid_switch D E c) = EXIT_EXIT"
    by (rule SvHandleCpuid_switch_unload) (use r ss dpl d in \<open>simp_all add: u_def\<close>)
  define b2 where "b2 = SvHandleCpuid D E c"
  have x: "ExitVm b2 = EXIT_EXIT" by (simp add: b2_def SvHandleCpuid_frame sw)
  have l2: "same_layout (VpBlocks s a) b2"
    using lc by (simp add: same_layout_def b2_def SvHandleCpuid_frame)
  define b3 where "b3 = unload_path D E b2"
  have e': "SvHandleVmExit D E H (at_cpuid_exit D V u u (CpuMsr s p) (VpBlocks s a))
      = Inr (EXIT_EXIT, b3)"
    unfolding e Let_def b2_def [symmetric] b3_def using x by simp
  have lay: "same_layout (VpBlocks s a) b3"
    using l2 unload_path_frame(1) [of b2 D E] by (simp add: same_layout_def b3_def)
  have out: "Rax (VpRegs b3) = VpData (VpBlocks s a) AND 0xFFFFFFFF"
    "Rdx (VpRegs b3) = drop_bit 32 (VpData (VpBlocks s a))"
    using l2 by (simp_all add: b3_def unload_path_frame same_layout_def)
  have v': "Virtualized s p = Some a" using v by (simp add: p_def)
  have "execute_cpuid D V H u u s =
            Inr ((ucast (VpData (VpBlocks s a) AND 0xFFFFFFFF), ucast (Rbx (VpRegs b3)),
                  multichar ''JSVM'', ucast (drop_bit 32 (VpData (VpBlocks s a)))),
                 s\<lparr>VpBlocks := (VpBlocks s)(a := b3),
                   CpuMsr := (CpuMsr s)(p := Msr b3),
                   Virtualized := (Virtualized s)(p := None),
                   Unloaded := Unloaded s @ [p]\<rparr>)"
    unfolding execute_cpuid_def Let_def p_def [symmetric] v' option.case
      E_def [symmetric] e' sum.case prod.case out
    by simp
  with lay show ?thesis unfolding u_def p_def by blast
qed

lemma installed_on_virtualized:
  assumes "Virtualized s (current_processor s) = Some a"
    and "pProcessNestData_CpuMode (VpBlocks s a) \<noteq> VmxMode"
    and "cpuid_labels_distinct D"
  shows "\<exists>b2. installed_on_thread D V H s = Inr (True, s\<lparr>VpBlocks := (VpBlocks s)(a := b2)\<rparr>)
          \<and> same_layout (VpBlocks s a) b2"
proof -
  from execute_cpuid_vendor [OF assms, of V H] obtain b2 where
    e: "execute_cpuid D V H (CPUID_HV_VENDOR_AND_MAX_FUNCTIONS D) 0 s =
            Inr ((CPUID_HV_MAX D, multichar ''NmvS'', multichar '' tse'', multichar ''    ''),
                 s\<lparr>VpBlocks := (VpBlocks s)(a := b2)\<rparr>)"
    and l: "same_layout (VpBlocks s a) b2" by blast
  have "installed_on_thread D V H s = Inr (True, s\<lparr>VpBlocks := (VpBlocks s)(a := b2)\<rparr>)"
    by (simp add: installed_on_thread_def e SvIsSimpleSvmHypervisorInstalled_def installed_iff)
  with l show ?thesis by blast
qed

lemma from_captured_context_virtualized:
  assumes "Virtualized s (current_processor s) = Some a"
    and "pProcessNestData_CpuMode (VpBlocks s a) \<noteq> VmxMode"
    and "cpuid_labels_distinct D"
  shows "\<exists>b2. from_captured_context D V H vpData sharedVpData s
            = Some (Inr (STATUS_SUCCESS, s\<lparr>VpBlocks := (VpBlocks s)(a := b2)\<rparr>))
          \<and> same_layout (VpBlocks s a) b2"
proof -
  from installed_on_virtualized [OF assms, of V H] obtain b2 where
    i: "installed_on_thread D V H s = Inr (True, s\<lparr>VpBlocks := (VpBlocks s)(a := b2)\<rparr>)"
    and l: "same_layout (VpBlocks s a) b2" by blast
  have "from_captured_context D V H vpData sharedVpData s
            = Some (Inr (STATUS_SUCCESS, s\<lparr>VpBlocks := (VpBlocks s)(a := b2)\<rparr>))"
    by (subst from_captured_context.simps) (simp add: i)
  with l show ?thesis by blast
qed

lemma SvAllocatePageAlingedPhysicalMemory_success:
  assumes "PoolSupply s = memory # rest" and "memory \<noteq> 0"
  shows "SvAllocatePageAlingedPhysicalMemory s =
     (memory, s\<lparr>PoolSupply := rest, Pool := insert memory (Pool s),
                  PoolAllocations := Suc (PoolAllocations s),
                  VpBlocks := (VpBlocks s)(memory := zero_VIRTUAL_PROCESSOR_DATA memory),
                  SharedBlocks := (SharedBlocks s)(memory := zero_SHARED_VIRTUAL_PROCESSOR_DATA)\<rparr>)"
  using assms by (simp add: SvAllocatePageAlingedPhysicalMemory_def)

lemma zero_VIRTUAL_PROCESSOR_DATA_simps [simp]:
  "VpData (zero_VIRTUAL_PROCESSOR_DATA a) = a"
  "pProcessNestData_CpuMode (zero_VIRTUAL_PROCESSOR_DATA a) \<noteq> VmxMode"
  "pProcessNestData_CpuMode (zero_VIRTUAL_PROCESSOR_DATA a) = OTHER_MODE 0"
  "pProcessNestData_vcpu_vmx (zero_VIRTUAL_PROCESSOR_DATA a) = None"
  "HostStackLayout_pProcessNestData (zero_VIRTUAL_PROCESSOR_DATA a) = 0"
  "HostStackLayout_SharedVpData (zero_VIRTUAL_PROCESSOR_DATA a) = 0"
  by (simp_all add: zero_VIRTUAL_PROCESSOR_DATA_def)

lemma SvVirtualizeProcessor_already_virtualized:
  assumes c: "Context \<noteq> 0"
    and sup: "PoolSupply s = vpData # nestData # rest" and nz: "vpData \<noteq> 0" "nestData \<noteq> 0"
    and v: "Virtualized s (current_processor s) = Some a"
    and m: "pProcessNestData_CpuMode (VpBlocks s a) \<noteq> VmxMode"
    and d: "cpuid_labels_distinct D"
  shows "\<exists>s'. SvVirtualizeProcessor D V H Context s = Inr (STATUS_SUCCESS, s')
     \<and> Virtualized s' = Virtualized s \<and> Launched s' = Launched s \<and> Unloaded s' = Unloaded s
     \<and> CpuMsr s' = CpuMsr s \<and> Thread s' = Thread s
     \<and> PoolAllocations s' = PoolAllocations s + 2
     \<and> Pool s' = insert nestData (insert vpData (Pool s))
     \<and> PoolSupply s' = rest \<and> Contiguous s' = Contiguous s"
proof -
  define s1 where "s1 = s\<lparr>PoolSupply := nestData # rest, Pool := insert vpData (Pool s),
                  PoolAllocations := Suc (PoolAllocations s),
                  VpBlocks := (VpBlocks s)(vpData := zero_VIRTUAL_PROCESSOR_DATA vpData),
                  SharedBlocks := (SharedBlocks s)(vpData := zero_SHARED_VIRTUAL_PROCESSOR_DATA)\<rparr>"
  have a1: "SvAllocatePageAlingedPhysicalMemory s = (vpData, s1)"
    unfolding s1_def by (rule SvAllocatePageAlingedPhysicalMemory_success [OF sup nz(1)])
  define s2 where "s2 = s1\<lparr>PoolSupply := rest, Pool := insert nestData (Pool s1),
                  PoolAllocations := Suc (PoolAllocations s1),
                  VpBlocks := (VpBlocks s1)(nestData := zero_VIRTUAL_PROCESSOR_DATA nestData),
                  SharedBlocks := (SharedBlocks s1)(nestData := zero_SHARED_VIRTUAL_PROCESSOR_DATA)\<rparr>"
  have a2: "SvAllocatePageAlingedPhysicalMemory s1 = (nestData, s2)"
    unfolding s2_def
    by (rule SvAllocatePageAlingedPhysicalMemory_success [OF _ nz(2)]) (simp add: s1_def)
  define s3 where "s3 = s2\<lparr>VpBlocks := (VpBlocks s2)(vpData :=
                            (VpBlocks s2 vpData)\<lparr>HostStackLayout_pProcessNestData := nestData\<rparr>)\<rparr>"
  have v3: "Virtualized s3 (current_processor s3) = Some a"
    using v by (simp add: s3_def s2_def s1_def current_processor_def)
  have m3: "pProcessNestData_CpuMode (VpBlocks s3 a) \<noteq> VmxMode"
    using m by (simp add: s3_def s2_def s1_def)
  from from_captured_context_virtualized [OF v3 m3 d, of V H vpData Context] obtain b2 where
    f: "from_captured_context D V H vpData Context s3
            = Some (Inr (STATUS_SUCCESS, s3\<lparr>VpBlocks := (VpBlocks s3)(a := b2)\<rparr>))"
    by blast
  have "SvVirtualizeProcessor D V H Context s
      = Inr (STATUS_SUCCESS, s3\<lparr>VpBlocks := (VpBlocks s3)(a := b2)\<rparr>)"
    unfolding SvVirtualizeProcessor_def a1 a2 Let_def prod.case s3_def [symmetric]
    using c nz by (simp add: f)
  then show ?thesis
    by (rule_tac x = "s3\<lparr>VpBlocks := (VpBlocks s3)(a := b2)\<rparr>" in exI)
       (simp add: s3_def s2_def s1_def)
qed


lemma virtualized_system_simps:
  "current_processor (virtualized_system supply) = (0, 1)"
  "Virtualized (virtualized_system supply) (0, 1) = Some 0xFFFFA00000002000"
  "pProcessNestData_CpuMode (VpBlocks (virtualized_system supply) 0xFFFFA00000002000)
     = ProtectedMode"
  "PoolSupply (virtualized_system supply) = supply"
  "PoolAllocations (virtualized_system supply) = 3"
  "Pool (virtualized_system supply)
     = {0xFFFFA00000001000, 0xFFFFA00000002000, 0xFFFFA00000003000}"
  "Launched (virtualized_system supply) = [(0, 1)]"
  by (simp_all add: virtualized_system_def example_system_def current_processor_def)

text \<open>
  C1, as the code has it. \<open>SvVirtualizeProcessor\<close> allocates the per-processor data and
  the nested context before it tests whether the hypervisor is installed. Called with a
  context on a processor that is already virtualized (in flat mode), with both
  allocations succeeding, it returns \<open>STATUS_SUCCESS\<close> and does not virtualize again: no
  processor is launched and every processor keeps the per-processor data it had. The two
  blocks it allocated stay allocated: the number of allocations is two more than before
  the call, and the pool has the two blocks more.
\<close>

theorem SvVirtualizeProcessor_on_virtualized_processor:
  assumes "Context \<noteq> 0"
    and "PoolSupply s = vpData # nestData # rest" and "vpData \<noteq> 0" and "nestData \<noteq> 0"
    and "Virtualized s (current_processor s) = Some a"
    and "pProcessNestData_CpuMode (VpBlocks s a) \<noteq> VmxMode"
    and "cpuid_labels_distinct D"
  shows "\<exists>s'. SvVirtualizeProcessor D V H Context s = Inr (STATUS_SUCCESS, s')
     \<and> Virtualized s' = Virtualized s \<and> Launched s' = Launched s
     \<and> PoolAllocations s' = PoolAllocations s + 2
     \<and> Pool s' = insert nestData (insert vpData (Pool s))"
  using SvVirtualizeProcessor_already_virtualized [OF assms, of V H] by blast

theorem SvVirtualizeProcessor_on_virtualized_processor_witness:
  "\<exists>s'. SvVirtualizeProcessor amd64_defs example_sys_env example_handlers 0xFFFFA00000001000
           (virtualized_system [0xFFFFA00000004000, 0xFFFFA00000005000])
         = Inr (STATUS_SUCCESS, s')
     \<and> Launched s' = [(0, 1)]
     \<and> PoolAllocations s' = 5
     \<and> Pool s' = {0xFFFFA00000001000, 0xFFFFA00000002000, 0xFFFFA00000003000,
                   0xFFFFA00000004000, 0xFFFFA00000005000}"
proof -
  let ?s = "virtualized_system [0xFFFFA00000004000, 0xFFFFA00000005000]"
  have c: "(0xFFFFA00000001000 :: UINT64) \<noteq> 0" by simp
  have nz: "(0xFFFFA00000004000 :: UINT64) \<noteq> 0" "(0xFFFFA00000005000 :: UINT64) \<noteq> 0"
    by simp_all
  have v: "Virtualized ?s (current_processor ?s) = Some 0xFFFFA00000002000"
    by (simp add: virtualized_system_simps)
  have m: "pProcessNestData_CpuMode (VpBlocks ?s 0xFFFFA00000002000) \<noteq> VmxMode"
    by (simp add: virtualized_system_simps)
  from SvVirtualizeProcessor_on_virtualized_processor
         [OF c virtualized_system_simps(4) nz v m amd64_labels(2),
          of example_sys_env example_handlers]
  show ?thesis by (auto simp: virtualized_system_simps)
qed

text \<open>
  C1, as the specification states it, fails: on a virtualized processor the call returns
  \<open>STATUS_SUCCESS\<close>, and the number of allocations, 3 before the call, is 5 after it.
\<close>

theorem SvVirtualizeProcessor_allocation_count_counterexample:
  "Virtualized (virtualized_system [0xFFFFA00000004000, 0xFFFFA00000005000])
     (current_processor (virtualized_system [0xFFFFA00000004000, 0xFFFFA00000005000]))
     = Some 0xFFFFA00000002000
   \<and> PoolAllocations (virtualized_system [0xFFFFA00000004000, 0xFFFFA00000005000]) = 3
   \<and> map_sum id fst
        (SvVirtualizeProcessor amd64_defs example_sys_env example_handlers 0xFFFFA00000001000
           (virtualized_system [0xFFFFA00000004000, 0xFFFFA00000005000]))
       = Inr STATUS_SUCCESS
   \<and> map_sum id (PoolAllocations \<circ> snd)
        (SvVirtualizeProcessor amd64_defs example_sys_env example_handlers 0xFFFFA00000001000
           (virtualized_system [0xFFFFA00000004000, 0xFFFFA00000005000]))
       = Inr 5"
proof -
  let ?s = "virtualized_system [0xFFFFA00000004000, 0xFFFFA00000005000]"
  have c: "(0xFFFFA00000001000 :: UINT64) \<noteq> 0" by simp
  have nz: "(0xFFFFA00000004000 :: UINT64) \<noteq> 0" "(0xFFFFA00000005000 :: UINT64) \<noteq> 0"
    by simp_all
  have v: "Virtualized ?s (current_processor ?s) = Some 0xFFFFA00000002000"
    by (simp add: virtualized_system_simps)
  have m: "pProcessNestData_CpuMode (VpBlocks ?s 0xFFFFA00000002000) \<noteq> VmxMode"
    by (simp add: virtualized_system_simps)
  from SvVirtualizeProcessor_already_virtualized
         [OF c virtualized_system_simps(4) nz v m amd64_labels(2),
          of example_sys_env example_handlers]
  show ?thesis using v by (auto simp: virtualized_system_simps)
qed

lemma SvAllocatePageAlingedPhysicalMemory_failure:
  assumes "PoolSupply s = [] \<or> hd (PoolSupply s) = 0"
  shows "SvAllocatePageAlingedPhysicalMemory s = (0, s\<lparr>PoolSupply := tl (PoolSupply s)\<rparr>)"
  using assms by (cases "PoolSupply s") (auto simp: SvAllocatePageAlingedPhysicalMemory_def)

lemma installed_on_hardware:
  assumes "Virtualized s (current_processor s) = None"
  shows "installed_on_thread D V H s =
     Inr (IsInstalled_on (hardware_cpuid V (current_processor s)
                            (CPUID_HV_VENDOR_AND_MAX_FUNCTIONS D) 0), s)"
  by (simp add: installed_on_thread_def execute_cpuid_hardware [OF assms]
        SvIsSimpleSvmHypervisorInstalled_def)

lemma SvPrepareForVirtualization_simps [simp]:
  "Thread (SvPrepareForVirtualization D V vpData sh s) = Thread s"
  "Virtualized (SvPrepareForVirtualization D V vpData sh s) = Virtualized s"
  "Pool (SvPrepareForVirtualization D V vpData sh s) = Pool s"
  "Contiguous (SvPrepareForVirtualization D V vpData sh s) = Contiguous s"
  "PoolSupply (SvPrepareForVirtualization D V vpData sh s) = PoolSupply s"
  "ContiguousSupply (SvPrepareForVirtualization D V vpData sh s) = ContiguousSupply s"
  "PoolAllocations (SvPrepareForVirtualization D V vpData sh s) = PoolAllocations s"
  "Launched (SvPrepareForVirtualization D V vpData sh s) = Launched s"
  "Unloaded (SvPrepareForVirtualization D V vpData sh s) = Unloaded s"
  "SharedBlocks (SvPrepareForVirtualization D V vpData sh s) = SharedBlocks s"
  "MsrpmBlocks (SvPrepareForVirtualization D V vpData sh s) = MsrpmBlocks s"
  "sharedVpData_local (SvPrepareForVirtualization D V vpData sh s) = sharedVpData_local s"
  "current_processor (SvPrepareForVirtualization D V vpData sh s) = current_processor s"
  "b \<noteq> vpData \<Longrightarrow> VpBlocks (SvPrepareForVirtualization D V vpData sh s) b = VpBlocks s b"
  "VpData (VpBlocks (SvPrepareForVirtualization D V vpData sh s) vpData)
     = VpData (VpBlocks s vpData)"
  "HostStackLayout_SharedVpData (VpBlocks (SvPrepareForVirtualization D V vpData sh s) vpData)
     = sh"
  "HostStackLayout_pProcessNestData (VpBlocks (SvPrepareForVirtualization D V vpData sh s) vpData)
     = HostStackLayout_pProcessNestData (VpBlocks s vpData)"
  "pProcessNestData_CpuMode (VpBlocks (SvPrepareForVirtualization D V vpData sh s) vpData)
     = ProtectedMode"
  by (simp_all add: SvPrepareForVirtualization_def Let_def current_processor_def)

text \<open>The states of the system that differ in nothing the life cycle keeps track of but
  the memory of per-processor data and the MSRs.\<close>

lemma SvVirtualizeProcessor_launches:
  assumes c: "Context \<noteq> 0"
    and sup: "PoolSupply s = vpData # nestData # rest"
    and nz: "vpData \<noteq> 0" "nestData \<noteq> 0" and ne: "vpData \<noteq> nestData"
    and v: "Virtualized s (current_processor s) = None"
    and hw: "\<not> IsInstalled_on (hardware_cpuid V (current_processor s)
                                  (CPUID_HV_VENDOR_AND_MAX_FUNCTIONS D) 0)"
    and d: "cpuid_labels_distinct D"
  shows "\<exists>b msr. SvVirtualizeProcessor D V H Context s =
           Inr (STATUS_SUCCESS,
                s\<lparr>PoolSupply := rest,
                  Pool := insert nestData (insert vpData (Pool s)),
                  PoolAllocations := PoolAllocations s + 2,
                  VpBlocks := (VpBlocks s)(nestData := zero_VIRTUAL_PROCESSOR_DATA nestData,
                                           vpData := b),
                  SharedBlocks := (SharedBlocks s)(vpData := zero_SHARED_VIRTUAL_PROCESSOR_DATA,
                                                   nestData := zero_SHARED_VIRTUAL_PROCESSOR_DATA),
                  CpuMsr := (CpuMsr s)(current_processor s := msr),
                  Virtualized := (Virtualized s)(current_processor s := Some vpData),
                  Launched := Launched s @ [current_processor s]\<rparr>)
         \<and> VpData b = vpData \<and> HostStackLayout_SharedVpData b = Context
         \<and> HostStackLayout_pProcessNestData b = nestData
         \<and> pProcessNestData_CpuMode b = ProtectedMode"
proof -
  define p where "p = current_processor s"
  define s1 where "s1 = s\<lparr>PoolSupply := nestData # rest, Pool := insert vpData (Pool s),
                  PoolAllocations := Suc (PoolAllocations s),
                  VpBlocks := (VpBlocks s)(vpData := zero_VIRTUAL_PROCESSOR_DATA vpData),
                  SharedBlocks := (SharedBlocks s)(vpData := zero_SHARED_VIRTUAL_PROCESSOR_DATA)\<rparr>"
  have a1: "SvAllocatePageAlingedPhysicalMemory s = (vpData, s1)"
    unfolding s1_def by (rule SvAllocatePageAlingedPhysicalMemory_success [OF sup nz(1)])
  define s2 where "s2 = s1\<lparr>PoolSupply := rest, Pool := insert nestData (Pool s1),
                  PoolAllocations := Suc (PoolAllocations s1),
                  VpBlocks := (VpBlocks s1)(nestData := zero_VIRTUAL_PROCESSOR_DATA nestData),
                  SharedBlocks := (SharedBlocks s1)(nestData := zero_SHARED_VIRTUAL_PROCESSOR_DATA)\<rparr>"
  have a2: "SvAllocatePageAlingedPhysicalMemory s1 = (nestData, s2)"
    unfolding s2_def
    by (rule SvAllocatePageAlingedPhysicalMemory_success [OF _ nz(2)]) (simp add: s1_def)
  define s3 where "s3 = s2\<lparr>VpBlocks := (VpBlocks s2)(vpData :=
                            (VpBlocks s2 vpData)\<lparr>HostStackLayout_pProcessNestData := nestData\<rparr>)\<rparr>"
  have p3: "current_processor s3 = p"
    by (simp add: s3_def s2_def s1_def current_processor_def p_def)
  have v3: "Virtualized s3 (current_processor s3) = None"
    unfolding p3 using v by (simp add: s3_def s2_def s1_def p_def)
  have i3: "installed_on_thread D V H s3 = Inr (False, s3)"
    unfolding installed_on_hardware [OF v3] p3 using hw by (simp add: p_def)
  define efer where "efer = CpuMsr s3 p (IA32_MSR_EFER D) OR EFER_SVME D"
  define s4 where "s4 = s3\<lparr>CpuMsr := (CpuMsr s3)(p := (CpuMsr s3 p)(IA32_MSR_EFER D := efer))\<rparr>"
  define s5 where "s5 = SvPrepareForVirtualization D V vpData Context s4"
  define s6 where "s6 = SvLaunchVm vpData s5"
  have step: "from_captured_context D V H vpData Context s3
      = from_captured_context D V H vpData Context s6"
    by (subst from_captured_context.simps)
       (simp add: i3 Let_def p3 s4_def [symmetric] efer_def [symmetric] s5_def [symmetric]
          s6_def [symmetric])
  have p6: "current_processor s6 = p"
    by (simp add: s6_def SvLaunchVm_def s5_def s4_def current_processor_def p3 [symmetric])
  have v6: "Virtualized s6 (current_processor s6) = Some vpData"
    unfolding p6 by (simp add: s6_def SvLaunchVm_def s5_def s4_def p3 [symmetric]
        current_processor_def)
  have blk6: "VpBlocks s6 vpData = VpBlocks s5 vpData" by (simp add: s6_def SvLaunchVm_def)
  have m6: "pProcessNestData_CpuMode (VpBlocks s6 vpData) \<noteq> VmxMode"
    by (simp add: blk6 s5_def)
  from from_captured_context_virtualized [OF v6 m6 d, of V H vpData Context] obtain b2 where
    f: "from_captured_context D V H vpData Context s6
            = Some (Inr (STATUS_SUCCESS, s6\<lparr>VpBlocks := (VpBlocks s6)(vpData := b2)\<rparr>))"
    and l: "same_layout (VpBlocks s6 vpData) b2"
    by blast
  have r: "SvVirtualizeProcessor D V H Context s
      = Inr (STATUS_SUCCESS, s6\<lparr>VpBlocks := (VpBlocks s6)(vpData := b2)\<rparr>)"
    unfolding SvVirtualizeProcessor_def a1 a2 Let_def prod.case s3_def [symmetric]
    using c nz by (simp add: step f)
  have b2: "VpData b2 = vpData" "HostStackLayout_SharedVpData b2 = Context"
    "HostStackLayout_pProcessNestData b2 = nestData" "pProcessNestData_CpuMode b2 = ProtectedMode"
    using l ne
    by (simp_all add: same_layout_def blk6 s5_def s4_def s3_def s2_def s1_def)
  have st: "s6\<lparr>VpBlocks := (VpBlocks s6)(vpData := b2)\<rparr> =
      s\<lparr>PoolSupply := rest,
                  Pool := insert nestData (insert vpData (Pool s)),
                  PoolAllocations := PoolAllocations s + 2,
                  VpBlocks := (VpBlocks s)(nestData := zero_VIRTUAL_PROCESSOR_DATA nestData,
                                           vpData := b2),
                  SharedBlocks := (SharedBlocks s)(vpData := zero_SHARED_VIRTUAL_PROCESSOR_DATA,
                                                   nestData := zero_SHARED_VIRTUAL_PROCESSOR_DATA),
                  CpuMsr := (CpuMsr s)(p := CpuMsr s6 p),
                  Virtualized := (Virtualized s)(p := Some vpData),
                  Launched := Launched s @ [p]\<rparr>"
    using ne
    by (simp add: s6_def SvLaunchVm_def s5_def SvPrepareForVirtualization_def Let_def s4_def
          s3_def s2_def s1_def current_processor_def p_def fun_upd_twist)
  from r b2 show ?thesis unfolding st p_def by blast
qed

lemma SvVirtualizeProcessor_fails:
  assumes c: "Context \<noteq> 0"
    and f: "allocation_fails_next (PoolSupply s)"
    and fresh: "set (take 1 (PoolSupply s)) \<inter> Pool s = {}"
  shows "\<exists>s'. SvVirtualizeProcessor D V H Context s = Inr (STATUS_INSUFFICIENT_RESOURCES, s')
     \<and> Thread s' = Thread s \<and> Virtualized s' = Virtualized s \<and> Pool s' = Pool s
     \<and> Contiguous s' = Contiguous s \<and> Launched s' = Launched s \<and> Unloaded s' = Unloaded s
     \<and> sharedVpData_local s' = sharedVpData_local s
     \<and> (\<forall>b. b \<notin> set (take 1 (PoolSupply s)) \<longrightarrow>
            VpBlocks s' b = VpBlocks s b \<and> SharedBlocks s' b = SharedBlocks s b)"
proof -
  consider "PoolSupply s = []" | t where "PoolSupply s = 0 # t"
    | x where "PoolSupply s = [x]" "x \<noteq> 0"
    | x u where "PoolSupply s = x # 0 # u" "x \<noteq> 0"
    using f by (auto simp: allocation_fails_next_def split: list.splits)
  then show ?thesis
  proof cases
    case 1
    then show ?thesis using c
      by (simp add: SvVirtualizeProcessor_def SvAllocatePageAlingedPhysicalMemory_def)
  next
    case 2
    then show ?thesis using c
      by (simp add: SvVirtualizeProcessor_def SvAllocatePageAlingedPhysicalMemory_def)
  next
    case 3
    with fresh have "x \<notin> Pool s" by simp
    with 3 c show ?thesis
      by (simp add: SvVirtualizeProcessor_def SvAllocatePageAlingedPhysicalMemory_def
            SvFreePageAlingedPhysicalMemory_def)
  next
    case 4
    with fresh have "x \<notin> Pool s" by simp
    with 4 c show ?thesis
      by (simp add: SvVirtualizeProcessor_def SvAllocatePageAlingedPhysicalMemory_def
            SvFreePageAlingedPhysicalMemory_def)
  qed
qed

lemma SvDevirtualizeProcessor_not_virtualized:
  assumes "Virtualized s (current_processor s) = None"
    and "fst (snd (snd (hardware_cpuid V (current_processor s) (CPUID_UNLOAD_SIMPLE_SVM D)
                          (CPUID_UNLOAD_SIMPLE_SVM D)))) \<noteq> multichar ''JSVM''"
  shows "SvDevirtualizeProcessor D V H True s = Inr (STATUS_SUCCESS, s)"
proof -
  obtain r0 r1 r2 r3 where
    r: "hardware_cpuid V (current_processor s) (CPUID_UNLOAD_SIMPLE_SVM D)
          (CPUID_UNLOAD_SIMPLE_SVM D) = (r0, r1, r2, r3)"
    by (metis prod.exhaust)
  with assms(2) have "r2 \<noteq> multichar ''JSVM''" by simp
  then show ?thesis
    by (simp add: SvDevirtualizeProcessor_def execute_cpuid_hardware [OF assms(1)] r)
qed

lemma SvDevirtualizeProcessor_virtualized:
  assumes v: "Virtualized s (current_processor s) = Some a"
    and m: "pProcessNestData_CpuMode (VpBlocks s a) \<noteq> VmxMode"
    and blk: "VpData (VpBlocks s a) = a" "HostStackLayout_SharedVpData (VpBlocks s a) = sh"
      "HostStackLayout_pProcessNestData (VpBlocks s a) = n"
    and n: "n \<noteq> 0" "n \<in> Pool s" and a: "a \<in> Pool s" "a \<noteq> n"
    and d: "cpuid_labels_distinct D"
    and dpl: "SEGMENT_ATTRIBUTE_Dpl D (kernel_SsAttrib V) = DPL_SYSTEM D"
  shows "\<exists>b msr. SvDevirtualizeProcessor D V H True s =
           Inr (STATUS_SUCCESS,
                s\<lparr>VpBlocks := (VpBlocks s)(a := b),
                  CpuMsr := (CpuMsr s)(current_processor s := msr),
                  Virtualized := (Virtualized s)(current_processor s := None),
                  Unloaded := Unloaded s @ [current_processor s],
                  sharedVpData_local := sh,
                  Pool := Pool s - {n} - {a}\<rparr>)"
proof -
  from execute_cpuid_unload [OF v m d dpl, of H] obtain b2 msr rbx where
    e: "execute_cpuid D V H (CPUID_UNLOAD_SIMPLE_SVM D) (CPUID_UNLOAD_SIMPLE_SVM D) s =
            Inr ((ucast (VpData (VpBlocks s a) AND 0xFFFFFFFF), rbx, multichar ''JSVM'',
                  ucast (drop_bit 32 (VpData (VpBlocks s a)))),
                 s\<lparr>VpBlocks := (VpBlocks s)(a := b2),
                   CpuMsr := (CpuMsr s)(current_processor s := msr),
                   Virtualized := (Virtualized s)(current_processor s := None),
                   Unloaded := Unloaded s @ [current_processor s]\<rparr>)"
    and l: "same_layout (VpBlocks s a) b2"
    by blast
  have l2: "HostStackLayout_SharedVpData b2 = sh" "HostStackLayout_pProcessNestData b2 = n"
    using l blk by (simp_all add: same_layout_def)
  show ?thesis
    apply (rule exI [of _ "b2\<lparr>HostStackLayout_pProcessNestData := 0\<rparr>"])
    apply (rule exI [of _ msr])
    using n a
    apply (simp add: SvDevirtualizeProcessor_def e blk(1) decode_vpData Let_def l2
        SvFreePageAlingedPhysicalMemory_def)
    done
qed

lemma callback_on_system:
  "callback_on_index (system_kernel V) cb ctx i t =
     (case cb ctx (t\<lparr>Thread := affinity_of_index V i\<rparr>) of
        Inl f \<Rightarrow> Inl f
      | Inr (st, t') \<Rightarrow> Inr (st, t'\<lparr>Thread := Thread t\<rparr>))"
  by (simp add: callback_on_index_def run_on_processor_def system_kernel_def
      affinity_of_index_def Let_def split: sum.splits prod.splits)

lemma current_processor_on_index [simp]:
  "current_processor (t\<lparr>Thread := affinity_of_index V i\<rparr>) = processor_of_index V i"
  by (simp add: current_processor_def affinity_of_index_def processor_of_index_def Let_def)

lemma plain_hardwareD:
  "plain_hardware D V \<Longrightarrow> i < ActiveProcessorCount V \<Longrightarrow>
     \<not> IsInstalled_on (hardware_cpuid V (processor_of_index V i)
                        (CPUID_HV_VENDOR_AND_MAX_FUNCTIONS D) 0)
   \<and> fst (snd (snd (hardware_cpuid V (processor_of_index V i)
                      (CPUID_UNLOAD_SIMPLE_SVM D) (CPUID_UNLOAD_SIMPLE_SVM D))))
        \<noteq> multichar ''JSVM''"
  by (simp add: plain_hardware_def list_all_iff)

lemma processors_distinctD:
  "processors_distinct V \<Longrightarrow> i < ActiveProcessorCount V \<Longrightarrow> j < ActiveProcessorCount V \<Longrightarrow>
   processor_of_index V i = processor_of_index V j \<Longrightarrow> i = j"
  by (simp add: processors_distinct_def distinct_map inj_on_def)

lemma nth_distinct_eq:
  "distinct L \<Longrightarrow> x < length L \<Longrightarrow> y < length L \<Longrightarrow> L ! x = L ! y \<longleftrightarrow> x = y"
  by (simp add: nth_eq_iff_index_eq)

lemma drop_two:
  "2 * i + 1 < length L \<Longrightarrow> drop (2 * i) L = L ! (2 * i) # L ! (2 * i + 1) # drop (2 * Suc i) L"
  by (metis Cons_nth_drop_Suc Suc_eq_plus1 Suc_lessD mult_Suc_right add_2_eq_Suc)

lemma range_two: "{2 * lo ..< 2 * Suc i} = (if lo \<le> i then insert (2 * i) (insert (2 * i + 1) {2 * lo ..< 2 * i}) else {})"
  by auto


lemma lifecycle_invD:
  assumes "lifecycle_inv V s0 shared m L lo hi t"
  shows "Thread t = Thread s0"
    and "\<And>j. j < ActiveProcessorCount V \<Longrightarrow> Virtualized t (processor_of_index V j)
           = (if lo \<le> j \<and> j < hi then Some (L ! (2 * j)) else None)"
    and "\<And>q. q \<notin> processor_of_index V ` {..< ActiveProcessorCount V} \<Longrightarrow> Virtualized t q = None"
    and "\<And>j. lo \<le> j \<Longrightarrow> j < hi \<Longrightarrow> VpData (VpBlocks t (L ! (2 * j))) = L ! (2 * j)
       \<and> HostStackLayout_SharedVpData (VpBlocks t (L ! (2 * j))) = shared
       \<and> HostStackLayout_pProcessNestData (VpBlocks t (L ! (2 * j))) = L ! (2 * j + 1)
       \<and> pProcessNestData_CpuMode (VpBlocks t (L ! (2 * j))) \<noteq> VmxMode"
    and "Pool t = Pool s0 \<union> {shared} \<union> (\<lambda>x. L ! x) ` {2 * lo ..< 2 * hi}"
    and "Contiguous t = insert m (Contiguous s0)"
    and "MsrPermissionsMap (SharedBlocks t shared) = m"
    and "Launched t = Launched s0 @ map (processor_of_index V) [0 ..< hi]"
    and "Unloaded t = Unloaded s0 @ map (processor_of_index V) [0 ..< lo]"
  using assms unfolding lifecycle_inv_def by blast+

lemma lifecycle_invI:
  assumes "Thread t = Thread s0"
    and "\<And>j. j < ActiveProcessorCount V \<Longrightarrow> Virtualized t (processor_of_index V j)
           = (if lo \<le> j \<and> j < hi then Some (L ! (2 * j)) else None)"
    and "\<And>q. q \<notin> processor_of_index V ` {..< ActiveProcessorCount V} \<Longrightarrow> Virtualized t q = None"
    and "\<And>j. lo \<le> j \<Longrightarrow> j < hi \<Longrightarrow> VpData (VpBlocks t (L ! (2 * j))) = L ! (2 * j)
       \<and> HostStackLayout_SharedVpData (VpBlocks t (L ! (2 * j))) = shared
       \<and> HostStackLayout_pProcessNestData (VpBlocks t (L ! (2 * j))) = L ! (2 * j + 1)
       \<and> pProcessNestData_CpuMode (VpBlocks t (L ! (2 * j))) \<noteq> VmxMode"
    and "Pool t = Pool s0 \<union> {shared} \<union> (\<lambda>x. L ! x) ` {2 * lo ..< 2 * hi}"
    and "Contiguous t = insert m (Contiguous s0)"
    and "MsrPermissionsMap (SharedBlocks t shared) = m"
    and "Launched t = Launched s0 @ map (processor_of_index V) [0 ..< hi]"
    and "Unloaded t = Unloaded s0 @ map (processor_of_index V) [0 ..< lo]"
  shows "lifecycle_inv V s0 shared m L lo hi t"
  unfolding lifecycle_inv_def using assms by blast

lemma virtualize_step:
  assumes inv: "lifecycle_inv V s0 shared m L 0 i t"
    and sup: "PoolSupply t = drop (2 * i) L @ tail"
    and len: "2 * i + 1 < length L" and bound: "i < ActiveProcessorCount V"
    and sh: "shared \<noteq> 0" and nz: "0 \<notin> set L" and dist: "distinct (shared # L)"
    and hw: "plain_hardware D V" and pd: "processors_distinct V"
    and d: "cpuid_labels_distinct D"
  shows "\<exists>t'. callback_on_index (system_kernel V) (SvVirtualizeProcessor D V H) shared i t
                 = Inr (STATUS_SUCCESS, t')
             \<and> lifecycle_inv V s0 shared m L 0 (Suc i) t'
             \<and> PoolSupply t' = drop (2 * Suc i) L @ tail"
proof -
  define t1 where "t1 = t\<lparr>Thread := affinity_of_index V i\<rparr>"
  define a where "a = L ! (2 * i)"
  define n where "n = L ! (2 * i + 1)"
  define p where "p = processor_of_index V i"
  have cp: "current_processor t1 = p" by (simp add: t1_def p_def)
  have sup1: "PoolSupply t1 = a # n # (drop (2 * Suc i) L @ tail)"
    using sup drop_two [OF len] by (simp add: t1_def a_def n_def)
  have mem: "a \<in> set L" "n \<in> set L" using len by (simp_all add: a_def n_def)
  have anz: "a \<noteq> 0" "n \<noteq> 0" using mem nz by metis+
  have dL: "distinct L" using dist by simp
  have an: "a \<noteq> n" unfolding a_def n_def using nth_distinct_eq [OF dL, of "2 * i" "2 * i + 1"] len
    by simp
  have ash: "a \<noteq> shared" "n \<noteq> shared" using mem dist by auto
  have old: "\<And>j. j < i \<Longrightarrow> L ! (2 * j) \<noteq> a \<and> L ! (2 * j) \<noteq> n"
  proof -
    fix j assume "j < i"
    then show "L ! (2 * j) \<noteq> a \<and> L ! (2 * j) \<noteq> n"
      unfolding a_def n_def
      using nth_distinct_eq [OF dL, of "2 * j" "2 * i"]
        nth_distinct_eq [OF dL, of "2 * j" "2 * i + 1"] len by simp
  qed
  note I = lifecycle_invD [OF inv]
  have v: "Virtualized t1 (current_processor t1) = None"
    using I(2) [OF bound] by (simp add: cp) (simp add: t1_def p_def)
  have h: "\<not> IsInstalled_on (hardware_cpuid V (current_processor t1)
                                  (CPUID_HV_VENDOR_AND_MAX_FUNCTIONS D) 0)"
    using plain_hardwareD [OF hw bound] by (simp add: cp p_def)
  from SvVirtualizeProcessor_launches [OF sh sup1 anz an v h d, of H]
  obtain b msr where r: "SvVirtualizeProcessor D V H shared t1 =
           Inr (STATUS_SUCCESS,
                t1\<lparr>PoolSupply := drop (2 * Suc i) L @ tail,
                  Pool := insert n (insert a (Pool t1)),
                  PoolAllocations := PoolAllocations t1 + 2,
                  VpBlocks := (VpBlocks t1)(n := zero_VIRTUAL_PROCESSOR_DATA n, a := b),
                  SharedBlocks := (SharedBlocks t1)(a := zero_SHARED_VIRTUAL_PROCESSOR_DATA,
                                                   n := zero_SHARED_VIRTUAL_PROCESSOR_DATA),
                  CpuMsr := (CpuMsr t1)(current_processor t1 := msr),
                  Virtualized := (Virtualized t1)(current_processor t1 := Some a),
                  Launched := Launched t1 @ [current_processor t1]\<rparr>)"
    and b: "VpData b = a" "HostStackLayout_SharedVpData b = shared"
      "HostStackLayout_pProcessNestData b = n" "pProcessNestData_CpuMode b = ProtectedMode"
    by blast
  define t' where "t' = t\<lparr>PoolSupply := drop (2 * Suc i) L @ tail,
                  Pool := insert n (insert a (Pool t)),
                  PoolAllocations := PoolAllocations t + 2,
                  VpBlocks := (VpBlocks t)(n := zero_VIRTUAL_PROCESSOR_DATA n, a := b),
                  SharedBlocks := (SharedBlocks t)(a := zero_SHARED_VIRTUAL_PROCESSOR_DATA,
                                                   n := zero_SHARED_VIRTUAL_PROCESSOR_DATA),
                  CpuMsr := (CpuMsr t)(p := msr),
                  Virtualized := (Virtualized t)(p := Some a),
                  Launched := Launched t @ [p]\<rparr>"
  have res: "callback_on_index (system_kernel V) (SvVirtualizeProcessor D V H) shared i t
                 = Inr (STATUS_SUCCESS, t')"
    unfolding callback_on_system t1_def [symmetric] r
    by (simp add: cp) (simp add: t1_def t'_def)
  have virt: "\<And>j. j < ActiveProcessorCount V \<Longrightarrow> Virtualized t' (processor_of_index V j)
           = (if j < Suc i then Some (L ! (2 * j)) else None)"
  proof -
    fix j assume j: "j < ActiveProcessorCount V"
    show "Virtualized t' (processor_of_index V j)
           = (if j < Suc i then Some (L ! (2 * j)) else None)"
    proof (cases "j = i")
      case True
      then show ?thesis by (simp add: t'_def p_def a_def)
    next
      case False
      then have "processor_of_index V j \<noteq> p"
        using processors_distinctD [OF pd j bound] by (auto simp: p_def)
      with False show ?thesis using I(2) [OF j] by (simp add: t'_def)
    qed
  qed
  have other: "\<And>q. q \<notin> processor_of_index V ` {..< ActiveProcessorCount V} \<Longrightarrow> Virtualized t' q = None"
  proof -
    fix q assume q: "q \<notin> processor_of_index V ` {..< ActiveProcessorCount V}"
    then have "q \<noteq> p" using bound by (auto simp: p_def)
    then show "Virtualized t' q = None" using I(3) [OF q] by (simp add: t'_def)
  qed
  have blocks: "\<And>j. j < Suc i \<Longrightarrow> VpData (VpBlocks t' (L ! (2 * j))) = L ! (2 * j)
       \<and> HostStackLayout_SharedVpData (VpBlocks t' (L ! (2 * j))) = shared
       \<and> HostStackLayout_pProcessNestData (VpBlocks t' (L ! (2 * j))) = L ! (2 * j + 1)
       \<and> pProcessNestData_CpuMode (VpBlocks t' (L ! (2 * j))) \<noteq> VmxMode"
  proof -
    fix j assume j: "j < Suc i"
    show "VpData (VpBlocks t' (L ! (2 * j))) = L ! (2 * j)
       \<and> HostStackLayout_SharedVpData (VpBlocks t' (L ! (2 * j))) = shared
       \<and> HostStackLayout_pProcessNestData (VpBlocks t' (L ! (2 * j))) = L ! (2 * j + 1)
       \<and> pProcessNestData_CpuMode (VpBlocks t' (L ! (2 * j))) \<noteq> VmxMode"
    proof (cases "j = i")
      case True
      then show ?thesis using b by (simp add: t'_def) (simp add: a_def n_def)
    next
      case False
      with j have ji: "j < i" by simp
      from old [OF ji] I(4) [OF _ ji] show ?thesis by (simp add: t'_def)
    qed
  qed
  have pool: "Pool t' = Pool s0 \<union> {shared} \<union> (\<lambda>x. L ! x) ` {0 ..< 2 * Suc i}"
    using range_two [of 0 i] I(5) by (simp add: t'_def a_def n_def) blast
  have "lifecycle_inv V s0 shared m L 0 (Suc i) t'"
  proof (rule lifecycle_invI)
    show "Thread t' = Thread s0" using I(1) by (simp add: t'_def)
    show "\<And>j. j < ActiveProcessorCount V \<Longrightarrow> Virtualized t' (processor_of_index V j) =
        (if 0 \<le> j \<and> j < Suc i then Some (L ! (2 * j)) else None)"
      using virt by simp
    show "\<And>q. q \<notin> processor_of_index V ` {..<ActiveProcessorCount V} \<Longrightarrow> Virtualized t' q = None"
      using other by blast
    show "\<And>j. 0 \<le> j \<Longrightarrow> j < Suc i \<Longrightarrow>
        VpData (VpBlocks t' (L ! (2 * j))) = L ! (2 * j) \<and>
        HostStackLayout_SharedVpData (VpBlocks t' (L ! (2 * j))) = shared \<and>
        HostStackLayout_pProcessNestData (VpBlocks t' (L ! (2 * j))) = L ! (2 * j + 1) \<and>
        pProcessNestData_CpuMode (VpBlocks t' (L ! (2 * j))) \<noteq> VmxMode"
      using blocks by blast
    show "Pool t' = Pool s0 \<union> {shared} \<union> (!) L ` {2 * 0..<2 * Suc i}"
      using pool by simp
    show "Contiguous t' = insert m (Contiguous s0)" using I(6) by (simp add: t'_def)
    show "MsrPermissionsMap (SharedBlocks t' shared) = m"
      using I(7) ash by (simp add: t'_def)
    show "Launched t' = Launched s0 @ map (processor_of_index V) [0..<Suc i]"
      using I(8) by (simp add: t'_def p_def)
    show "Unloaded t' = Unloaded s0 @ map (processor_of_index V) [0..<0]"
      using I(9) by (simp add: t'_def)
  qed
  moreover have "PoolSupply t' = drop (2 * Suc i) L @ tail" by (simp add: t'_def)
  ultimately show ?thesis using res by blast
qed


lemma virtualize_prefix:
  assumes inv: "lifecycle_inv V s0 shared m L 0 0 s6"
    and sup: "PoolSupply s6 = L @ tail"
    and len: "length L = 2 * k" and bound: "k \<le> ActiveProcessorCount V"
    and sh: "shared \<noteq> 0" and nz: "0 \<notin> set L" and dist: "distinct (shared # L)"
    and hw: "plain_hardware D V" and pd: "processors_distinct V"
    and d: "cpuid_labels_distinct D"
  shows "i \<le> k \<Longrightarrow>
         \<exists>t. succeeded_through (system_kernel V) (SvVirtualizeProcessor D V H) shared i s6 = Some t
            \<and> lifecycle_inv V s0 shared m L 0 i t
            \<and> PoolSupply t = drop (2 * i) L @ tail"
proof (induction i)
  case 0
  then show ?case using inv sup by simp
next
  case (Suc i)
  then obtain t where t: "succeeded_through (system_kernel V) (SvVirtualizeProcessor D V H)
                            shared i s6 = Some t"
    "lifecycle_inv V s0 shared m L 0 i t" "PoolSupply t = drop (2 * i) L @ tail"
    by auto
  have l: "2 * i + 1 < length L" using Suc.prems len by simp
  have b: "i < ActiveProcessorCount V" using Suc.prems bound by simp
  from virtualize_step [OF t(2) t(3) l b sh nz dist hw pd d, of H]
  obtain t' where t': "callback_on_index (system_kernel V) (SvVirtualizeProcessor D V H) shared i t
                 = Inr (STATUS_SUCCESS, t')"
    "lifecycle_inv V s0 shared m L 0 (Suc i) t'" "PoolSupply t' = drop (2 * Suc i) L @ tail"
    by blast
  have "succeeded_through (system_kernel V) (SvVirtualizeProcessor D V H) shared (Suc i) s6
          = Some t'"
    using t(1) t'(1) by (simp add: STATUS_SUCCESS_def NT_SUCCESS_def)
  with t'(2,3) show ?case by blast
qed

lemma failure_step:
  assumes inv: "lifecycle_inv V s0 shared m L 0 k t"
    and sup: "PoolSupply t = tail"
    and len: "length L = 2 * k"
    and sh: "shared \<noteq> 0"
    and f: "allocation_fails_next tail"
    and fresh: "set (take 1 tail) \<inter> (Pool s0 \<union> {shared} \<union> set L) = {}"
  shows "\<exists>t'. callback_on_index (system_kernel V) (SvVirtualizeProcessor D V H) shared k t
                 = Inr (STATUS_INSUFFICIENT_RESOURCES, t')
             \<and> lifecycle_inv V s0 shared m L 0 k t'"
proof -
  note I = lifecycle_invD [OF inv]
  define t1 where "t1 = t\<lparr>Thread := affinity_of_index V k\<rparr>"
  have f1: "allocation_fails_next (PoolSupply t1)" using f sup by (simp add: t1_def)
  have img: "(\<lambda>x. L ! x) ` {2 * 0 ..< 2 * k} \<subseteq> set L" using len by auto
  have fr1: "set (take 1 (PoolSupply t1)) \<inter> Pool t1 = {}"
    using fresh I(5) img sup by (simp add: t1_def) blast
  from SvVirtualizeProcessor_fails [OF sh f1 fr1, of D V H]
  obtain s' where r: "SvVirtualizeProcessor D V H shared t1 = Inr (STATUS_INSUFFICIENT_RESOURCES, s')"
    and fr: "Thread s' = Thread t1" "Virtualized s' = Virtualized t1" "Pool s' = Pool t1"
      "Contiguous s' = Contiguous t1" "Launched s' = Launched t1" "Unloaded s' = Unloaded t1"
      "sharedVpData_local s' = sharedVpData_local t1"
      "\<And>b. b \<notin> set (take 1 (PoolSupply t1)) \<Longrightarrow>
            VpBlocks s' b = VpBlocks t1 b \<and> SharedBlocks s' b = SharedBlocks t1 b"
    by blast
  define t' where "t' = s'\<lparr>Thread := Thread t\<rparr>"
  have res: "callback_on_index (system_kernel V) (SvVirtualizeProcessor D V H) shared k t
                 = Inr (STATUS_INSUFFICIENT_RESOURCES, t')"
    unfolding callback_on_system t1_def [symmetric] r by (simp add: t'_def)
  have nin: "\<And>x. x \<in> set L \<or> x = shared \<Longrightarrow> x \<notin> set (take 1 (PoolSupply t1))"
    using fresh sup by (auto simp: t1_def)
  have "lifecycle_inv V s0 shared m L 0 k t'"
  proof (rule lifecycle_invI)
    show "Thread t' = Thread s0" using I(1) by (simp add: t'_def)
    show "\<And>j. j < ActiveProcessorCount V \<Longrightarrow> Virtualized t' (processor_of_index V j) =
        (if 0 \<le> j \<and> j < k then Some (L ! (2 * j)) else None)"
      using I(2) fr(2) by (simp add: t'_def t1_def)
    show "\<And>q. q \<notin> processor_of_index V ` {..<ActiveProcessorCount V} \<Longrightarrow> Virtualized t' q = None"
      using I(3) fr(2) by (simp add: t'_def t1_def)
    show "\<And>j. 0 \<le> j \<Longrightarrow> j < k \<Longrightarrow>
        VpData (VpBlocks t' (L ! (2 * j))) = L ! (2 * j) \<and>
        HostStackLayout_SharedVpData (VpBlocks t' (L ! (2 * j))) = shared \<and>
        HostStackLayout_pProcessNestData (VpBlocks t' (L ! (2 * j))) = L ! (2 * j + 1) \<and>
        pProcessNestData_CpuMode (VpBlocks t' (L ! (2 * j))) \<noteq> VmxMode"
    proof -
      fix j :: nat assume j: "0 \<le> j" "j < k"
      then have "L ! (2 * j) \<in> set L" using len by simp
      then have "VpBlocks s' (L ! (2 * j)) = VpBlocks t (L ! (2 * j))"
        using fr(8) nin by (simp add: t1_def)
      then show "VpData (VpBlocks t' (L ! (2 * j))) = L ! (2 * j) \<and>
        HostStackLayout_SharedVpData (VpBlocks t' (L ! (2 * j))) = shared \<and>
        HostStackLayout_pProcessNestData (VpBlocks t' (L ! (2 * j))) = L ! (2 * j + 1) \<and>
        pProcessNestData_CpuMode (VpBlocks t' (L ! (2 * j))) \<noteq> VmxMode"
        using I(4) [OF j] by (simp add: t'_def)
    qed
    show "Pool t' = Pool s0 \<union> {shared} \<union> (!) L ` {2 * 0..<2 * k}"
      using I(5) fr(3) by (simp add: t'_def t1_def)
    show "Contiguous t' = insert m (Contiguous s0)" using I(6) fr(4) by (simp add: t'_def t1_def)
    have "SharedBlocks s' shared = SharedBlocks t shared"
      using fr(8) nin by (simp add: t1_def)
    then show "MsrPermissionsMap (SharedBlocks t' shared) = m"
      using I(7) by (simp add: t'_def)
    show "Launched t' = Launched s0 @ map (processor_of_index V) [0..<k]"
      using I(8) fr(5) by (simp add: t'_def t1_def)
    show "Unloaded t' = Unloaded s0 @ map (processor_of_index V) [0..<0]"
      using I(9) fr(6) by (simp add: t'_def t1_def)
  qed
  with res show ?thesis by blast
qed


lemma range_drop_two:
  "i < k \<Longrightarrow> {2 * i ..< 2 * k} = insert (2 * i) (insert (2 * i + 1) {2 * Suc i ..< 2 * k})"
  by auto

lemma devirtualize_step_virtualized:
  assumes inv: "lifecycle_inv V s0 shared m L i k t"
    and ik: "i < k"
    and len: "length L = 2 * k" and bound: "k \<le> ActiveProcessorCount V"
    and nz: "0 \<notin> set L" and dist: "distinct (shared # L)"
    and fresh: "set (shared # L) \<inter> Pool s0 = {}"
    and pd: "processors_distinct V"
    and d: "cpuid_labels_distinct D"
    and dpl: "SEGMENT_ATTRIBUTE_Dpl D (kernel_SsAttrib V) = DPL_SYSTEM D"
  shows "\<exists>t'. callback_on_index (system_kernel V) (SvDevirtualizeProcessor D V H) True i t
                 = Inr (STATUS_SUCCESS, t')
             \<and> lifecycle_inv V s0 shared m L (Suc i) k t'
             \<and> sharedVpData_local t' = shared"
proof -
  note I = lifecycle_invD [OF inv]
  define t1 where "t1 = t\<lparr>Thread := affinity_of_index V i\<rparr>"
  define a where "a = L ! (2 * i)"
  define n where "n = L ! (2 * i + 1)"
  define p where "p = processor_of_index V i"
  have bi: "i < ActiveProcessorCount V" using ik bound by simp
  have cp: "current_processor t1 = p" by (simp add: t1_def p_def)
  have l: "2 * i + 1 < length L" using ik len by simp
  have mem: "a \<in> set L" "n \<in> set L" using l by (simp_all add: a_def n_def)
  have anz: "n \<noteq> 0" using mem nz by metis
  have dL: "distinct L" using dist by simp
  have an: "a \<noteq> n" unfolding a_def n_def using nth_distinct_eq [OF dL, of "2 * i" "2 * i + 1"] l
    by simp
  have ash: "a \<noteq> shared" "n \<noteq> shared" using mem dist by auto
  have as0: "a \<notin> Pool s0" "n \<notin> Pool s0" "shared \<notin> Pool s0" using mem fresh by auto
  have later: "\<And>x. 2 * Suc i \<le> x \<Longrightarrow> x < 2 * k \<Longrightarrow> L ! x \<noteq> a \<and> L ! x \<noteq> n"
  proof -
    fix x assume "2 * Suc i \<le> x" "x < 2 * k"
    then show "L ! x \<noteq> a \<and> L ! x \<noteq> n"
      unfolding a_def n_def
      using nth_distinct_eq [OF dL, of x "2 * i"]
        nth_distinct_eq [OF dL, of x "2 * i + 1"] l len by simp
  qed
  have v: "Virtualized t1 (current_processor t1) = Some a"
    using I(2) [OF bi] ik by (simp add: cp) (simp add: t1_def p_def a_def)
  have blk0: "VpData (VpBlocks t a) = a \<and> HostStackLayout_SharedVpData (VpBlocks t a) = shared
       \<and> HostStackLayout_pProcessNestData (VpBlocks t a) = n
       \<and> pProcessNestData_CpuMode (VpBlocks t a) \<noteq> VmxMode"
    using I(4) [of i] ik by (simp add: a_def n_def)
  have blk: "pProcessNestData_CpuMode (VpBlocks t1 a) \<noteq> VmxMode"
    "VpData (VpBlocks t1 a) = a" "HostStackLayout_SharedVpData (VpBlocks t1 a) = shared"
    "HostStackLayout_pProcessNestData (VpBlocks t1 a) = n"
    using blk0 by (simp_all add: t1_def)
  have inpool: "n \<in> Pool t1" "a \<in> Pool t1"
    using I(5) range_drop_two [OF ik] by (simp_all add: t1_def a_def n_def)
  from SvDevirtualizeProcessor_virtualized [OF v blk anz inpool an d dpl, of H]
  obtain b msr where r: "SvDevirtualizeProcessor D V H True t1 =
           Inr (STATUS_SUCCESS,
                t1\<lparr>VpBlocks := (VpBlocks t1)(a := b),
                  CpuMsr := (CpuMsr t1)(current_processor t1 := msr),
                  Virtualized := (Virtualized t1)(current_processor t1 := None),
                  Unloaded := Unloaded t1 @ [current_processor t1],
                  sharedVpData_local := shared,
                  Pool := Pool t1 - {n} - {a}\<rparr>)"
    by blast
  define t' where "t' = t\<lparr>VpBlocks := (VpBlocks t)(a := b),
                  CpuMsr := (CpuMsr t)(p := msr),
                  Virtualized := (Virtualized t)(p := None),
                  Unloaded := Unloaded t @ [p],
                  sharedVpData_local := shared,
                  Pool := Pool t - {n} - {a}\<rparr>"
  have res: "callback_on_index (system_kernel V) (SvDevirtualizeProcessor D V H) True i t
                 = Inr (STATUS_SUCCESS, t')"
    unfolding callback_on_system t1_def [symmetric] r
    by (simp add: cp) (simp add: t1_def t'_def)
  have "lifecycle_inv V s0 shared m L (Suc i) k t'"
  proof (rule lifecycle_invI)
    show "Thread t' = Thread s0" using I(1) by (simp add: t'_def)
    show "\<And>j. j < ActiveProcessorCount V \<Longrightarrow> Virtualized t' (processor_of_index V j) =
        (if Suc i \<le> j \<and> j < k then Some (L ! (2 * j)) else None)"
    proof -
      fix j assume j: "j < ActiveProcessorCount V"
      show "Virtualized t' (processor_of_index V j) =
        (if Suc i \<le> j \<and> j < k then Some (L ! (2 * j)) else None)"
      proof (cases "j = i")
        case True
        then show ?thesis by (simp add: t'_def p_def)
      next
        case False
        then have "processor_of_index V j \<noteq> p"
          using processors_distinctD [OF pd j bi] by (auto simp: p_def)
        with False show ?thesis using I(2) [OF j] by (auto simp: t'_def)
      qed
    qed
    show "\<And>q. q \<notin> processor_of_index V ` {..<ActiveProcessorCount V} \<Longrightarrow> Virtualized t' q = None"
      using I(3) by (simp add: t'_def)
    show "\<And>j. Suc i \<le> j \<Longrightarrow> j < k \<Longrightarrow>
        VpData (VpBlocks t' (L ! (2 * j))) = L ! (2 * j) \<and>
        HostStackLayout_SharedVpData (VpBlocks t' (L ! (2 * j))) = shared \<and>
        HostStackLayout_pProcessNestData (VpBlocks t' (L ! (2 * j))) = L ! (2 * j + 1) \<and>
        pProcessNestData_CpuMode (VpBlocks t' (L ! (2 * j))) \<noteq> VmxMode"
    proof -
      fix j assume j: "Suc i \<le> j" "j < k"
      then have "L ! (2 * j) \<noteq> a" using later [of "2 * j"] by simp
      then show "VpData (VpBlocks t' (L ! (2 * j))) = L ! (2 * j) \<and>
        HostStackLayout_SharedVpData (VpBlocks t' (L ! (2 * j))) = shared \<and>
        HostStackLayout_pProcessNestData (VpBlocks t' (L ! (2 * j))) = L ! (2 * j + 1) \<and>
        pProcessNestData_CpuMode (VpBlocks t' (L ! (2 * j))) \<noteq> VmxMode"
        using I(4) [of j] j by (simp add: t'_def)
    qed
    define R where "R = (!) L ` {2 * Suc i..<2 * k}"
    have img: "(!) L ` {2 * i..<2 * k} = insert a (insert n R)"
      unfolding range_drop_two [OF ik] R_def a_def n_def by simp
    have "\<And>x. x \<in> {2 * Suc i..<2 * k} \<Longrightarrow> L ! x \<noteq> a \<and> L ! x \<noteq> n"
      using later by simp
    then have nR: "a \<notin> R" "n \<notin> R" unfolding R_def by blast+
    have "(Pool s0 \<union> {shared} \<union> (!) L ` {2 * i..<2 * k}) - {n} - {a}
            = Pool s0 \<union> {shared} \<union> (!) L ` {2 * Suc i..<2 * k}"
      unfolding img R_def [symmetric] using nR as0 ash by blast
    then show "Pool t' = Pool s0 \<union> {shared} \<union> (!) L ` {2 * Suc i..<2 * k}"
      using I(5) by (simp add: t'_def)
    show "Contiguous t' = insert m (Contiguous s0)" using I(6) by (simp add: t'_def)
    show "MsrPermissionsMap (SharedBlocks t' shared) = m"
      using I(7) by (simp add: t'_def)
    show "Launched t' = Launched s0 @ map (processor_of_index V) [0..<k]"
      using I(8) by (simp add: t'_def)
    show "Unloaded t' = Unloaded s0 @ map (processor_of_index V) [0..<Suc i]"
      using I(9) by (simp add: t'_def p_def)
  qed
  moreover have "sharedVpData_local t' = shared" by (simp add: t'_def)
  ultimately show ?thesis using res by blast
qed

lemma devirtualize_step_plain:
  assumes inv: "lifecycle_inv V s0 shared m L k k t"
    and ik: "k \<le> i" and bi: "i < ActiveProcessorCount V"
    and hw: "plain_hardware D V"
  shows "callback_on_index (system_kernel V) (SvDevirtualizeProcessor D V H) True i t
                 = Inr (STATUS_SUCCESS, t)"
proof -
  note I = lifecycle_invD [OF inv]
  define t1 where "t1 = t\<lparr>Thread := affinity_of_index V i\<rparr>"
  have v: "Virtualized t1 (current_processor t1) = None"
    using I(2) [OF bi] by (simp add: t1_def)
  have h: "fst (snd (snd (hardware_cpuid V (current_processor t1) (CPUID_UNLOAD_SIMPLE_SVM D)
                          (CPUID_UNLOAD_SIMPLE_SVM D)))) \<noteq> multichar ''JSVM''"
    using plain_hardwareD [OF hw bi] by (simp add: t1_def)
  show ?thesis
    unfolding callback_on_system t1_def [symmetric]
      SvDevirtualizeProcessor_not_virtualized [OF v h]
    by (simp add: t1_def)
qed


lemma devirtualize_prefix:
  assumes inv: "lifecycle_inv V s0 shared m L 0 k u0"
    and k: "0 < k"
    and len: "length L = 2 * k" and bound: "k \<le> ActiveProcessorCount V"
    and nz: "0 \<notin> set L" and dist: "distinct (shared # L)"
    and fresh: "set (shared # L) \<inter> Pool s0 = {}"
    and hw: "plain_hardware D V" and pd: "processors_distinct V"
    and d: "cpuid_labels_distinct D"
    and dpl: "SEGMENT_ATTRIBUTE_Dpl D (kernel_SsAttrib V) = DPL_SYSTEM D"
  shows "i \<le> ActiveProcessorCount V \<Longrightarrow>
         \<exists>u. succeeded_through (system_kernel V) (SvDevirtualizeProcessor D V H) True i u0 = Some u
            \<and> lifecycle_inv V s0 shared m L (min i k) k u
            \<and> (0 < i \<longrightarrow> sharedVpData_local u = shared)"
proof (induction i)
  case 0
  then show ?case using inv by simp
next
  case (Suc i)
  then obtain u where u: "succeeded_through (system_kernel V) (SvDevirtualizeProcessor D V H)
                            True i u0 = Some u"
    "lifecycle_inv V s0 shared m L (min i k) k u" "0 < i \<longrightarrow> sharedVpData_local u = shared"
    by auto
  have bi: "i < ActiveProcessorCount V" using Suc.prems by simp
  show ?case
  proof (cases "i < k")
    case True
    then have "min i k = i" by simp
    then have "lifecycle_inv V s0 shared m L i k u" using u(2) by simp
    from devirtualize_step_virtualized [OF this True len bound nz dist fresh pd d dpl, of H]
    obtain u' where u': "callback_on_index (system_kernel V) (SvDevirtualizeProcessor D V H) True i u
                 = Inr (STATUS_SUCCESS, u')"
      "lifecycle_inv V s0 shared m L (Suc i) k u'" "sharedVpData_local u' = shared"
      by blast
    have "succeeded_through (system_kernel V) (SvDevirtualizeProcessor D V H) True (Suc i) u0
            = Some u'"
      using u(1) u'(1) by (simp add: STATUS_SUCCESS_def NT_SUCCESS_def)
    moreover have "min (Suc i) k = Suc i" using True by simp
    ultimately show ?thesis using u'(2,3) by simp
  next
    case False
    then have ki: "k \<le> i" by simp
    then have "min i k = k" by simp
    then have i: "lifecycle_inv V s0 shared m L k k u" using u(2) by simp
    have "succeeded_through (system_kernel V) (SvDevirtualizeProcessor D V H) True (Suc i) u0
            = Some u"
      using u(1) devirtualize_step_plain [OF i ki bi hw, of H]
      by (simp add: STATUS_SUCCESS_def NT_SUCCESS_def)
    moreover have "min (Suc i) k = k" using ki by simp
    moreover have "sharedVpData_local u = shared" using u(3) ki k by simp
    ultimately show ?thesis using i by simp
  qed
qed

lemma lifecycle_inv_local [simp]:
  "lifecycle_inv V s0 shared m L lo hi (t\<lparr>sharedVpData_local := x\<rparr>)
     = lifecycle_inv V s0 shared m L lo hi t"
  by (simp add: lifecycle_inv_def)

lemma SvDevirtualizeAllProcessors_rolls_back:
  assumes inv: "lifecycle_inv V s0 shared m L 0 k t"
    and k: "0 < k"
    and len: "length L = 2 * k" and bound: "k \<le> ActiveProcessorCount V"
    and sh: "shared \<noteq> 0"
    and nz: "0 \<notin> set L" and dist: "distinct (shared # L)"
    and fresh: "set (shared # L) \<inter> Pool s0 = {}"
    and mf: "m \<notin> Contiguous s0"
    and conv: "indices_convert (system_kernel V)"
    and hw: "plain_hardware D V" and pd: "processors_distinct V"
    and d: "cpuid_labels_distinct D"
    and dpl: "SEGMENT_ATTRIBUTE_Dpl D (kernel_SsAttrib V) = DPL_SYSTEM D"
  shows "\<exists>s'. SvDevirtualizeAllProcessors D V H t = Inr s'
          \<and> Thread s' = Thread s0
          \<and> (\<forall>q. Virtualized s' q = None)
          \<and> Launched s' = Launched s0 @ map (processor_of_index V) [0 ..< k]
          \<and> Unloaded s' = Unloaded s0 @ map (processor_of_index V) [0 ..< k]
          \<and> Pool s' = Pool s0 \<and> Contiguous s' = Contiguous s0"
proof -
  define N where "N = ActiveProcessorCount V"
  define u0 where "u0 = t\<lparr>sharedVpData_local := 0\<rparr>"
  have inv0: "lifecycle_inv V s0 shared m L 0 k u0" using inv by (simp add: u0_def)
  have N: "N = KeQueryActiveProcessorCountEx (system_kernel V)"
    by (simp add: N_def system_kernel_def)
  from devirtualize_prefix [OF inv0 k len bound nz dist fresh hw pd d dpl, of N H]
  obtain u where u: "succeeded_through (system_kernel V) (SvDevirtualizeProcessor D V H) True N u0
                       = Some u"
    "lifecycle_inv V s0 shared m L (min N k) k u" "0 < N \<longrightarrow> sharedVpData_local u = shared"
    by (auto simp: N_def)
  have mn: "min N k = k" using bound by (simp add: N_def)
  have loc: "sharedVpData_local u = shared" using u(3) k bound by (simp add: N_def)
  note I = lifecycle_invD [OF u(2) [unfolded mn]]
  from loop_to_end [OF conv N u(1), of 0 u0 STATUS_SUCCESS]
  obtain st where l: "SvExecuteOnEachProcessor_loop (system_kernel V) (SvDevirtualizeProcessor D V H)
                        True N 0 STATUS_SUCCESS [0..<0] u0 = Inr (st, N, [0..<N], u)"
    by (auto simp: STATUS_SUCCESS_def NT_SUCCESS_def)
  define s' where "s' = u\<lparr>Contiguous := Contiguous u - {m}, Pool := Pool u - {shared}\<rparr>"
  have shp: "shared \<in> Pool u" using I(5) by simp
  have r: "SvDevirtualizeAllProcessors D V H t = Inr s'"
    using l loc sh I(6) I(7) shp
    by (simp add: SvDevirtualizeAllProcessors_def SvExecuteOnEachProcessor_def Let_def
        u0_def [symmetric] N [symmetric] SvFreeContiguousMemory_def
        SvFreePageAlingedPhysicalMemory_def s'_def)
  have virt: "\<And>q. Virtualized s' q = None"
  proof -
    fix q
    show "Virtualized s' q = None"
    proof (cases "q \<in> processor_of_index V ` {..< ActiveProcessorCount V}")
      case True
      then obtain j where "j < ActiveProcessorCount V" "q = processor_of_index V j" by auto
      then show ?thesis using I(2) [of j] by (simp add: s'_def)
    next
      case False
      then show ?thesis using I(3) by (simp add: s'_def)
    qed
  qed
  have "shared \<notin> Pool s0" using fresh by simp
  then have pool: "Pool s' = Pool s0" using I(5) by (simp add: s'_def)
  have cont: "Contiguous s' = Contiguous s0" using I(6) mf by (simp add: s'_def)
  have "Thread s' = Thread s0" using I(1) by (simp add: s'_def)
  moreover have "Launched s' = Launched s0 @ map (processor_of_index V) [0 ..< k]"
    using I(8) by (simp add: s'_def)
  moreover have "Unloaded s' = Unloaded s0 @ map (processor_of_index V) [0 ..< k]"
    using I(9) by (simp add: s'_def)
  ultimately show ?thesis using r virt pool cont by blast
qed

lemma fresh_supplyD:
  assumes "fresh_supply s shared L tail"
  shows "PoolSupply s = shared # L @ tail" "shared \<noteq> 0" "0 \<notin> set L" "distinct (shared # L)"
    "set (shared # L) \<inter> Pool s = {}"
    "set (take 1 tail) \<inter> (Pool s \<union> {shared} \<union> set L) = {}"
  using assms unfolding fresh_supply_def by auto

lemma outer_loop_MsrPermissionsMap:
  "MsrPermissionsMap (fold (outer_loop_body D A) xs s) = MsrPermissionsMap s"
  by (induction xs arbitrary: s) (simp_all add: outer_loop_body_def Let_def)

lemma SvBuildNestedPageTables_MsrPermissionsMap:
  "MsrPermissionsMap (SvBuildNestedPageTables D A s) = MsrPermissionsMap s"
  unfolding SvBuildNestedPageTables_def Let_def outer_loop_MsrPermissionsMap by simp

lemma SvVirtualizeAllProcessors_setup:
  assumes ok: "msrpm_defs_ok D"
    and sz: "unat (SVM_MSR_PERMISSIONS_MAP_SIZE D) mod 4 = 0"
    and nv: "\<forall>q. Virtualized s q = None"
    and sup: "SvIsSvmSupported D V H s = Inr (True, s)"
    and ps: "PoolSupply s = shared # rest" and sh: "shared \<noteq> 0"
    and cs: "ContiguousSupply s = m # crest" and m: "m \<noteq> 0"
  shows "\<exists>s6. SvVirtualizeAllProcessors D V H s =
           (case SvExecuteOnEachProcessor (system_kernel V)
                   (SvVirtualizeProcessor D V H) shared True s6 of
              Inl f \<Rightarrow> Inl f
            | Inr (status, numOfProcessorsCompleted, executed, s7) \<Rightarrow>
                SvVirtualizeAllProcessors_Exit D V H status shared
                  (case numOfProcessorsCompleted of None \<Rightarrow> 0 | Some n \<Rightarrow> n) s7)
         \<and> lifecycle_inv V s shared m L 0 0 s6 \<and> PoolSupply s6 = rest"
proof -
  define s2 where "s2 = s\<lparr>PoolSupply := rest, Pool := insert shared (Pool s),
                  PoolAllocations := Suc (PoolAllocations s),
                  VpBlocks := (VpBlocks s)(shared := zero_VIRTUAL_PROCESSOR_DATA shared),
                  SharedBlocks := (SharedBlocks s)(shared := zero_SHARED_VIRTUAL_PROCESSOR_DATA)\<rparr>"
  have a1: "SvAllocatePageAlingedPhysicalMemory s = (shared, s2)"
    unfolding s2_def by (rule SvAllocatePageAlingedPhysicalMemory_success [OF ps sh])
  define buf :: "UINT32 list" where "buf = replicate (unat (SVM_MSR_PERMISSIONS_MAP_SIZE D) div 4) 0"
  define s3 where "s3 = s2\<lparr>ContiguousSupply := crest, Contiguous := insert m (Contiguous s2),
                  MsrpmBlocks := (MsrpmBlocks s2)(m := buf)\<rparr>"
  have a2: "SvAllocateContiguousMemory D s2 = (m, s3)"
    using cs m by (simp add: SvAllocateContiguousMemory_def s2_def s3_def buf_def)
  define s4 where "s4 = s3\<lparr>SharedBlocks := (SharedBlocks s3)(shared :=
                               (SharedBlocks s3 shared)\<lparr>MsrPermissionsMap := m\<rparr>)\<rparr>"
  define s5 where "s5 = s4\<lparr>SharedBlocks := (SharedBlocks s4)(shared :=
                                   SvBuildNestedPageTables D
                                     (PhysicalAddresses_of_shared V shared)
                                     (SharedBlocks s4 shared))\<rparr>"
  have len: "4 * length buf = unat (SVM_MSR_PERMISSIONS_MAP_SIZE D)"
    using sz div_mult_mod_eq [of "unat (SVM_MSR_PERMISSIONS_MAP_SIZE D)" 4]
    by (simp add: buf_def)
  from SvBuildMsrPermissionsMap_bits [OF ok len]
  obtain built where b: "SvBuildMsrPermissionsMap D buf = Some built" by blast
  have b5: "SvBuildMsrPermissionsMap D (MsrpmBlocks s5 m) = Some built"
    using b by (simp add: s5_def s4_def s3_def)
  have b3: "SvBuildMsrPermissionsMap D (MsrpmBlocks s3 m) = Some built"
    using b by (simp add: s3_def)
  define s6 where "s6 = s5\<lparr>MsrpmBlocks := (MsrpmBlocks s5)(m := built)\<rparr>"
  have r: "SvVirtualizeAllProcessors D V H s =
           (case SvExecuteOnEachProcessor (system_kernel V)
                   (SvVirtualizeProcessor D V H) shared True s6 of
              Inl f \<Rightarrow> Inl f
            | Inr (status, numOfProcessorsCompleted, executed, s7) \<Rightarrow>
                SvVirtualizeAllProcessors_Exit D V H status shared
                  (case numOfProcessorsCompleted of None \<Rightarrow> 0 | Some n \<Rightarrow> n) s7)"
    unfolding SvVirtualizeAllProcessors_def sup
    by (simp add: a1 sh a2 m Let_def b3 s6_def s5_def s4_def)
  have mp: "MsrPermissionsMap (SharedBlocks s6 shared) = m"
    by (simp add: s6_def s5_def s4_def SvBuildNestedPageTables_MsrPermissionsMap)
  have nv': "\<And>q. Virtualized s q = None" using nv by blast
  have "lifecycle_inv V s shared m L 0 0 s6"
  proof (rule lifecycle_invI)
    show "Thread s6 = Thread s" by (simp add: s6_def s5_def s4_def s3_def s2_def)
    show "\<And>j. j < ActiveProcessorCount V \<Longrightarrow> Virtualized s6 (processor_of_index V j) =
        (if 0 \<le> j \<and> j < 0 then Some (L ! (2 * j)) else None)"
      by (simp add: s6_def s5_def s4_def s3_def s2_def nv')
    show "\<And>q. q \<notin> processor_of_index V ` {..<ActiveProcessorCount V} \<Longrightarrow> Virtualized s6 q = None"
      by (simp add: s6_def s5_def s4_def s3_def s2_def nv')
    show "\<And>j. 0 \<le> j \<Longrightarrow> j < 0 \<Longrightarrow>
        VpData (VpBlocks s6 (L ! (2 * j))) = L ! (2 * j) \<and>
        HostStackLayout_SharedVpData (VpBlocks s6 (L ! (2 * j))) = shared \<and>
        HostStackLayout_pProcessNestData (VpBlocks s6 (L ! (2 * j))) = L ! (2 * j + 1) \<and>
        pProcessNestData_CpuMode (VpBlocks s6 (L ! (2 * j))) \<noteq> VmxMode"
      by simp
    show "Pool s6 = Pool s \<union> {shared} \<union> (!) L ` {2 * 0..<2 * 0}"
      by (simp add: s6_def s5_def s4_def s3_def s2_def)
    show "Contiguous s6 = insert m (Contiguous s)"
      by (simp add: s6_def s5_def s4_def s3_def s2_def)
    show "MsrPermissionsMap (SharedBlocks s6 shared) = m" by (rule mp)
    show "Launched s6 = Launched s @ map (processor_of_index V) [0..<0]"
      by (simp add: s6_def s5_def s4_def s3_def s2_def)
    show "Unloaded s6 = Unloaded s @ map (processor_of_index V) [0..<0]"
      by (simp add: s6_def s5_def s4_def s3_def s2_def)
  qed
  moreover have "PoolSupply s6 = rest" by (simp add: s6_def s5_def s4_def s3_def s2_def)
  ultimately show ?thesis using r by blast
qed


lemma example_sys_env_simps:
  "ActiveProcessorCount example_sys_env = 3"
  "processor_of_index example_sys_env i = (0, push_bit (unat (of_nat i :: UINT8)) 1)"
  "kernel_SsAttrib example_sys_env = 0x0093"
  "indices_convert (system_kernel example_sys_env)"
  by (simp_all add: example_sys_env_def processor_of_index_def indices_convert_def
      system_kernel_def list_all_iff NT_SUCCESS_def STATUS_SUCCESS_def)

lemma upt_3: "[0 ..< 3] = [0, 1, 2]"
  by (simp add: numeral_3_eq_3 upt_rec)

lemma example_processors_distinct: "processors_distinct example_sys_env"
  by (simp add: processors_distinct_def example_sys_env_simps upt_3)

lemma example_plain_hardware: "plain_hardware amd64_defs example_sys_env"
  by (simp add: plain_hardware_def example_sys_env_simps(1) upt_3)
     (simp add: example_sys_env_def amd64_defs_def installed_iff multichar_def)

lemma example_svm_supported:
  "SvIsSvmSupported amd64_defs example_sys_env example_handlers (example_system supply)
     = Inr (True, example_system supply)"
proof -
  have v: "Virtualized (example_system supply) (current_processor (example_system supply)) = None"
    by (simp add: example_system_def)
  have e: "\<And>leaf subLeaf. execute_cpuid amd64_defs example_sys_env example_handlers leaf subLeaf
            (example_system supply)
          = Inr (hardware_cpuid example_sys_env (current_processor (example_system supply))
                   leaf subLeaf, example_system supply)"
    by (rule execute_cpuid_hardware [OF v])
  have c: "CPUID_MAX_STANDARD_FN_NUMBER_AND_VENDOR_STRING amd64_defs = 0"
    "CPUID_PROCESSOR_AND_PROCESSOR_FEATURE_IDENTIFIERS_EX amd64_defs = 0x80000001"
    "CPUID_SVM_FEATURES amd64_defs = 0x8000000A"
    "CPUID_FN8000_0001_ECX_SVM amd64_defs = 4" "CPUID_FN8000_000A_EDX_NP amd64_defs = 1"
    "SVM_VM_CR_SVMDIS amd64_defs = 16"
    by (simp_all add: amd64_defs_def)
  have h: "\<And>p leaf subLeaf. hardware_cpuid example_sys_env p leaf subLeaf =
         (if leaf = 0x00000000 then (0xD, multichar ''htuA'', multichar ''DMAc'', multichar ''itne'')
         else if leaf = 0x80000001 then (0, 0, 0x4, 0)
         else if leaf = 0x8000000A then (0, 0, 0, 0x1)
         else (0, 0, 0, 0))"
    by (simp add: example_sys_env_def)
  have msr: "\<And>p r. CpuMsr (example_system supply) p r = 0" by (simp add: example_system_def)
  show ?thesis
    by (simp add: SvIsSvmSupported_def e c h msr)
qed

text \<open>
  C2. \<open>SvVirtualizeAllProcessors\<close> on a machine of \<open>N\<close> processors, none of them
  virtualized, on which SVM is supported: the pool gives the shared data and the blocks
  of the processors \<open>0\<close> to \<open>k - 1\<close>, and the call of \<open>SvVirtualizeProcessor\<close> on processor
  \<open>k\<close>, with \<open>0 < k < N\<close>, fails for lack of memory. Then the function returns the error
  status \<open>STATUS_INSUFFICIENT_RESOURCES\<close>; the processors that were launched are those
  of the indices \<open>0\<close> to \<open>k - 1\<close>, and exactly these have unloaded, so the processors
  \<open>k\<close> to \<open>N - 1\<close> were never virtualized; no processor is virtualized on return; the
  shared data and the MSR permissions map are freed, as are the blocks of the
  processors: the pool and the contiguous memory hold what they held before the call.
\<close>

theorem SvVirtualizeAllProcessors_rolls_back:
  assumes d: "cpuid_labels_distinct D" and ok: "msrpm_defs_ok D"
    and sz: "unat (SVM_MSR_PERMISSIONS_MAP_SIZE D) mod 4 = 0"
    and dpl: "SEGMENT_ATTRIBUTE_Dpl D (kernel_SsAttrib V) = DPL_SYSTEM D"
    and conv: "indices_convert (system_kernel V)"
    and pd: "processors_distinct V" and hw: "plain_hardware D V"
    and nv: "\<forall>q. Virtualized s q = None"
    and sup: "SvIsSvmSupported D V H s = Inr (True, s)"
    and fs: "fresh_supply s shared L tail" and len: "length L = 2 * k"
    and f: "allocation_fails_next tail"
    and cs: "ContiguousSupply s = m # crest" and m: "m \<noteq> 0" and mf: "m \<notin> Contiguous s"
    and k: "0 < k" "k < ActiveProcessorCount V"
  shows "\<exists>s'. SvVirtualizeAllProcessors D V H s = Inr (STATUS_INSUFFICIENT_RESOURCES, s')
          \<and> \<not> NT_SUCCESS STATUS_INSUFFICIENT_RESOURCES
          \<and> (\<forall>q. Virtualized s' q = None)
          \<and> Launched s' = Launched s @ map (processor_of_index V) [0 ..< k]
          \<and> Unloaded s' = Unloaded s @ map (processor_of_index V) [0 ..< k]
          \<and> Pool s' = Pool s \<and> Contiguous s' = Contiguous s"
proof -
  note F = fresh_supplyD [OF fs]
  define N where "N = ActiveProcessorCount V"
  have N: "N = KeQueryActiveProcessorCountEx (system_kernel V)"
    by (simp add: N_def system_kernel_def)
  have kN: "k < N" "k \<le> ActiveProcessorCount V" using k by (simp_all add: N_def)
  from SvVirtualizeAllProcessors_setup [OF ok sz nv sup F(1) F(2) cs m, of L]
  obtain s6 where r: "SvVirtualizeAllProcessors D V H s =
           (case SvExecuteOnEachProcessor (system_kernel V)
                   (SvVirtualizeProcessor D V H) shared True s6 of
              Inl f \<Rightarrow> Inl f
            | Inr (status, numOfProcessorsCompleted, executed, s7) \<Rightarrow>
                SvVirtualizeAllProcessors_Exit D V H status shared
                  (case numOfProcessorsCompleted of None \<Rightarrow> 0 | Some n \<Rightarrow> n) s7)"
    and i6: "lifecycle_inv V s shared m L 0 0 s6" and p6: "PoolSupply s6 = L @ tail"
    by blast
  from virtualize_prefix [OF i6 p6 len kN(2) F(2) F(3) F(4) hw pd d, of k H]
  obtain t where t: "succeeded_through (system_kernel V) (SvVirtualizeProcessor D V H) shared k s6
                       = Some t"
    "lifecycle_inv V s shared m L 0 k t" "PoolSupply t = tail"
    using len by auto
  from failure_step [OF t(2) t(3) len F(2) f F(6), of D H]
  obtain t' where t': "callback_on_index (system_kernel V) (SvVirtualizeProcessor D V H) shared k t
                 = Inr (STATUS_INSUFFICIENT_RESOURCES, t')"
    "lifecycle_inv V s shared m L 0 k t'"
    by blast
  have ns: "\<not> NT_SUCCESS STATUS_INSUFFICIENT_RESOURCES"
    by (simp add: STATUS_INSUFFICIENT_RESOURCES_def NT_SUCCESS_def)
  have l: "SvExecuteOnEachProcessor_loop (system_kernel V) (SvVirtualizeProcessor D V H) shared
             N 0 STATUS_SUCCESS [0..<0] s6
           = Inr (STATUS_INSUFFICIENT_RESOURCES, k, [0..<Suc k], t')"
    by (rule loop_to_failure [OF conv N kN(1) t(1) t'(1) ns]) simp_all
  from SvDevirtualizeAllProcessors_rolls_back
         [OF t'(2) k(1) len kN(2) F(2) F(3) F(4) F(5) mf conv hw pd d dpl, of H]
  obtain s' where s': "SvDevirtualizeAllProcessors D V H t' = Inr s'"
    "\<forall>q. Virtualized s' q = None"
    "Launched s' = Launched s @ map (processor_of_index V) [0 ..< k]"
    "Unloaded s' = Unloaded s @ map (processor_of_index V) [0 ..< k]"
    "Pool s' = Pool s" "Contiguous s' = Contiguous s"
    by blast
  have "SvVirtualizeAllProcessors D V H s = Inr (STATUS_INSUFFICIENT_RESOURCES, s')"
    unfolding r using l ns k(1) s'(1)
    by (simp add: SvExecuteOnEachProcessor_def N [symmetric] SvVirtualizeAllProcessors_Exit_def)
  with ns s'(2-6) show ?thesis by blast
qed

theorem SvVirtualizeAllProcessors_rolls_back_witness:
  "\<exists>s'. SvVirtualizeAllProcessors amd64_defs example_sys_env example_handlers
           (example_system [0xFFFFA00000001000, 0xFFFFA00000002000, 0xFFFFA00000003000, 0])
         = Inr (STATUS_INSUFFICIENT_RESOURCES, s')
     \<and> \<not> NT_SUCCESS STATUS_INSUFFICIENT_RESOURCES
     \<and> (\<forall>q. Virtualized s' q = None)
     \<and> Launched s' = [(0, 1)] \<and> Unloaded s' = [(0, 1)]
     \<and> Pool s' = {} \<and> Contiguous s' = {}"
proof -
  let ?s = "example_system [0xFFFFA00000001000, 0xFFFFA00000002000, 0xFFFFA00000003000, 0]"
  have sz: "unat (SVM_MSR_PERMISSIONS_MAP_SIZE amd64_defs) mod 4 = 0"
    by (simp add: amd64_msrpm(5))
  have dpl: "SEGMENT_ATTRIBUTE_Dpl amd64_defs (kernel_SsAttrib example_sys_env)
               = DPL_SYSTEM amd64_defs"
    by (simp add: example_sys_env_simps(3) amd64_defs_def)
  have nv: "\<forall>q. Virtualized ?s q = None" by (simp add: example_system_def)
  have fs: "fresh_supply ?s 0xFFFFA00000001000 [0xFFFFA00000002000, 0xFFFFA00000003000] [0]"
    by (simp add: fresh_supply_def example_system_def)
  have len: "length [0xFFFFA00000002000, 0xFFFFA00000003000 :: UINT64] = 2 * 1" by simp
  have f: "allocation_fails_next [0]" by (simp add: allocation_fails_next_def)
  have cs: "ContiguousSupply ?s = 0xFFFFB00000000000 # []" by (simp add: example_system_def)
  have m: "(0xFFFFB00000000000 :: UINT64) \<noteq> 0" by simp
  have mf: "0xFFFFB00000000000 \<notin> Contiguous ?s" by (simp add: example_system_def)
  have k: "0 < (1 :: nat)" "1 < ActiveProcessorCount example_sys_env"
    by (simp_all add: example_sys_env_simps(1))
  from SvVirtualizeAllProcessors_rolls_back
         [OF amd64_labels(2) amd64_msrpm(1) sz dpl example_sys_env_simps(4)
             example_processors_distinct example_plain_hardware nv example_svm_supported
             fs len f cs m mf k]
  show ?thesis
    by (simp add: example_sys_env_simps(2)) (simp add: example_system_def)
qed

end
